(* ===== verification/Prelude.thy ===== *)
theory Prelude
  imports Complex_Main "HOL-Library.Word" "HOL-Library.Sublist"
begin

text \<open>
  Shared vocabulary of the development: the names of the machine types the Rust
  source uses (\<open>i32\<close>, \<open>i64\<close>, \<open>u8\<close>, raw addresses), the collections of
  simplification rules the component theories fill, and the generic lemmas on
  lists, strings and words that several components need.
  Strings are Isabelle \<open>string\<close>s, i.e.\ lists of 8-bit \<open>char\<close>s: a Rust \<open>&str\<close>
  or \<open>&[u8]\<close> is the list of its bytes, as it lies in memory.
\<close>

type_synonym i32 = "32 word"
type_synonym i64 = "64 word"
type_synonym u8 = "8 word"
type_synonym u32 = "32 word"
type_synonym addr = nat
type_synonym bytes = string

named_theorems host_simps "evaluation rules of the host (SQLite) primitives"
named_theorems wrapper_simps "evaluation rules of the Rust wrappers of src/api.rs"

text \<open>
  What the Rust program does beyond returning a value or an error: a panic, or
  undefined behaviour (a read through a null or dangling pointer, a double free).
  A model function returns \<open>fault + 'a\<close>, \<open>Inl\<close> the fault.
\<close>

datatype fault = Panic string | Undefined string

subsection \<open>Bytes\<close>

definition nul :: char where
  "nul = CHR 0x00"

definition byte_of :: "char \<Rightarrow> nat" where
  "byte_of c = of_char c"

lemma byte_of_less [simp]: "byte_of c < 256"
proof -
  have "of_char c mod 256 < (256::nat)" by simp
  then show ?thesis by (simp add: byte_of_def)
qed

lemma byte_of_inject [simp]: "byte_of c = byte_of d \<longleftrightarrow> c = d"
  by (simp add: byte_of_def)

lemma byte_of_nul [simp]: "byte_of nul = 0"
  by (simp add: byte_of_def nul_def)

lemma byte_of_eq_0_iff: "byte_of c = 0 \<longleftrightarrow> c = nul"
  by (metis byte_of_inject byte_of_nul)

subsection \<open>Lists\<close>

lemma takeWhile_not_nul [simp]: "nul \<notin> set s \<Longrightarrow> takeWhile (\<lambda>c. c \<noteq> nul) s = s"
  by (induction s) auto

lemma takeWhile_not_nul_append [simp]:
  "nul \<notin> set s \<Longrightarrow> takeWhile (\<lambda>c. c \<noteq> nul) (s @ nul # t) = s"
  by (induction s) auto

lemma take_length_append [simp]: "take (length s) (s @ t) = s"
  by simp

lemma count_list_remove1_same [simp]:
  "x \<in> set xs \<Longrightarrow> count_list (remove1 x xs) x = count_list xs x - 1"
  by (induction xs) auto

lemma count_list_remove1_other [simp]:
  "y \<noteq> x \<Longrightarrow> count_list (remove1 y xs) x = count_list xs x"
  by (induction xs) auto

lemma sublist_Cons_not_in:
  "sublist k (c # x) \<Longrightarrow> k \<noteq> [] \<Longrightarrow> c \<notin> set k \<Longrightarrow> sublist k x"
  by (cases k) (auto simp: sublist_Cons_right)

text \<open>An occurrence of a non-empty word none of whose letters occurs in \<open>p\<close>
  cannot overlap \<open>p\<close>.\<close>

lemma sublist_append_no_overlap:
  "sublist k (p @ x) \<Longrightarrow> k \<noteq> [] \<Longrightarrow> \<forall>c \<in> set k. c \<notin> set p \<Longrightarrow> sublist k x"
proof (induction p)
  case Nil
  then show ?case by simp
next
  case (Cons c p)
  then have "sublist k (p @ x)"
    by (auto dest: sublist_Cons_not_in)
  with Cons show ?case by simp
qed

lemma sublist_append_no_overlap_right:
  assumes "sublist k (x @ p)" and "k \<noteq> []" and "\<forall>c \<in> set k. c \<notin> set p"
  shows "sublist k x"
proof -
  have "sublist (rev k) (rev (x @ p))"
    using assms(1) by (simp only: sublist_rev)
  then have "sublist (rev k) (rev p @ rev x)"
    by (simp only: rev_append)
  then have "sublist (rev k) (rev x)"
    by (rule sublist_append_no_overlap) (use assms(2,3) in auto)
  then show ?thesis by simp
qed

subsection \<open>Words\<close>

text \<open>Reading back an integer that fits the signed range of the width.\<close>

lemma sint_word_of_int_in_range:
  fixes v :: int
  assumes "- (2 ^ (LENGTH('a) - 1)) \<le> v" and "v < 2 ^ (LENGTH('a) - 1)"
  shows "sint (word_of_int v :: 'a::len word) = v"
  using assms by (simp add: sint_sbintrunc' signed_take_bit_int_eq_self)

lemma map_sum_eq_Inr_iff [simp]: "map_sum f g x = Inr y \<longleftrightarrow> (\<exists>z. x = Inr z \<and> y = g z)"
  by (cases x) auto

lemma map_sum_eq_Inl_iff [simp]: "map_sum f g x = Inl y \<longleftrightarrow> (\<exists>z. x = Inl z \<and> y = f z)"
  by (cases x) auto

lemma char_of_not_nul: "0 < k \<Longrightarrow> k < 256 \<Longrightarrow> char_of (k :: nat) \<noteq> nul"
proof
  assume k: "0 < k" "k < 256" and c: "char_of k = nul"
  have "(of_char (char_of k) :: nat) = k mod 256" by (rule of_char_of)
  with c k show False by (simp add: nul_def)
qed

end
