(* ===== verification/Rust_Std.thy ===== *)
theory Rust_Std
  imports Prelude
begin

text \<open>
  The primitives of the Rust standard library that \<open>src/api.rs\<close> calls, on the
  byte representation of strings: \<open>CString::new\<close> (rejects an interior nul),
  \<open>CStr::from_ptr\<close> (reads up to the first nul), \<open>str::from_utf8\<close> (UTF-8
  validation with the \<open>valid_up_to\<close> offset of the error), \<open>str::to_lowercase\<close>
  and \<open>str::trim\<close>, \<open>str::contains\<close>, \<open>str::parse\<close> at \<open>i32\<close>, \<open>i64\<close> and
  \<open>f64\<close>, and the integer casts \<open>try_into\<close> and \<open>as\<close>.
  They are modelled from the documented behaviour of the standard library (they are
  not code of this repository). Two abstractions are made and stated where they
  are defined: \<open>to_lowercase\<close> lowers ASCII letters only, and an \<open>f64\<close> is the
  exact decimal value the parser read, not its rounding to a double.
\<close>

subsection \<open>C strings\<close>

text \<open>\<open>CString::new\<close>: the error \<open>NulError\<close> carries the position of the first nul.\<close>

definition cstring_new :: "string \<Rightarrow> nat + string" where
  "cstring_new s = (if nul \<in> set s then Inl (length (takeWhile (\<lambda>c. c \<noteq> nul) s)) else Inr s)"

text \<open>\<open>CStr::from_ptr\<close> on memory holding a nul: the bytes before the first nul.\<close>

definition cstr_from_ptr :: "string \<Rightarrow> string" where
  "cstr_from_ptr m = takeWhile (\<lambda>c. c \<noteq> nul) m"

lemma cstring_new_ok [simp]: "nul \<notin> set s \<Longrightarrow> cstring_new s = Inr s"
  by (simp add: cstring_new_def)

lemma length_takeWhile_not_nul:
  "nul \<in> set s \<Longrightarrow> length (takeWhile (\<lambda>c. c \<noteq> nul) s) < length s"
  by (induction s) auto

lemma cstring_new_err: "nul \<in> set s \<Longrightarrow> \<exists>k. cstring_new s = Inl k \<and> k < length s"
  by (simp add: cstring_new_def length_takeWhile_not_nul)

lemma cstr_from_ptr_terminated [simp]: "nul \<notin> set s \<Longrightarrow> cstr_from_ptr (s @ [nul]) = s"
  by (simp add: cstr_from_ptr_def)

subsection \<open>UTF-8 validation\<close>

definition in_byte_range :: "nat \<Rightarrow> nat \<Rightarrow> char \<Rightarrow> bool" where
  "in_byte_range lo hi c \<longleftrightarrow> lo \<le> byte_of c \<and> byte_of c \<le> hi"

text \<open>
  The length of the well-formed UTF-8 sequence at the head of the bytes, 0 if there
  is none: the table of \<open>core::str::validations\<close> (RFC 3629: no overlong forms, no
  surrogates, nothing above U+10FFFF).
\<close>

fun utf8_char_len :: "string \<Rightarrow> nat" where
  "utf8_char_len [] = 0"
| "utf8_char_len (c # r) =
     (let b = byte_of c in
      if b < 0x80 then 1
      else if 0xC2 \<le> b \<and> b \<le> 0xDF then
        (case r of c1 # _ \<Rightarrow> if in_byte_range 0x80 0xBF c1 then 2 else 0 | [] \<Rightarrow> 0)
      else if 0xE0 \<le> b \<and> b \<le> 0xEF then
        (case r of
          c1 # c2 # _ \<Rightarrow>
            if in_byte_range (if b = 0xE0 then 0xA0 else 0x80) (if b = 0xED then 0x9F else 0xBF) c1
               \<and> in_byte_range 0x80 0xBF c2 then 3 else 0
        | _ \<Rightarrow> 0)
      else if 0xF0 \<le> b \<and> b \<le> 0xF4 then
        (case r of
          c1 # c2 # c3 # _ \<Rightarrow>
            if in_byte_range (if b = 0xF0 then 0x90 else 0x80) (if b = 0xF4 then 0x8F else 0xBF) c1
               \<and> in_byte_range 0x80 0xBF c2 \<and> in_byte_range 0x80 0xBF c3 then 4 else 0
        | _ \<Rightarrow> 0)
      else 0)"

lemma utf8_char_len_le: "utf8_char_len s \<le> length s"
  by (cases s rule: utf8_char_len.cases) (auto simp: Let_def split: list.splits)

lemma utf8_char_len_nonempty: "utf8_char_len s \<noteq> 0 \<Longrightarrow> s \<noteq> []"
  by auto

function utf8_valid_len :: "string \<Rightarrow> nat" where
  "utf8_valid_len s =
     (let n = utf8_char_len s in if n = 0 then 0 else n + utf8_valid_len (drop n s))"
  by pat_completeness auto
termination
proof (relation "measure length")
  fix s :: string and n
  assume "n = utf8_char_len s" and "\<not> n = 0"
  then show "(drop n s, s) \<in> measure length"
    using utf8_char_len_nonempty by auto
qed auto

declare utf8_valid_len.simps [simp del]

lemma utf8_valid_len_le: "utf8_valid_len s \<le> length s"
proof (induction s rule: utf8_valid_len.induct)
  case (1 s)
  show ?case
  proof (cases "utf8_char_len s = 0")
    case True
    then show ?thesis by (simp add: utf8_valid_len.simps [of s])
  next
    case False
    with "1.IH" have "utf8_valid_len (drop (utf8_char_len s) s) \<le> length s - utf8_char_len s"
      by simp
    with False utf8_char_len_le [of s] show ?thesis
      by (simp add: utf8_valid_len.simps [of s] Let_def)
  qed
qed

definition utf8_valid :: "string \<Rightarrow> bool" where
  "utf8_valid s \<longleftrightarrow> utf8_valid_len s = length s"

text \<open>\<open>str::from_utf8\<close>: \<open>Inl\<close> of \<open>valid_up_to\<close> on malformed input.\<close>

definition str_from_utf8 :: "string \<Rightarrow> nat + string" where
  "str_from_utf8 s = (if utf8_valid s then Inr s else Inl (utf8_valid_len s))"

lemma str_from_utf8_valid [simp]: "utf8_valid s \<Longrightarrow> str_from_utf8 s = Inr s"
  by (simp add: str_from_utf8_def)

subsection \<open>Case and white space\<close>

text \<open>
  \<open>str::to_lowercase\<close>, on the ASCII letters. A non-ASCII character is left as it
  is: its bytes are all at least 0x80, so it can neither form nor break an occurrence
  of an ASCII word; the two characters whose lower case is ASCII (U+212A, and U+0130,
  which becomes \<open>i\<close> followed by U+0307) do not create an occurrence of any word
  the affinity rules look for.
\<close>

definition ascii_lower :: "char \<Rightarrow> char" where
  "ascii_lower c = (if 65 \<le> byte_of c \<and> byte_of c \<le> 90 then char_of (byte_of c + 32) else c)"

definition to_lowercase :: "string \<Rightarrow> string" where
  "to_lowercase s = map ascii_lower s"

text \<open>
  The encodings of the characters with the Unicode property White_Space, which
  \<open>char::is_whitespace\<close> and hence \<open>str::trim\<close> remove.
\<close>

definition white_space :: "string list" where
  "white_space =
     [[CHR 0x09], [CHR 0x0A], [CHR 0x0B], [CHR 0x0C], [CHR 0x0D], [CHR 0x20],
      [CHR 0xC2, CHR 0x85], [CHR 0xC2, CHR 0xA0], [CHR 0xE1, CHR 0x9A, CHR 0x80],
      [CHR 0xE2, CHR 0x80, CHR 0x80], [CHR 0xE2, CHR 0x80, CHR 0x81],
      [CHR 0xE2, CHR 0x80, CHR 0x82], [CHR 0xE2, CHR 0x80, CHR 0x83],
      [CHR 0xE2, CHR 0x80, CHR 0x84], [CHR 0xE2, CHR 0x80, CHR 0x85],
      [CHR 0xE2, CHR 0x80, CHR 0x86], [CHR 0xE2, CHR 0x80, CHR 0x87],
      [CHR 0xE2, CHR 0x80, CHR 0x88], [CHR 0xE2, CHR 0x80, CHR 0x89],
      [CHR 0xE2, CHR 0x80, CHR 0x8A], [CHR 0xE2, CHR 0x80, CHR 0xA8],
      [CHR 0xE2, CHR 0x80, CHR 0xA9], [CHR 0xE2, CHR 0x80, CHR 0xAF],
      [CHR 0xE2, CHR 0x81, CHR 0x9F], [CHR 0xE3, CHR 0x80, CHR 0x80]]"

lemma white_space_nonempty: "w \<in> set white_space \<Longrightarrow> w \<noteq> []"
  by (auto simp: white_space_def)

lemma find_white_space:
  "find (\<lambda>w. P w) white_space = Some w \<Longrightarrow> w \<in> set white_space \<and> P w"
  by (metis find_Some_iff nth_mem)

function trim_start :: "string \<Rightarrow> string" where
  "trim_start s =
     (case find (\<lambda>w. prefix w s) white_space of
        Some w \<Rightarrow> trim_start (drop (length w) s)
      | None \<Rightarrow> s)"
  by pat_completeness auto
termination
proof (relation "measure length")
  fix s w
  assume "find (\<lambda>w. prefix w s) white_space = Some w"
  then have "w \<noteq> []" and "prefix w s"
    using find_white_space white_space_nonempty by blast+
  then show "(drop (length w) s, s) \<in> measure length"
    by (auto simp: prefix_def)
qed auto

function trim_end :: "string \<Rightarrow> string" where
  "trim_end s =
     (case find (\<lambda>w. suffix w s) white_space of
        Some w \<Rightarrow> trim_end (take (length s - length w) s)
      | None \<Rightarrow> s)"
  by pat_completeness auto
termination
proof (relation "measure length")
  fix s w
  assume "find (\<lambda>w. suffix w s) white_space = Some w"
  then have "w \<noteq> []" and "suffix w s"
    using find_white_space white_space_nonempty by blast+
  then show "(take (length s - length w) s, s) \<in> measure length"
    by (auto simp: suffix_def)
qed auto

definition trim :: "string \<Rightarrow> string" where
  "trim s = trim_end (trim_start s)"

declare trim_start.simps [simp del] trim_end.simps [simp del]

text \<open>The bytes of the white-space encodings: what \<open>trim\<close> may remove.\<close>

definition ws_bytes :: "char set" where
  "ws_bytes = set (concat white_space)"

lemma trim_start_split: "\<exists>p. s = p @ trim_start s \<and> set p \<subseteq> ws_bytes"
proof (induction s rule: trim_start.induct)
  case (1 s)
  show ?case
  proof (cases "find (\<lambda>w. prefix w s) white_space")
    case None
    have "trim_start s = s"
      by (subst trim_start.simps [of s]) (simp only: None option.case)
    then have "s = [] @ trim_start s \<and> set [] \<subseteq> ws_bytes" by simp
    then show ?thesis by (rule exI)
  next
    case (Some w)
    then have w: "w \<in> set white_space" "prefix w s"
      using find_white_space [of "\<lambda>w. prefix w s"] by blast+
    from "1.IH" [OF Some] obtain p where
      p: "drop (length w) s = p @ trim_start (drop (length w) s)" "set p \<subseteq> ws_bytes"
      by blast
    have s: "s = w @ drop (length w) s"
      using w(2) by (auto simp: prefix_def)
    have ts: "trim_start s = trim_start (drop (length w) s)"
      by (subst trim_start.simps [of s]) (simp only: Some option.case)
    have "s = (w @ p) @ trim_start s"
      using s ts p(1) by (metis append.assoc)
    moreover have "set (w @ p) \<subseteq> ws_bytes"
      using w(1) p(2) by (auto simp: ws_bytes_def)
    ultimately show ?thesis by (intro exI [of _ "w @ p"] conjI)
  qed
qed

lemma trim_end_split: "\<exists>q. s = trim_end s @ q \<and> set q \<subseteq> ws_bytes"
proof (induction s rule: trim_end.induct)
  case (1 s)
  show ?case
  proof (cases "find (\<lambda>w. suffix w s) white_space")
    case None
    have "trim_end s = s"
      by (subst trim_end.simps [of s]) (simp only: None option.case)
    then have "s = trim_end s @ [] \<and> set [] \<subseteq> ws_bytes" by simp
    then show ?thesis by (rule exI)
  next
    case (Some w)
    then have w: "w \<in> set white_space" "suffix w s"
      using find_white_space [of "\<lambda>w. suffix w s"] by blast+
    let ?r = "take (length s - length w) s"
    from "1.IH" [OF Some] obtain q where
      q: "?r = trim_end ?r @ q" "set q \<subseteq> ws_bytes"
      by blast
    have s: "s = ?r @ w"
      using w(2) by (auto simp: suffix_def)
    have te: "trim_end s = trim_end ?r"
      by (subst trim_end.simps [of s]) (simp only: Some option.case)
    have "s = trim_end s @ (q @ w)"
      using s te q(1) by (metis append.assoc)
    moreover have "set (q @ w) \<subseteq> ws_bytes"
      using w(1) q(2) by (auto simp: ws_bytes_def)
    ultimately show ?thesis by (intro exI [of _ "q @ w"] conjI)
  qed
qed

lemma trim_split: "\<exists>p q. s = p @ trim s @ q \<and> set p \<subseteq> ws_bytes \<and> set q \<subseteq> ws_bytes"
proof -
  obtain p where p: "s = p @ trim_start s" "set p \<subseteq> ws_bytes"
    using trim_start_split by blast
  obtain q where q: "trim_start s = trim_end (trim_start s) @ q" "set q \<subseteq> ws_bytes"
    using trim_end_split by blast
  have t: "trim_start s = trim s @ q"
    using q(1) by (simp only: trim_def)
  have "p @ trim_start s = p @ trim s @ q"
    by (simp only: t)
  with p(1) have "s = p @ trim s @ q"
    by (rule trans)
  with p(2) q(2) show ?thesis by (intro exI [of _ p] exI [of _ q] conjI)
qed

lemma ws_bytes_not_upper: "\<forall>c \<in> ws_bytes. \<not> (65 \<le> byte_of c \<and> byte_of c \<le> 90)"
  unfolding ws_bytes_def by code_simp

lemma ascii_lower_ws_bytes:
  assumes "c \<in> ws_bytes"
  shows "ascii_lower c = c"
proof -
  have "\<not> (65 \<le> byte_of c \<and> byte_of c \<le> 90)"
    using assms ws_bytes_not_upper by blast
  then show ?thesis unfolding ascii_lower_def by auto
qed

lemma to_lowercase_ws: "set p \<subseteq> ws_bytes \<Longrightarrow> to_lowercase p = p"
  by (induction p) (auto simp: to_lowercase_def ascii_lower_ws_bytes)

lemma to_lowercase_append [simp]: "to_lowercase (s @ t) = to_lowercase s @ to_lowercase t"
  by (simp add: to_lowercase_def)

lemma to_lowercase_Nil_iff [simp]: "to_lowercase s = [] \<longleftrightarrow> s = []"
  by (simp add: to_lowercase_def)

text \<open>Trimming neither creates nor destroys an occurrence of a word of non-blank
  bytes in the lower-cased string.\<close>

lemma contains_lower_trim:
  assumes "k \<noteq> []" and "\<forall>c \<in> set k. c \<notin> ws_bytes"
  shows "sublist k (to_lowercase (trim s)) \<longleftrightarrow> sublist k (to_lowercase s)"
proof -
  obtain p q where pq: "s = p @ trim s @ q" "set p \<subseteq> ws_bytes" "set q \<subseteq> ws_bytes"
    using trim_split by blast
  let ?m = "to_lowercase (trim s)"
  have low: "to_lowercase s = p @ ?m @ q"
    using pq by (metis to_lowercase_append to_lowercase_ws)
  have disj: "\<forall>c \<in> set k. c \<notin> set p" "\<forall>c \<in> set k. c \<notin> set q"
    using assms(2) pq(2,3) by auto
  show ?thesis
  proof
    assume "sublist k ?m"
    then obtain a b where "?m = a @ k @ b"
      by (auto simp: sublist_def)
    then have "to_lowercase s = (p @ a) @ k @ (b @ q)"
      by (simp add: low)
    then show "sublist k (to_lowercase s)"
      unfolding sublist_def by blast
  next
    assume "sublist k (to_lowercase s)"
    then have "sublist k (p @ (?m @ q))" by (simp add: low)
    then have "sublist k (?m @ q)"
      using sublist_append_no_overlap assms(1) disj(1) by blast
    then show "sublist k ?m"
      using sublist_append_no_overlap_right assms(1) disj(2) by blast
  qed
qed

text \<open>\<open>str::contains\<close> for a string pattern: an occurrence at some position.\<close>

fun str_contains :: "string \<Rightarrow> string \<Rightarrow> bool" where
  "str_contains [] pat \<longleftrightarrow> pat = []"
| "str_contains (c # cs) pat \<longleftrightarrow> prefix pat (c # cs) \<or> str_contains cs pat"

lemma str_contains_sublist: "str_contains s pat \<longleftrightarrow> sublist pat s"
  by (induction s) (auto simp: sublist_Cons_right)

subsection \<open>Numbers\<close>

definition is_digit :: "char \<Rightarrow> bool" where
  "is_digit c \<longleftrightarrow> 48 \<le> byte_of c \<and> byte_of c \<le> 57"

definition digit_val :: "char \<Rightarrow> int" where
  "digit_val c = int (byte_of c) - 48"

fun digits_value :: "int \<Rightarrow> string \<Rightarrow> int" where
  "digits_value acc [] = acc"
| "digits_value acc (c # cs) = digits_value (10 * acc + digit_val c) cs"

text \<open>
  The grammar of \<open>FromStr\<close> for a signed integer type: \<open>[+-]?[0-9]+\<close>, the whole
  string, with its mathematical value.
\<close>

definition parse_decimal :: "string \<Rightarrow> int option" where
  "parse_decimal s =
     (case s of
        [] \<Rightarrow> None
      | c # r \<Rightarrow>
          if c = CHR ''+'' \<or> c = CHR ''-'' then
            (if r \<noteq> [] \<and> list_all is_digit r
             then Some ((if c = CHR ''-'' then -1 else 1) * digits_value 0 r) else None)
          else if list_all is_digit s then Some (digits_value 0 s) else None)"

text \<open>\<open>str::parse::<iN>\<close>: the value must lie in the signed range of the width.\<close>

definition parse_signed :: "string \<Rightarrow> 'a::len word option" where
  "parse_signed s =
     (case parse_decimal s of
        None \<Rightarrow> None
      | Some v \<Rightarrow>
          if - (2 ^ (LENGTH('a) - 1)) \<le> v \<and> v < 2 ^ (LENGTH('a) - 1)
          then Some (word_of_int v) else None)"

abbreviation parse_i32 :: "string \<Rightarrow> i32 option" where
  "parse_i32 \<equiv> parse_signed"

abbreviation parse_i64 :: "string \<Rightarrow> i64 option" where
  "parse_i64 \<equiv> parse_signed"

lemma parse_signed_Some:
  "parse_signed s = (Some w :: 'a::len word option) \<Longrightarrow> parse_decimal s = Some (sint w)"
  by (auto simp: parse_signed_def sint_word_of_int_in_range split: option.splits if_splits)

lemma parse_signed_None_range:
  "parse_decimal s = Some v \<Longrightarrow> 2 ^ (LENGTH('a) - 1) \<le> v \<Longrightarrow>
   (parse_signed s :: 'a::len word option) = None"
  by (simp add: parse_signed_def)

text \<open>
  An \<open>f64\<close> as the parser produces it: the exact decimal value read (rounding to
  the nearest double, the sign of a zero and overflow to infinity are not modelled),
  an infinity, or NaN.
\<close>

datatype f64 = Finite rat | Inf | NegInf | NaN

definition parse_exponent :: "string \<Rightarrow> int option" where
  "parse_exponent r =
     (case r of
        [] \<Rightarrow> Some 0
      | c # t \<Rightarrow> if c = CHR ''e'' \<or> c = CHR ''E'' then parse_decimal t else None)"

text \<open>\<open>Number ::= (Digit+ | Digit+ '.' Digit* | Digit* '.' Digit+) Exp?\<close>\<close>

definition parse_float_number :: "string \<Rightarrow> rat option" where
  "parse_float_number s =
     (let ip = takeWhile is_digit s; r1 = dropWhile is_digit s;
          (fp, r2) = (case r1 of
                        c # r \<Rightarrow> if c = CHR ''.'' then (takeWhile is_digit r, dropWhile is_digit r)
                                 else ([], r1)
                      | [] \<Rightarrow> ([], []))
      in if ip = [] \<and> fp = [] then None
         else map_option (\<lambda>e. of_int (digits_value 0 (ip @ fp)) * 10 powi (e - int (length fp)))
                (parse_exponent r2))"

text \<open>\<open>Float ::= Sign? ('inf' | 'infinity' | 'nan' | Number)\<close>, case-insensitive.\<close>

definition parse_f64 :: "string \<Rightarrow> f64 option" where
  "parse_f64 s =
     (let (neg, r) = (case s of
                        c # t \<Rightarrow> if c = CHR ''+'' then (False, t)
                                 else if c = CHR ''-'' then (True, t) else (False, s)
                      | [] \<Rightarrow> (False, []));
          l = to_lowercase r
      in if l = ''inf'' \<or> l = ''infinity'' then Some (if neg then NegInf else Inf)
         else if l = ''nan'' then Some NaN
         else map_option (\<lambda>q. Finite (if neg then - q else q)) (parse_float_number r))"

subsection \<open>Integer casts\<close>

text \<open>\<open>usize::try_into::<i32>\<close> fails above \<open>i32::MAX\<close>; \<open>usize as i32\<close> keeps the low
  32 bits.\<close>

definition try_into_i32 :: "nat \<Rightarrow> i32 option" where
  "try_into_i32 n = (if n < 2 ^ 31 then Some (word_of_nat n) else None)"

definition as_i32 :: "nat \<Rightarrow> i32" where
  "as_i32 n = word_of_nat n"

lemma try_into_i32_sint:
  assumes "try_into_i32 n = Some w"
  shows "sint w = int n"
proof -
  from assms have n: "n < 2 ^ 31" and w: "w = word_of_int (int n)"
    by (auto simp: try_into_i32_def split: if_splits)
  have "int n < 2 ^ (LENGTH(32) - 1)"
    using n by simp
  moreover have "- (2 ^ (LENGTH(32) - 1)) \<le> int n"
    by simp
  ultimately have "sint (word_of_int (int n) :: 32 word) = int n"
    by (rule sint_word_of_int_in_range [rotated])
  with w show ?thesis by simp
qed

subsection \<open>Parsing and nul bytes\<close>

text \<open>A parse succeeds exactly in range, and no text holding a nul byte parses as a
  number: the affinity coercion of such a text reaches \<open>result_text\<close>.\<close>

lemma sint_scast_i32 [simp]: "sint (scast (v :: i32) :: i64) = sint v"
  by (simp add: sint_up_scast is_up)

lemma parse_signed_None_Some:
  "parse_signed s = (None :: 'a::len word option) \<Longrightarrow> parse_decimal s = Some v \<Longrightarrow>
   v < - (2 ^ (LENGTH('a) - 1)) \<or> 2 ^ (LENGTH('a) - 1) \<le> v"
  by (auto simp: parse_signed_def split: if_splits)

lemma parse_signed_in_range:
  "parse_decimal s = Some v \<Longrightarrow> - (2 ^ (LENGTH('a) - 1)) \<le> v \<Longrightarrow> v < 2 ^ (LENGTH('a) - 1) \<Longrightarrow>
   parse_signed s = Some (word_of_int v :: 'a::len word)"
  by (simp add: parse_signed_def)

lemma nul_not_digit [simp]: "\<not> is_digit nul"
  by (simp add: is_digit_def)

lemma nul_not_sign [simp]: "nul \<noteq> CHR ''+''" "nul \<noteq> CHR ''-''" "nul \<noteq> CHR ''.''"
  "nul \<noteq> CHR ''e''" "nul \<noteq> CHR ''E''"
  by (simp_all add: nul_def)

lemma digits_no_nul: "list_all is_digit s \<Longrightarrow> nul \<notin> set s"
  by (induction s) auto

lemma parse_decimal_nul: "nul \<in> set s \<Longrightarrow> parse_decimal s = None"
  using digits_no_nul by (cases s) (auto simp: parse_decimal_def)

lemma parse_exponent_nul: "nul \<in> set r \<Longrightarrow> parse_exponent r = None"
  by (auto simp: parse_exponent_def parse_decimal_nul split: list.splits)

lemma parse_float_number_nul:
  assumes "nul \<in> set s"
  shows "parse_float_number s = None"
proof -
  let ?r1 = "dropWhile is_digit s"
  have "nul \<in> set ?r1"
    using assms by (metis Un_iff nul_not_digit set_append set_takeWhileD takeWhile_dropWhile_id)
  then obtain c r where r1: "?r1 = c # r" by (cases ?r1) auto
  show ?thesis
  proof (cases "c = CHR ''.''")
    case True
    with r1 \<open>nul \<in> set ?r1\<close> have "nul \<in> set r" by auto
    then have "nul \<in> set (dropWhile is_digit r)"
      by (metis Un_iff nul_not_digit set_append set_takeWhileD takeWhile_dropWhile_id)
    with True r1 show ?thesis
      by (simp add: parse_float_number_def parse_exponent_nul Let_def)
  next
    case False
    with r1 \<open>nul \<in> set ?r1\<close> show ?thesis
      by (simp add: parse_float_number_def parse_exponent_nul Let_def)
  qed
qed

lemma to_lowercase_Nil [simp]: "to_lowercase [] = []"
  by (simp add: to_lowercase_def)

lemma to_lowercase_nul: "nul \<in> set s \<Longrightarrow> nul \<in> set (to_lowercase s)"
  by (force simp: to_lowercase_def ascii_lower_def)

lemma nul_no_float_word:
  assumes "nul \<in> set r"
  shows "to_lowercase r \<noteq> ''inf'' \<and> to_lowercase r \<noteq> ''infinity'' \<and> to_lowercase r \<noteq> ''nan''
         \<and> parse_float_number r = None"
proof -
  have l: "nul \<in> set (to_lowercase r)" using assms by (rule to_lowercase_nul)
  then show ?thesis
    using assms by (auto simp: nul_def parse_float_number_nul)
qed

lemma parse_f64_nul:
  assumes "nul \<in> set s"
  shows "parse_f64 s = None"
proof (cases s)
  case Nil
  with assms show ?thesis by simp
next
  case (Cons c t)
  consider "c = CHR ''+''" | "c = CHR ''-''" | "c \<noteq> CHR ''+''" "c \<noteq> CHR ''-''" by blast
  then show ?thesis
  proof cases
    case 1
    with assms Cons have "nul \<in> set t" by auto
    with 1 Cons show ?thesis by (simp add: parse_f64_def nul_no_float_word)
  next
    case 2
    with assms Cons have "nul \<in> set t" by auto
    with 2 Cons show ?thesis by (simp add: parse_f64_def nul_no_float_word)
  next
    case 3
    with assms Cons show ?thesis
      using nul_no_float_word [OF assms] by (simp add: parse_f64_def)
  qed
qed

lemma parse_signed_nul: "nul \<in> set s \<Longrightarrow> parse_signed s = None"
  by (simp add: parse_signed_def parse_decimal_nul)

lemma parse_i32_i64:
  assumes "parse_i32 s = Some x"
  shows "parse_i64 s = Some (scast x)"
proof -
  have d: "parse_decimal s = Some (sint x)"
    using assms by (rule parse_signed_Some)
  have lo: "- (2 ^ 31) \<le> sint x"
    using sint_ge [of x] by simp
  have hi: "sint x < 2 ^ 31"
    using sint_lt [of x] by simp
  have "parse_i64 s = Some (word_of_int (sint x))"
    using d lo hi by (simp add: parse_signed_def)
  moreover have "scast x = (word_of_int (sint x) :: i64)"
    by (rule scast_eq)
  ultimately show ?thesis by (simp only:)
qed

lemma parse_i64_None: "parse_i64 v = None \<Longrightarrow> parse_i32 v = None"
  by (cases "parse_i32 v") (auto dest: parse_i32_i64)

text \<open>\<open>as i32\<close> read back as a signed number: the length modulo \<open>2^32\<close>,
  shifted into \<open>[-2^31, 2^31)\<close>.\<close>

lemma sint_as_i32:
  "sint (as_i32 n) = (int n + 2 ^ 31) mod 2 ^ 32 - 2 ^ 31"
  using int_word_sint [where x = "int n", where 'a = 32] by (simp add: as_i32_def)

lemma sint_as_i32_neg:
  assumes "2 ^ 31 \<le> n" "n < 2 ^ 32"
  shows "sint (as_i32 n) = int n - 2 ^ 32"
proof -
  let ?y = "int n + 2 ^ 31 - 2 ^ 32"
  have y: "0 \<le> ?y" "?y < 2 ^ 32" using assms by simp_all
  have "(int n + 2 ^ 31) mod 2 ^ 32 = (?y + 2 ^ 32) mod 2 ^ 32" by (simp add: add.commute)
  also have "\<dots> = ?y mod 2 ^ 32" by (rule mod_add_self2)
  also have "\<dots> = ?y" using y by (rule mod_pos_pos_trivial)
  finally have "(int n + 2 ^ 31) mod 2 ^ 32 = ?y" .
  then show ?thesis by (simp add: sint_as_i32)
qed

lemma as_i32_wrap: "as_i32 (2 ^ 32 + k) = as_i32 k"
  by (simp add: as_i32_def)

subsection \<open>Trimming commutes with lower-casing\<close>

text \<open>No white-space byte is an ASCII letter, so the white space found at either end
  of a string is found at the same place in its lower-cased form.\<close>

lemma ws_bytes_not_lower: "\<forall>c \<in> ws_bytes. \<not> (97 \<le> byte_of c \<and> byte_of c \<le> 122)"
  unfolding ws_bytes_def by code_simp

lemma ascii_lower_eq_ws:
  assumes "x \<in> ws_bytes"
  shows "ascii_lower c = x \<longleftrightarrow> c = x"
proof (cases "65 \<le> byte_of c \<and> byte_of c \<le> 90")
  case True
  then have "byte_of (ascii_lower c) = byte_of c + 32"
    by (simp add: ascii_lower_def byte_of_def)
  with True have "97 \<le> byte_of (ascii_lower c) \<and> byte_of (ascii_lower c) \<le> 122" by simp
  moreover have "\<not> (65 \<le> byte_of x \<and> byte_of x \<le> 90)" using assms ws_bytes_not_upper by blast
  ultimately show ?thesis using assms ws_bytes_not_lower True by auto
next
  case False
  then show ?thesis by (auto simp: ascii_lower_def)
qed

lemma length_to_lowercase: "length (to_lowercase s) = length s"
  by (simp add: to_lowercase_def)

lemma prefix_lower_ws:
  "set w \<subseteq> ws_bytes \<Longrightarrow> prefix w (to_lowercase s) \<longleftrightarrow> prefix w s"
proof (induction w arbitrary: s)
  case Nil
  then show ?case by simp
next
  case (Cons x w)
  have x: "x \<in> ws_bytes" "set w \<subseteq> ws_bytes" using Cons.prems by auto
  show ?case
  proof (cases s)
    case Nil
    then show ?thesis by (simp add: to_lowercase_def)
  next
    case (Cons a l)
    have "(x = ascii_lower a) = (x = a)" using ascii_lower_eq_ws [OF x(1), of a] by auto
    then show ?thesis
      using "Cons.IH" [OF x(2), of l] by (simp add: to_lowercase_def Cons)
  qed
qed

lemma white_space_ws_bytes: "w \<in> set white_space \<Longrightarrow> set w \<subseteq> ws_bytes"
  by (auto simp: ws_bytes_def)

lemma find_prefix_lower:
  "find (\<lambda>w. prefix w (to_lowercase s)) white_space = find (\<lambda>w. prefix w s) white_space"
  by (rule find_cong) (simp_all add: prefix_lower_ws white_space_ws_bytes)

lemma trim_start_lower: "trim_start (to_lowercase s) = to_lowercase (trim_start s)"
proof (induction s rule: trim_start.induct)
  case (1 s)
  show ?case
  proof (cases "find (\<lambda>w. prefix w s) white_space")
    case None
    then show ?thesis
      by (simp add: trim_start.simps [of s] trim_start.simps [of "to_lowercase s"] find_prefix_lower)
  next
    case (Some w)
    have "drop (length w) (to_lowercase s) = to_lowercase (drop (length w) s)"
      by (simp add: to_lowercase_def drop_map)
    with Some "1.IH" [OF Some] show ?thesis
      by (simp add: trim_start.simps [of s] trim_start.simps [of "to_lowercase s"] find_prefix_lower)
  qed
qed

lemma suffix_lower_ws:
  "set w \<subseteq> ws_bytes \<Longrightarrow> suffix w (to_lowercase s) \<longleftrightarrow> suffix w s"
proof -
  assume w: "set w \<subseteq> ws_bytes"
  have "suffix w (to_lowercase s) \<longleftrightarrow> prefix (rev w) (to_lowercase (rev s))"
    by (simp add: suffix_to_prefix to_lowercase_def rev_map)
  also have "\<dots> \<longleftrightarrow> prefix (rev w) (rev s)" using w by (simp add: prefix_lower_ws)
  also have "\<dots> \<longleftrightarrow> suffix w s" by (simp add: suffix_to_prefix)
  finally show ?thesis .
qed

lemma find_suffix_lower:
  "find (\<lambda>w. suffix w (to_lowercase s)) white_space = find (\<lambda>w. suffix w s) white_space"
  by (rule find_cong) (simp_all add: suffix_lower_ws white_space_ws_bytes)

lemma trim_end_lower: "trim_end (to_lowercase s) = to_lowercase (trim_end s)"
proof (induction s rule: trim_end.induct)
  case (1 s)
  show ?case
  proof (cases "find (\<lambda>w. suffix w s) white_space")
    case None
    then show ?thesis
      by (simp add: trim_end.simps [of s] trim_end.simps [of "to_lowercase s"] find_suffix_lower)
  next
    case (Some w)
    have "take (length s - length w) (to_lowercase s) = to_lowercase (take (length s - length w) s)"
      by (simp add: to_lowercase_def take_map)
    with Some "1.IH" [OF Some] show ?thesis
      by (simp add: trim_end.simps [of s] trim_end.simps [of "to_lowercase s"] find_suffix_lower
          length_to_lowercase)
  qed
qed

lemma trim_lower: "trim (to_lowercase s) = to_lowercase (trim s)"
  by (simp add: trim_def trim_start_lower trim_end_lower)

end
