(* ===== verification/Value_Type.thy ===== *)
theory Value_Type
  imports Rust_Std
begin

text \<open>
  TypeTag resolution (\<open>src/api.rs\<close>, \<open>enum ValueType\<close> and \<open>fn value_type\<close>):
  the host reports the storage class of a value as an integer, which the wrapper
  turns into the closed enumeration \<open>ValueType\<close>, panicking
  (\<open>unreachable!()\<close>) on any other integer.
  The constants are SQLite's published storage-class codes.
\<close>

datatype ValueType = Text | Integer | Float | Blob | Null

definition SQLITE_INTEGER :: u32 where "SQLITE_INTEGER = 1"
definition SQLITE_FLOAT :: u32 where "SQLITE_FLOAT = 2"
definition SQLITE_TEXT :: u32 where "SQLITE_TEXT = 3"
definition SQLITE_BLOB :: u32 where "SQLITE_BLOB = 4"
definition SQLITE_NULL :: u32 where "SQLITE_NULL = 5"

lemmas sqlite_type_codes =
  SQLITE_INTEGER_def SQLITE_FLOAT_def SQLITE_TEXT_def SQLITE_BLOB_def SQLITE_NULL_def

text \<open>The match of \<open>value_type\<close> on \<open>raw_type as u32\<close>, in the source's order.\<close>

definition value_type_of_raw :: "i32 \<Rightarrow> fault + ValueType" where
  "value_type_of_raw raw_type =
     (let r = (ucast raw_type :: u32) in
      if r = SQLITE_TEXT then Inr ValueType.Text
      else if r = SQLITE_INTEGER then Inr ValueType.Integer
      else if r = SQLITE_FLOAT then Inr ValueType.Float
      else if r = SQLITE_BLOB then Inr ValueType.Blob
      else if r = SQLITE_NULL then Inr ValueType.Null
      else Inl (Panic ''internal error: entered unreachable code''))"

text \<open>The code the host uses for each storage class.\<close>

primrec raw_of_value_type :: "ValueType \<Rightarrow> i32" where
  "raw_of_value_type ValueType.Text = 3"
| "raw_of_value_type ValueType.Integer = 1"
| "raw_of_value_type ValueType.Float = 2"
| "raw_of_value_type ValueType.Blob = 4"
| "raw_of_value_type ValueType.Null = 5"

lemma raw_of_value_type_range: "raw_of_value_type t \<in> {1, 2, 3, 4, 5}"
  by (cases t) simp_all

lemma raw_of_value_type_inj: "raw_of_value_type s = raw_of_value_type t \<longleftrightarrow> s = t"
  by (cases s; cases t) simp_all

text \<open>C19: decoding is exact: a code decodes to a storage class exactly when it is
  the host's code for that class, so decoding inverts the host's encoding.\<close>

theorem value_type_of_raw_exact:
  "value_type_of_raw r = Inr t \<longleftrightarrow> r = raw_of_value_type t"
  by (cases t) (auto simp: value_type_of_raw_def sqlite_type_codes Let_def split: if_splits)

text \<open>C31: any other code makes \<open>value_type\<close> panic with \<open>unreachable!()\<close>.\<close>

theorem value_type_of_raw_panic:
  "r \<notin> {1, 2, 3, 4, 5} \<Longrightarrow>
   value_type_of_raw r = Inl (Panic ''internal error: entered unreachable code'')"
  by (auto simp: value_type_of_raw_def sqlite_type_codes Let_def)

theorem value_type_of_raw_panic_witness:
  "(0 :: i32) \<notin> {1, 2, 3, 4, 5} \<and>
   value_type_of_raw 0 = Inl (Panic ''internal error: entered unreachable code'')"
  using value_type_of_raw_panic [of 0] by simp

end
