(* ===== verification/Host_Value.thy ===== *)
theory Host_Value
  imports Value_Type
begin

text \<open>
  The host side of a value handle (\<open>sqlite3_value\<close>): what SQLite stores for a
  value and what its accessor primitives return, as the wrappers of \<open>src/api.rs\<close>
  see them through \<open>crate::ext\<close> (\<open>sqlite3ext_value_type\<close>, \<open>_text\<close>,
  \<open>_bytes\<close>, \<open>_blob\<close>, \<open>_int\<close>, \<open>_int64\<close>, \<open>_double\<close>, \<open>_pointer\<close>).
  These are modelled from SQLite's documented behaviour; the numeric coercions the
  host applies to text and reals are not re-specified here (the wrapper passes them
  through): they are the fields of the interface record \<open>host_conv\<close>, and every
  lemma holds for any host that provides them.
  Memory the host hands out is modelled by its content: \<open>None\<close> is a NULL pointer,
  \<open>Some m\<close> the bytes readable from the pointer on.
\<close>

text \<open>
  A value: one of the five storage classes, or a NULL that carries a pointer bound with
  a type name (\<open>sqlite3_result_pointer\<close>, \<open>sqlite3_bind_pointer\<close>). Text is kept as
  its UTF-8 bytes, an integer at 64 bits.
\<close>

datatype sqlite_value =
    VNull
  | VInteger i64
  | VFloat f64
  | VText string
  | VBlob string
  | VPointer addr string

record host_conv =
  text_of_float :: "f64 \<Rightarrow> string"
  int_of_float :: "f64 \<Rightarrow> i64"
  int_of_text :: "string \<Rightarrow> i64"
  float_of_text :: "string \<Rightarrow> f64"

text \<open>The decimal rendering of an integer (\<open>sqlite3Int64ToText\<close>).\<close>

fun nat_to_text :: "nat \<Rightarrow> string" where
  "nat_to_text n =
     (if n < 10 then [char_of (48 + n)] else nat_to_text (n div 10) @ [char_of (48 + n mod 10)])"

definition int_to_text :: "int \<Rightarrow> string" where
  "int_to_text i = (if i < 0 then CHR ''-'' # nat_to_text (nat (- i)) else nat_to_text (nat i))"

text \<open>A host whose coercions are fixed, for concrete examples: reals print as
  nothing and texts read as zero.\<close>

definition sample_conv :: host_conv where
  "sample_conv = \<lparr>text_of_float = (\<lambda>f. []), int_of_float = (\<lambda>f. 0), int_of_text = (\<lambda>s. 0),
                  float_of_text = (\<lambda>s. Finite 0)\<rparr>"

subsection \<open>Accessor primitives\<close>

primrec sqlite3_value_type :: "sqlite_value \<Rightarrow> i32" where
  "sqlite3_value_type VNull = 5"
| "sqlite3_value_type (VInteger i) = 1"
| "sqlite3_value_type (VFloat f) = 2"
| "sqlite3_value_type (VText s) = 3"
| "sqlite3_value_type (VBlob b) = 4"
| "sqlite3_value_type (VPointer p n) = 5"

text \<open>\<open>sqlite3_value_text\<close>: a NULL pointer for a NULL value, otherwise the text
  (a number rendered as text, a blob read as text) followed by its nul terminator.\<close>

primrec sqlite3_value_text :: "host_conv \<Rightarrow> sqlite_value \<Rightarrow> string option" where
  "sqlite3_value_text hc VNull = None"
| "sqlite3_value_text hc (VInteger i) = Some (int_to_text (sint i) @ [nul])"
| "sqlite3_value_text hc (VFloat f) = Some (text_of_float hc f @ [nul])"
| "sqlite3_value_text hc (VText s) = Some (s @ [nul])"
| "sqlite3_value_text hc (VBlob b) = Some (b @ [nul])"
| "sqlite3_value_text hc (VPointer p n) = None"

primrec sqlite3_value_bytes :: "host_conv \<Rightarrow> sqlite_value \<Rightarrow> i32" where
  "sqlite3_value_bytes hc VNull = 0"
| "sqlite3_value_bytes hc (VInteger i) = word_of_nat (length (int_to_text (sint i)))"
| "sqlite3_value_bytes hc (VFloat f) = word_of_nat (length (text_of_float hc f))"
| "sqlite3_value_bytes hc (VText s) = word_of_nat (length s)"
| "sqlite3_value_bytes hc (VBlob b) = word_of_nat (length b)"
| "sqlite3_value_bytes hc (VPointer p n) = 0"

text \<open>\<open>sqlite3_value_blob\<close>: for a blob or a text, a NULL pointer when it is empty
  (\<open>return p->n ? p->z : 0\<close>); any other value is read as text.\<close>

primrec sqlite3_value_blob :: "host_conv \<Rightarrow> sqlite_value \<Rightarrow> string option" where
  "sqlite3_value_blob hc VNull = None"
| "sqlite3_value_blob hc (VInteger i) = Some (int_to_text (sint i) @ [nul])"
| "sqlite3_value_blob hc (VFloat f) = Some (text_of_float hc f @ [nul])"
| "sqlite3_value_blob hc (VText s) = (if s = [] then None else Some s)"
| "sqlite3_value_blob hc (VBlob b) = (if b = [] then None else Some b)"
| "sqlite3_value_blob hc (VPointer p n) = None"

text \<open>\<open>sqlite3_value_int\<close> is the low 32 bits of \<open>sqlite3_value_int64\<close>.\<close>

primrec sqlite3_value_int64 :: "host_conv \<Rightarrow> sqlite_value \<Rightarrow> i64" where
  "sqlite3_value_int64 hc VNull = 0"
| "sqlite3_value_int64 hc (VInteger i) = i"
| "sqlite3_value_int64 hc (VFloat f) = int_of_float hc f"
| "sqlite3_value_int64 hc (VText s) = int_of_text hc s"
| "sqlite3_value_int64 hc (VBlob b) = int_of_text hc b"
| "sqlite3_value_int64 hc (VPointer p n) = 0"

definition sqlite3_value_int :: "host_conv \<Rightarrow> sqlite_value \<Rightarrow> i32" where
  "sqlite3_value_int hc v = ucast (sqlite3_value_int64 hc v)"

primrec sqlite3_value_double :: "host_conv \<Rightarrow> sqlite_value \<Rightarrow> f64" where
  "sqlite3_value_double hc VNull = Finite 0"
| "sqlite3_value_double hc (VInteger i) = Finite (of_int (sint i))"
| "sqlite3_value_double hc (VFloat f) = f"
| "sqlite3_value_double hc (VText s) = float_of_text hc s"
| "sqlite3_value_double hc (VBlob b) = float_of_text hc b"
| "sqlite3_value_double hc (VPointer p n) = Finite 0"

text \<open>
  \<open>strcmp\<close> of two type names given as Rust byte slices: it reads both until they
  differ or reach a nul; running off the end of a slice is a read out of bounds.
\<close>

fun c_strcmp_eq :: "string \<Rightarrow> string \<Rightarrow> fault + bool" where
  "c_strcmp_eq (a # as) (b # bs) =
     (if a \<noteq> b then Inr False else if a = nul then Inr True else c_strcmp_eq as bs)"
| "c_strcmp_eq _ _ = Inl (Undefined ''strcmp reads past the end of a type name'')"

text \<open>\<open>sqlite3_value_pointer\<close>: the pointer if the value carries one bound under an
  equal type name, else NULL.\<close>

primrec sqlite3_value_pointer :: "sqlite_value \<Rightarrow> string \<Rightarrow> fault + addr option" where
  "sqlite3_value_pointer VNull name = Inr None"
| "sqlite3_value_pointer (VInteger i) name = Inr None"
| "sqlite3_value_pointer (VFloat f) name = Inr None"
| "sqlite3_value_pointer (VText s) name = Inr None"
| "sqlite3_value_pointer (VBlob b) name = Inr None"
| "sqlite3_value_pointer (VPointer p n) name =
     (case c_strcmp_eq n name of Inl e \<Rightarrow> Inl e | Inr eq \<Rightarrow> Inr (if eq then Some p else None))"

lemmas host_value_simps [host_simps] =
  sqlite3_value_type.simps sqlite3_value_text.simps sqlite3_value_bytes.simps
  sqlite3_value_blob.simps sqlite3_value_int64.simps sqlite3_value_double.simps
  sqlite3_value_pointer.simps

subsection \<open>Type names\<close>

text \<open>A type name read as a C string: the bytes of the slice before its first nul.\<close>

definition nul_terminated :: "string \<Rightarrow> bool" where
  "nul_terminated n \<longleftrightarrow> nul \<in> set n"

lemma c_strcmp_eq_refl:
  "nul_terminated n \<Longrightarrow> c_strcmp_eq n n = Inr True"
  by (induction n) (auto simp: nul_terminated_def)

lemma c_strcmp_eq_cstr:
  "nul_terminated n \<Longrightarrow> nul_terminated m \<Longrightarrow>
   c_strcmp_eq n m = Inr (cstr_from_ptr n = cstr_from_ptr m)"
proof (induction n m rule: c_strcmp_eq.induct)
  case (1 a as b bs)
  then show ?case by (auto simp: nul_terminated_def cstr_from_ptr_def)
qed (auto simp: nul_terminated_def)

end
