(* ===== verification/Host_Memory.thy ===== *)
theory Host_Memory
  imports Host_Value
begin

text \<open>
  The state one invocation of an extension function runs in: the host's
  \<open>sqlite3_context\<close> (its result \<open>Mem\<close>, error code, subtype and auxiliary data
  list), and the memory that crosses the boundary. A Rust allocation (a \<open>CString\<close>
  buffer or a \<open>Box<T>\<close>) lives at an address of \<open>heap\<close>; it is owned either by an
  owning Rust value in scope (\<open>rust_owned\<close>) or by the host, which holds a
  destructor for it (the result's \<open>out_dtor\<close>, or an auxiliary data entry).
  \<open>Box::into_raw\<close> and \<open>CString::into_raw\<close> give up the Rust owner, \<open>from_raw\<close>
  creates one, dropping an owner frees the allocation, and the host frees an
  allocation by calling the destructor registered with it.
  The record also holds the two host parameters the result setters depend on: the
  length limit (\<open>SQLITE_LIMIT_LENGTH\<close>) and whether the host allocator fails.
  \<open>writes\<close> counts the terminal writes of the result (every \<open>sqlite3_result_*\<close>
  call but the subtype); it is bookkeeping of the model, not state of SQLite.
\<close>

datatype 'a cell = CBuf string | CBox 'a | SqlBuf string

text \<open>The destructors passed across the boundary: \<open>result_text_destructor\<close> and
  \<open>pointer_destroy\<close> of \<open>src/api.rs\<close>, and a destructor a caller gives to
  \<open>auxdata_set\<close>.\<close>

datatype dtor = Result_text_destructor | Pointer_destroy | Caller_destructor nat

record 'a world =
  heap :: "addr \<Rightarrow> 'a cell option"
  next_addr :: addr
  rust_owned :: "addr list"
  out :: sqlite_value
  out_dtor :: "(addr \<times> dtor) option"
  out_subtype :: "u8 option"
  is_error :: i32
  writes :: nat
  aux :: "(i32 \<times> addr \<times> dtor option) list"
  len_limit :: nat
  oom :: bool

definition NULL :: addr where
  "NULL = 0"

text \<open>The state at the start of an invocation: an empty heap, no result yet, and
  SQLite's default length limit.\<close>

definition init_world :: "'a world" where
  "init_world =
     \<lparr>heap = (\<lambda>a. None), next_addr = 1, rust_owned = [], out = VNull, out_dtor = None,
      out_subtype = None, is_error = 0, writes = 0, aux = [], len_limit = 1000000000,
      oom = False\<rparr>"

subsection \<open>Rust side: allocation, into_raw, from_raw, drop\<close>

definition rust_alloc :: "'a cell \<Rightarrow> 'a world \<Rightarrow> addr \<times> 'a world" where
  "rust_alloc c w =
     (let a = next_addr w in
      (a, w\<lparr>heap := (heap w)(a \<mapsto> c), next_addr := Suc a, rust_owned := a # rust_owned w\<rparr>))"

definition into_raw :: "addr \<Rightarrow> 'a world \<Rightarrow> 'a world" where
  "into_raw a w = w\<lparr>rust_owned := remove1 a (rust_owned w)\<rparr>"

definition from_raw :: "addr \<Rightarrow> 'a world \<Rightarrow> 'a world" where
  "from_raw a w = w\<lparr>rust_owned := a # rust_owned w\<rparr>"

text \<open>Freeing an address that holds no allocation is a double free.\<close>

definition free_cell :: "addr \<Rightarrow> 'a world \<Rightarrow> fault + 'a world" where
  "free_cell a w =
     (case heap w a of
        None \<Rightarrow> Inl (Undefined ''double free'')
      | Some c \<Rightarrow> Inr (w\<lparr>heap := (heap w)(a := None)\<rparr>))"

definition rust_drop :: "addr \<Rightarrow> 'a world \<Rightarrow> fault + 'a world" where
  "rust_drop a w = free_cell a (w\<lparr>rust_owned := remove1 a (rust_owned w)\<rparr>)"

subsection \<open>Destructors\<close>

text \<open>
  \<open>result_text_destructor\<close> is \<open>drop(CString::from_raw(raw))\<close> and
  \<open>pointer_destroy::<T>\<close> is \<open>drop(Box::from_raw(pointer))\<close>: each rebuilds an
  owner and drops it at once, which frees the allocation; applied to memory of
  another kind it is undefined. A caller's destructor frees what it is given.
\<close>

definition result_text_destructor :: "addr \<Rightarrow> 'a world \<Rightarrow> fault + 'a world" where
  "result_text_destructor raw w =
     (case heap w raw of
        Some (CBuf b) \<Rightarrow> rust_drop raw (from_raw raw w)
      | Some c \<Rightarrow> Inl (Undefined ''CString::from_raw on memory of another type'')
      | None \<Rightarrow> Inl (Undefined ''double free''))"

definition pointer_destroy :: "addr \<Rightarrow> 'a world \<Rightarrow> fault + 'a world" where
  "pointer_destroy pointer w =
     (case heap w pointer of
        Some (CBox x) \<Rightarrow> rust_drop pointer (from_raw pointer w)
      | Some c \<Rightarrow> Inl (Undefined ''Box::from_raw on memory of another type'')
      | None \<Rightarrow> Inl (Undefined ''double free''))"

fun run_dtor :: "dtor \<Rightarrow> addr \<Rightarrow> 'a world \<Rightarrow> fault + 'a world" where
  "run_dtor Result_text_destructor a w = result_text_destructor a w"
| "run_dtor Pointer_destroy a w = pointer_destroy a w"
| "run_dtor (Caller_destructor f) a w = free_cell a w"

text \<open>Releasing the result \<open>Mem\<close> before it is overwritten calls its destructor.\<close>

definition release_out :: "'a world \<Rightarrow> fault + 'a world" where
  "release_out w =
     (case out_dtor w of
        None \<Rightarrow> Inr (w\<lparr>out := VNull, out_subtype := None\<rparr>)
      | Some (a, d) \<Rightarrow> run_dtor d a (w\<lparr>out := VNull, out_dtor := None, out_subtype := None\<rparr>))"

subsection \<open>Ownership\<close>

fun rust_cell :: "'a cell \<Rightarrow> bool" where
  "rust_cell (CBuf _) = True"
| "rust_cell (CBox _) = True"
| "rust_cell (SqlBuf _) = False"

definition rust_alloc_at :: "'a world \<Rightarrow> addr \<Rightarrow> bool" where
  "rust_alloc_at w a \<longleftrightarrow> (case heap w a of Some c \<Rightarrow> rust_cell c | None \<Rightarrow> False)"

text \<open>The addresses the host holds a destructor for.\<close>

definition host_held :: "'a world \<Rightarrow> addr list" where
  "host_held w =
     (case out_dtor w of Some (a, d) \<Rightarrow> [a] | None \<Rightarrow> []) @
     [fst (snd e). e \<leftarrow> aux w, snd (snd e) \<noteq> None]"

definition owners :: "'a world \<Rightarrow> addr list" where
  "owners w = rust_owned w @ host_held w"

text \<open>
  The ownership contract of the boundary: every Rust allocation has exactly one
  owner, and every owner owns a live Rust allocation. A Rust allocation with no owner
  is a leak; an address listed twice will be freed twice; an owner of freed memory
  dangles.
\<close>

definition ownership_ok :: "'a world \<Rightarrow> bool" where
  "ownership_ok w \<longleftrightarrow> distinct (owners w) \<and> (\<forall>a. a \<in> set (owners w) \<longleftrightarrow> rust_alloc_at w a)"

definition leaked :: "'a world \<Rightarrow> addr \<Rightarrow> bool" where
  "leaked w a \<longleftrightarrow> rust_alloc_at w a \<and> a \<notin> set (owners w)"

text \<open>Well-formed host state: fresh addresses are unallocated, and the length limit
  is below \<open>2^31\<close>, as SQLite's hard upper bound is.\<close>

definition world_wf :: "'a world \<Rightarrow> bool" where
  "world_wf w \<longleftrightarrow> (\<forall>a. next_addr w \<le> a \<longrightarrow> heap w a = None) \<and> len_limit w < 2 ^ 31"

lemmas memory_defs = rust_alloc_def into_raw_def from_raw_def free_cell_def rust_drop_def
  result_text_destructor_def pointer_destroy_def release_out_def

lemma ownership_ok_leak: "ownership_ok w \<Longrightarrow> \<not> leaked w a"
  by (simp add: ownership_ok_def leaked_def)

text \<open>Memory operations and destructors leave the result alone.\<close>

lemma free_cell_out: "free_cell a w = Inr w' \<Longrightarrow> out w' = out w"
  by (auto simp: free_cell_def split: option.splits)

lemma rust_drop_out: "rust_drop a w = Inr w' \<Longrightarrow> out w' = out w"
  by (auto simp: rust_drop_def dest: free_cell_out)

lemma run_dtor_out: "run_dtor d a w = Inr w' \<Longrightarrow> out w' = out w"
  by (cases d)
     (auto simp: result_text_destructor_def pointer_destroy_def from_raw_def
        dest: rust_drop_out free_cell_out split: option.splits cell.splits)

lemma free_cell_aux: "free_cell a w = Inr w' \<Longrightarrow> aux w' = aux w"
  by (auto simp: free_cell_def split: option.splits)

lemma run_dtor_aux: "run_dtor d a w = Inr w' \<Longrightarrow> aux w' = aux w"
  by (cases d)
     (auto simp: result_text_destructor_def pointer_destroy_def from_raw_def rust_drop_def
        dest: free_cell_aux split: option.splits cell.splits)

end
