(* ===== verification/Host_Context.thy ===== *)
theory Host_Context
  imports Host_Memory
begin

text \<open>
  The host primitives on the invocation's context that \<open>src/api.rs\<close> calls through
  \<open>crate::ext\<close>: the \<open>sqlite3_result_*\<close> setters, the auxiliary data pair and
  \<open>sqlite3_mprintf\<close>, modelled from SQLite's documented behaviour
  (\<open>sqlite3VdbeMemSetStr\<close>, \<open>sqlite3_set_auxdata\<close>, \<open>sqlite3_str_vappendf\<close>).
  Every setter first releases the current result, calling its destructor; a text or
  blob longer than the length limit becomes the error \<open>SQLITE_TOOBIG\<close>, and a text
  handed over with a destructor is then destroyed at once.
\<close>

definition SQLITE_ERROR :: i32 where "SQLITE_ERROR = 1"
definition SQLITE_TOOBIG :: i32 where "SQLITE_TOOBIG = 18"

text \<open>\<open>sqlite3ErrStr\<close>, for the codes this development meets.\<close>

definition err_str :: "i32 \<Rightarrow> string" where
  "err_str c =
     (if c = SQLITE_ERROR then ''SQL logic error''
      else if c = SQLITE_TOOBIG then ''string or blob too big''
      else ''unknown error'')"

subsection \<open>Writing the result\<close>

definition replace_out :: "sqlite_value \<Rightarrow> (addr \<times> dtor) option \<Rightarrow> 'a world \<Rightarrow> fault + 'a world" where
  "replace_out v dd w =
     (case release_out w of
        Inl e \<Rightarrow> Inl e
      | Inr w1 \<Rightarrow> Inr (w1\<lparr>out := v, out_dtor := dd, out_subtype := None\<rparr>))"

definition terminal :: "'a world \<Rightarrow> 'a world" where
  "terminal w = w\<lparr>writes := Suc (writes w)\<rparr>"

definition set_out :: "sqlite_value \<Rightarrow> 'a world \<Rightarrow> fault + 'a world" where
  "set_out v w = map_sum id terminal (replace_out v None w)"

definition set_error_toobig :: "'a world \<Rightarrow> fault + 'a world" where
  "set_error_toobig w =
     map_sum id (\<lambda>w1. w1\<lparr>is_error := SQLITE_TOOBIG\<rparr>)
       (set_out (VText (err_str SQLITE_TOOBIG)) w)"

text \<open>Reading \<open>n\<close> bytes of C memory \<open>m\<close>; a negative \<open>n\<close> reads up to the nul.\<close>

definition read_c_text :: "string \<Rightarrow> i32 \<Rightarrow> fault + string" where
  "read_c_text m n =
     (if sint n < 0 then Inr (takeWhile (\<lambda>c. c \<noteq> nul) m)
      else if nat (sint n) \<le> length m then Inr (take (nat (sint n)) m)
      else Inl (Undefined ''read past the end of the buffer''))"

text \<open>The bytes of the C string at an address, with its terminator.\<close>

definition c_mem :: "'a world \<Rightarrow> addr \<Rightarrow> string option" where
  "c_mem w z = (case heap w z of Some (CBuf b) \<Rightarrow> Some (b @ [nul]) | _ \<Rightarrow> None)"

definition sqlite3_result_text :: "addr \<Rightarrow> i32 \<Rightarrow> dtor \<Rightarrow> 'a world \<Rightarrow> fault + 'a world" where
  "sqlite3_result_text z n d w =
     (case c_mem w z of
        None \<Rightarrow> Inl (Undefined ''text pointer is not a C string'')
      | Some m \<Rightarrow>
          (case read_c_text m n of
             Inl e \<Rightarrow> Inl e
           | Inr t \<Rightarrow>
               if len_limit w < length t then
                 (case run_dtor d z w of Inl e \<Rightarrow> Inl e | Inr w1 \<Rightarrow> set_error_toobig w1)
               else map_sum id terminal (replace_out (VText t) (Some (z, d)) w)))"

text \<open>\<open>sqlite3_result_blob\<close> with \<open>SQLITE_TRANSIENT\<close>: the host copies the bytes.
  A negative length is undefined behaviour by SQLite's documentation.\<close>

definition sqlite3_result_blob :: "string \<Rightarrow> i32 \<Rightarrow> 'a world \<Rightarrow> fault + 'a world" where
  "sqlite3_result_blob z n w =
     (if sint n < 0 then Inl (Undefined ''sqlite3_result_blob with a negative length'')
      else if length z < nat (sint n) then Inl (Undefined ''read past the end of the blob'')
      else if len_limit w < nat (sint n) then set_error_toobig w
      else set_out (VBlob (take (nat (sint n)) z)) w)"

text \<open>\<open>sqlite3_result_error\<close>: error code \<open>SQLITE_ERROR\<close>, the message copied.\<close>

definition sqlite3_result_error :: "addr \<Rightarrow> i32 \<Rightarrow> 'a world \<Rightarrow> fault + 'a world" where
  "sqlite3_result_error z n w =
     (case c_mem w z of
        None \<Rightarrow> Inl (Undefined ''error message pointer is not a C string'')
      | Some m \<Rightarrow>
          (case read_c_text m n of
             Inl e \<Rightarrow> Inl e
           | Inr t \<Rightarrow>
               map_sum id (\<lambda>w1. w1\<lparr>is_error := SQLITE_ERROR\<rparr>)
                 (set_out (if len_limit w < length t then VNull else VText t) w)))"

text \<open>\<open>sqlite3_result_error_code\<close>: sets the code; a NULL result (a pointer value is
  one) is replaced by the code's message.\<close>

definition sqlite3_result_error_code :: "i32 \<Rightarrow> 'a world \<Rightarrow> fault + 'a world" where
  "sqlite3_result_error_code c w =
     (let w1 = terminal (w\<lparr>is_error := (if c = 0 then -1 else c)\<rparr>) in
      case out w of
        VNull \<Rightarrow> replace_out (VText (err_str c)) None w1
      | VPointer p n \<Rightarrow> replace_out (VText (err_str c)) None w1
      | _ \<Rightarrow> Inr w1)"

definition sqlite3_result_int :: "i32 \<Rightarrow> 'a world \<Rightarrow> fault + 'a world" where
  "sqlite3_result_int i w = set_out (VInteger (scast i)) w"

definition sqlite3_result_int64 :: "i64 \<Rightarrow> 'a world \<Rightarrow> fault + 'a world" where
  "sqlite3_result_int64 i w = set_out (VInteger i) w"

definition sqlite3_result_double :: "f64 \<Rightarrow> 'a world \<Rightarrow> fault + 'a world" where
  "sqlite3_result_double f w = set_out (VFloat f) w"

definition sqlite3_result_null :: "'a world \<Rightarrow> fault + 'a world" where
  "sqlite3_result_null w = set_out VNull w"

text \<open>Only the low 8 bits of a subtype are kept.\<close>

definition sqlite3_result_subtype :: "u32 \<Rightarrow> 'a world \<Rightarrow> 'a world" where
  "sqlite3_result_subtype t w = w\<lparr>out_subtype := Some (ucast t)\<rparr>"

definition sqlite3_result_pointer :: "addr \<Rightarrow> string \<Rightarrow> dtor \<Rightarrow> 'a world \<Rightarrow> fault + 'a world" where
  "sqlite3_result_pointer p name d w =
     map_sum id terminal (replace_out (VPointer p name) (Some (p, d)) w)"

subsection \<open>Auxiliary data\<close>

definition sqlite3_get_auxdata :: "i32 \<Rightarrow> 'a world \<Rightarrow> addr" where
  "sqlite3_get_auxdata col w =
     (case find (\<lambda>e. fst e = col) (aux w) of Some (c, p, d) \<Rightarrow> p | None \<Rightarrow> NULL)"

definition run_dtor_opt :: "dtor option \<Rightarrow> addr \<Rightarrow> 'a world \<Rightarrow> fault + 'a world" where
  "run_dtor_opt d p w = (case d of None \<Rightarrow> Inr w | Some f \<Rightarrow> run_dtor f p w)"

text \<open>
  \<open>sqlite3_set_auxdata\<close>: an existing entry for the column has its destructor
  called and is overwritten; a new entry is put in front of the list; if the host
  cannot allocate the entry, the new destructor is called at once.
\<close>

definition sqlite3_set_auxdata :: "i32 \<Rightarrow> addr \<Rightarrow> dtor option \<Rightarrow> 'a world \<Rightarrow> fault + 'a world" where
  "sqlite3_set_auxdata col p d w =
     (case find (\<lambda>e. fst e = col) (aux w) of
        Some (c, p0, d0) \<Rightarrow>
          map_sum id (\<lambda>w1. w1\<lparr>aux := map (\<lambda>e. if fst e = col then (col, p, d) else e) (aux w1)\<rparr>)
            (run_dtor_opt d0 p0 w)
      | None \<Rightarrow>
          if oom w then run_dtor_opt d p w
          else Inr (w\<lparr>aux := (col, p, d) # aux w\<rparr>))"

subsection \<open>Teardown\<close>

text \<open>
  When SQLite is done with the invocation's context (\<open>sqlite3VdbeMemRelease\<close> of
  the result after it is copied out, \<open>sqlite3VdbeDeleteAuxData\<close> when the statement
  is reset or finalized), it releases the result and calls the destructor of every
  auxiliary data entry, in the order of the list.
\<close>

fun release_aux :: "(i32 \<times> addr \<times> dtor option) list \<Rightarrow> 'a world \<Rightarrow> fault + 'a world" where
  "release_aux [] w = Inr w"
| "release_aux ((c, p, d) # es) w =
     (case run_dtor_opt d p w of Inl e \<Rightarrow> Inl e | Inr w1 \<Rightarrow> release_aux es w1)"

definition host_teardown :: "'a world \<Rightarrow> fault + 'a world" where
  "host_teardown w =
     (case release_out w of
        Inl e \<Rightarrow> Inl e
      | Inr w1 \<Rightarrow> map_sum id (\<lambda>w2. w2\<lparr>aux := []\<rparr>) (release_aux (aux w1) w1))"

subsection \<open>sqlite3_mprintf\<close>

text \<open>
  The formatting of \<open>sqlite3_str_vappendf\<close> with no arguments supplied: \<open>%%\<close>
  prints \<open>%\<close> and a \<open>%\<close> at the end prints itself; after a \<open>%\<close>, flags, width,
  precision and length are skipped, a \<open>*\<close> among them or a valid conversion reads an
  argument that is not there (undefined behaviour), and any other conversion ends the
  output. (The flag loop is simplified to skipping the characters it accepts.)
\<close>

definition fmt_spec_chars :: "char list" where
  "fmt_spec_chars = ''-+ #!0,123456789.l*''"

definition fmt_conversions :: "char list" where
  "fmt_conversions = ''dsgzqQwcouxXfeEGinpTSr''"

function sqlite_format :: "string \<Rightarrow> fault + string" where
  "sqlite_format [] = Inr []"
| "sqlite_format (c # cs) =
     (if c \<noteq> CHR ''%'' then map_sum id (Cons c) (sqlite_format cs)
      else if cs = [] then Inr ''%''
      else if CHR ''*'' \<in> set (takeWhile (\<lambda>x. x \<in> set fmt_spec_chars) cs)
      then Inl (Undefined ''printf width or precision argument missing'')
      else (case dropWhile (\<lambda>x. x \<in> set fmt_spec_chars) cs of
              [] \<Rightarrow> Inr []
            | x # r \<Rightarrow>
                if x = CHR ''%'' then map_sum id (Cons CHR ''%'') (sqlite_format r)
                else if x \<in> set fmt_conversions
                then Inl (Undefined ''printf conversion without an argument'')
                else Inr []))"
  by pat_completeness auto
termination
proof (relation "measure length")
  fix c cs x r
  assume "dropWhile (\<lambda>x. x \<in> set fmt_spec_chars) cs = x # r"
  then have "length (x # r) \<le> length cs"
    by (metis length_dropWhile_le)
  then show "(r, c # cs) \<in> measure length" by simp
qed auto

text \<open>The host allocator: \<open>NULL\<close> when out of memory.\<close>

definition sqlite3_mprintf :: "string \<Rightarrow> 'a world \<Rightarrow> fault + addr \<times> 'a world" where
  "sqlite3_mprintf fmt w =
     (case sqlite_format (cstr_from_ptr fmt) of
        Inl e \<Rightarrow> Inl e
      | Inr s \<Rightarrow>
          if oom w then Inr (NULL, w)
          else (let a = next_addr w in
                Inr (a, w\<lparr>heap := (heap w)(a \<mapsto> SqlBuf s), next_addr := Suc a\<rparr>)))"

lemmas host_context_defs [host_simps] =
  replace_out_def terminal_def set_out_def set_error_toobig_def read_c_text_def c_mem_def
  sqlite3_result_text_def sqlite3_result_blob_def sqlite3_result_error_def
  sqlite3_result_error_code_def sqlite3_result_int_def sqlite3_result_int64_def
  sqlite3_result_double_def sqlite3_result_null_def sqlite3_result_subtype_def
  sqlite3_result_pointer_def

subsection \<open>Writing from a result without destructor\<close>

lemma release_out_no_dtor [simp]:
  "out_dtor w = None \<Longrightarrow> release_out w = Inr (w\<lparr>out := VNull, out_subtype := None\<rparr>)"
  by (simp add: release_out_def)

lemma replace_out_no_dtor:
  "out_dtor w = None \<Longrightarrow>
   replace_out v dd w = Inr (w\<lparr>out := v, out_dtor := dd, out_subtype := None\<rparr>)"
  by (simp add: replace_out_def)

lemma set_out_no_dtor:
  "out_dtor w = None \<Longrightarrow>
   set_out v w = Inr (w\<lparr>out := v, out_subtype := None, writes := Suc (writes w)\<rparr>)"
  by (simp add: set_out_def replace_out_no_dtor terminal_def)

lemma read_c_text_exact: "sint n = int (length t) \<Longrightarrow> read_c_text (t @ [nul]) n = Inr t"
  by (simp add: read_c_text_def)

subsection \<open>What a setter leaves in the result\<close>

lemma replace_out_out: "replace_out u dd w = Inr w' \<Longrightarrow> out w' = u"
  by (auto simp: replace_out_def split: sum.splits)

lemma set_out_out: "set_out u w = Inr w' \<Longrightarrow> out w' = u"
  by (auto simp: set_out_def terminal_def dest: replace_out_out)

lemma sqlite3_result_text_out:
  "sqlite3_result_text z n d w = Inr w' \<Longrightarrow> \<exists>t. out w' = VText t"
  by (auto simp: sqlite3_result_text_def set_error_toobig_def terminal_def
      dest: set_out_out replace_out_out split: option.splits sum.splits if_splits)

lemma run_dtor_opt_aux: "run_dtor_opt d a w = Inr w' \<Longrightarrow> aux w' = aux w"
  by (cases d) (auto simp: run_dtor_opt_def dest: run_dtor_aux)

lemma find_map_replace:
  "find (\<lambda>e. fst e = c) xs \<noteq> None \<Longrightarrow>
   find (\<lambda>e. fst e = c) (map (\<lambda>e. if fst e = c then (c, p, d) else e) xs) = Some (c, p, d)"
  by (induction xs) auto

end
