(* ===== verification/Result_Sink.thy ===== *)
theory Result_Sink
  imports Host_Context
begin

text \<open>
  ResultSink: the result setters of \<open>src/api.rs\<close> (\<open>result_text\<close> to
  \<open>auxdata_get\<close>, lines 231--359). Each wrapper is a function of the world that
  performs the calls the Rust function makes, in its order: the \<open>context\<close>
  argument is the world's context. A function that returns \<open>crate::Result\<close> returns
  a \<open>rust_result\<close> with the world after it; a fault (undefined behaviour) is \<open>Inl\<close>.
\<close>

text \<open>\<open>crate::Error\<close> as the wrappers build it: \<open>Error::new_message\<close>, and the
  conversions from \<open>NulError\<close> (the position of the nul) and \<open>Utf8Error\<close>
  (\<open>valid_up_to\<close>).\<close>

datatype error = Message string | NulError nat | Utf8Error nat

datatype 'r rust_result = Ok 'r | Err error

definition unit_ok :: "fault + 'a world \<Rightarrow> fault + unit rust_result \<times> 'a world" where
  "unit_ok r = map_sum id (\<lambda>w. (Ok (), w)) r"

subsection \<open>Text\<close>

text \<open>
  \<open>result_text\<close>: the nul check of \<open>CString::new\<close>, then the \<open>try_into\<close> of the
  length (the \<open>CString\<close> already allocated is dropped on that error), then the
  buffer handed to the host with \<open>result_text_destructor\<close>.
\<close>

definition result_text :: "string \<Rightarrow> 'a world \<Rightarrow> fault + unit rust_result \<times> 'a world" where
  "result_text text w =
     (case cstring_new text of
        Inl pos \<Rightarrow> Inr (Err (NulError pos), w)
      | Inr bytes \<Rightarrow>
          (let (s, w1) = rust_alloc (CBuf bytes) w in
           case try_into_i32 (length text) of
             None \<Rightarrow>
               map_sum id (\<lambda>w2. (Err (Message ''i32 overflow, string to large''), w2))
                 (rust_drop s w1)
           | Some n \<Rightarrow> unit_ok (sqlite3_result_text s n Result_text_destructor (into_raw s w1))))"

definition result_int :: "i32 \<Rightarrow> 'a world \<Rightarrow> fault + 'a world" where
  "result_int i w = sqlite3_result_int i w"

definition result_int64 :: "i64 \<Rightarrow> 'a world \<Rightarrow> fault + 'a world" where
  "result_int64 i w = sqlite3_result_int64 i w"

definition result_double :: "f64 \<Rightarrow> 'a world \<Rightarrow> fault + 'a world" where
  "result_double i w = sqlite3_result_double i w"

text \<open>\<open>result_blob\<close>: the length is cast with \<open>as c_int\<close>, keeping its low 32 bits.\<close>

definition result_blob :: "string \<Rightarrow> 'a world \<Rightarrow> fault + 'a world" where
  "result_blob blob w = (let len = as_i32 (length blob) in sqlite3_result_blob blob len w)"

definition result_null :: "'a world \<Rightarrow> fault + 'a world" where
  "result_null w = sqlite3_result_null w"

text \<open>\<open>result_error\<close>: the length is cast with \<open>as i32\<close>, and the \<open>CString\<close> is given
  up with \<open>into_raw\<close> to a host call that copies it and registers no destructor.\<close>

definition result_error :: "string \<Rightarrow> 'a world \<Rightarrow> fault + unit rust_result \<times> 'a world" where
  "result_error text w =
     (case cstring_new text of
        Inl pos \<Rightarrow> Inr (Err (NulError pos), w)
      | Inr bytes \<Rightarrow>
          (let (s, w1) = rust_alloc (CBuf bytes) w; n = as_i32 (length text) in
           unit_ok (sqlite3_result_error s n (into_raw s w1))))"

definition result_error_code :: "i32 \<Rightarrow> 'a world \<Rightarrow> fault + 'a world" where
  "result_error_code code w = sqlite3_result_error_code code w"

definition result_bool :: "bool \<Rightarrow> 'a world \<Rightarrow> fault + 'a world" where
  "result_bool value w = (if value then result_int 1 w else result_int 0 w)"

subsection \<open>JSON\<close>

text \<open>
  A \<open>serde_json::Value\<close> and its compact serialisation \<open>to_string\<close>: strings
  escape the quote, the backslash and the control characters (as \<open>b t n f r\<close>
  after a backslash, the others as \<open>u00xx\<close>); an object is written in the
  order of its map. Numbers are integers here (the shortest-float printing of serde
  is not modelled).
\<close>

datatype json = JNull | JBool bool | JNumber int | JString string
  | JArray "json list" | JObject "(string \<times> json) list"

definition hex_digit :: "nat \<Rightarrow> char" where
  "hex_digit n = (if n < 10 then char_of (48 + n) else char_of (87 + n))"

definition quote_char :: char where "quote_char = CHR 0x22"
definition backslash :: char where "backslash = CHR 0x5C"

definition json_escape_char :: "char \<Rightarrow> string" where
  "json_escape_char c =
     (if c = quote_char then [backslash, quote_char]
      else if c = backslash then [backslash, backslash]
      else if c = CHR 0x08 then [backslash, CHR ''b'']
      else if c = CHR 0x09 then [backslash, CHR ''t'']
      else if c = CHR 0x0A then [backslash, CHR ''n'']
      else if c = CHR 0x0C then [backslash, CHR ''f'']
      else if c = CHR 0x0D then [backslash, CHR ''r'']
      else if byte_of c < 32
      then backslash # ''u00'' @ [hex_digit (byte_of c div 16), hex_digit (byte_of c mod 16)]
      else [c])"

definition json_quote :: "string \<Rightarrow> string" where
  "json_quote s = quote_char # concat (map json_escape_char s) @ [quote_char]"

fun join_with :: "string \<Rightarrow> string list \<Rightarrow> string" where
  "join_with sep [] = []"
| "join_with sep [x] = x"
| "join_with sep (x # y # ys) = x @ sep @ join_with sep (y # ys)"

fun json_to_string :: "json \<Rightarrow> string" where
  "json_to_string JNull = ''null''"
| "json_to_string (JBool b) = (if b then ''true'' else ''false'')"
| "json_to_string (JNumber i) = int_to_text i"
| "json_to_string (JString s) = json_quote s"
| "json_to_string (JArray xs) = ''['' @ join_with '','' (map json_to_string xs) @ '']''"
| "json_to_string (JObject kvs) =
     ''{'' @ join_with '','' (map (\<lambda>(k, v). json_quote k @ '':'' @ json_to_string v) kvs) @ ''}''"

text \<open>\<open>result_subtype\<close> passes the byte widened to \<open>c_uint\<close>.\<close>

definition result_subtype :: "u8 \<Rightarrow> 'a world \<Rightarrow> 'a world" where
  "result_subtype subtype w = sqlite3_result_subtype (ucast subtype) w"

text \<open>\<open>result_json\<close>: the text first, then the subtype \<open>'J'\<close> on it.\<close>

definition result_json :: "json \<Rightarrow> 'a world \<Rightarrow> fault + unit rust_result \<times> 'a world" where
  "result_json value w =
     (case result_text (json_to_string value) w of
        Inl e \<Rightarrow> Inl e
      | Inr (Err e, w1) \<Rightarrow> Inr (Err e, w1)
      | Inr (Ok (), w1) \<Rightarrow> Inr (Ok (), result_subtype (of_char CHR ''J'') w1))"

subsection \<open>Pointers and auxiliary data\<close>

text \<open>\<open>result_pointer\<close>: the object is boxed, the box given up with \<open>into_raw\<close> to
  the host together with \<open>pointer_destroy\<close>; the name is passed as the address of
  the byte slice.\<close>

definition result_pointer :: "string \<Rightarrow> 'a \<Rightarrow> 'a world \<Rightarrow> fault + 'a world" where
  "result_pointer name object w =
     (let (b, w1) = rust_alloc (CBox object) w in
      sqlite3_result_pointer b name Pointer_destroy (into_raw b w1))"

definition auxdata_set :: "i32 \<Rightarrow> addr \<Rightarrow> dtor option \<Rightarrow> 'a world \<Rightarrow> fault + 'a world" where
  "auxdata_set col p d w = sqlite3_set_auxdata col p d w"

definition auxdata_get :: "i32 \<Rightarrow> 'a world \<Rightarrow> addr" where
  "auxdata_get col w = sqlite3_get_auxdata col w"

lemmas result_sink_defs [wrapper_simps] =
  unit_ok_def result_text_def result_int_def result_int64_def result_double_def
  result_blob_def result_null_def result_error_def result_error_code_def result_bool_def
  result_subtype_def result_json_def result_pointer_def auxdata_set_def auxdata_get_def

subsection \<open>Behaviour of result_text\<close>

lemma result_text_ok:
  assumes "nul \<notin> set text" and "length text < 2 ^ 31" and "length text \<le> len_limit w"
    and "out_dtor w = None"
  shows "result_text text w =
    Inr (Ok (), w\<lparr>heap := (heap w)(next_addr w \<mapsto> CBuf text), next_addr := Suc (next_addr w),
                  out := VText text, out_dtor := Some (next_addr w, Result_text_destructor),
                  out_subtype := None, writes := Suc (writes w)\<rparr>)"
proof -
  let ?n = "word_of_nat (length text) :: i32"
  have n: "try_into_i32 (length text) = Some ?n"
    using assms(2) by (simp add: try_into_i32_def)
  have r: "read_c_text (text @ [nul]) ?n = Inr text"
    using try_into_i32_sint [OF n] by (rule read_c_text_exact)
  show ?thesis
    using assms n r
    by (simp add: result_text_def rust_alloc_def into_raw_def sqlite3_result_text_def c_mem_def
        replace_out_def terminal_def unit_ok_def Let_def)
qed

lemma result_text_nul:
  "nul \<in> set text \<Longrightarrow> \<exists>k. k < length text \<and> result_text text w = Inr (Err (NulError k), w)"
  using cstring_new_err [of "text"] by (auto simp: result_text_def)

lemma result_text_too_long:
  assumes "nul \<notin> set text" and "2 ^ 31 \<le> length text" and "heap w (next_addr w) = None"
  shows "result_text text w =
    Inr (Err (Message ''i32 overflow, string to large''), w\<lparr>next_addr := Suc (next_addr w)\<rparr>)"
proof -
  have n: "try_into_i32 (length text) = None"
    using assms(2) by (simp add: try_into_i32_def)
  have h: "(heap w)(next_addr w \<mapsto> CBuf text, next_addr w := None) = heap w"
    using assms(3) by (simp add: fun_upd_idem)
  show ?thesis
    using assms(1) n h
    by (simp add: result_text_def rust_alloc_def rust_drop_def free_cell_def Let_def)
qed

subsection \<open>The result a wrapper leaves\<close>

lemma result_text_out:
  assumes "result_text v w = Inr (r, w')"
  shows "out w' = out w \<or> (\<exists>t. out w' = VText t)"
proof (cases "cstring_new v")
  case (Inl k)
  with assms show ?thesis by (simp add: result_text_def)
next
  case (Inr b)
  let ?w1 = "snd (rust_alloc (CBuf b) w)" and ?s = "fst (rust_alloc (CBuf b) w)"
  have "out ?w1 = out w" by (simp add: rust_alloc_def Let_def)
  show ?thesis
  proof (cases "try_into_i32 (length v)")
    case None
    with Inr assms have "rust_drop ?s ?w1 = Inr w'"
      by (auto simp: result_text_def split: prod.splits)
    with \<open>out ?w1 = out w\<close> show ?thesis by (auto dest: rust_drop_out)
  next
    case (Some n)
    with Inr assms have "sqlite3_result_text ?s n Result_text_destructor (into_raw ?s ?w1) = Inr w'"
      by (auto simp: result_text_def unit_ok_def split: prod.splits)
    then show ?thesis by (auto dest: sqlite3_result_text_out)
  qed
qed

lemma result_int_fresh:
  "out_dtor w = None \<Longrightarrow> \<exists>w'. unit_ok (result_int i w) = Inr (Ok (), w') \<and> out w' = VInteger (scast i)"
  by (simp add: result_int_def sqlite3_result_int_def set_out_no_dtor unit_ok_def)

lemma result_int64_fresh:
  "out_dtor w = None \<Longrightarrow> \<exists>w'. unit_ok (result_int64 i w) = Inr (Ok (), w') \<and> out w' = VInteger i"
  by (simp add: result_int64_def sqlite3_result_int64_def set_out_no_dtor unit_ok_def)

lemma result_double_fresh:
  "out_dtor w = None \<Longrightarrow> \<exists>w'. unit_ok (result_double f w) = Inr (Ok (), w') \<and> out w' = VFloat f"
  by (simp add: result_double_def sqlite3_result_double_def set_out_no_dtor unit_ok_def)

lemma result_text_fresh:
  "nul \<notin> set v \<Longrightarrow> length v < 2 ^ 31 \<Longrightarrow> length v \<le> len_limit w \<Longrightarrow> out_dtor w = None \<Longrightarrow>
   \<exists>w'. result_text v w = Inr (Ok (), w') \<and> out w' = VText v"
  by (simp add: result_text_ok)

lemmas fresh_results = result_int_fresh result_int64_fresh result_double_fresh result_text_fresh

subsection \<open>JSON text holds no nul byte\<close>

text \<open>\<open>serde_json\<close> escapes every control character, the nul included, so the
  text \<open>result_json\<close> hands to \<open>result_text\<close> never fails its nul check.\<close>

lemma hex_digit_not_nul: "n < 16 \<Longrightarrow> hex_digit n \<noteq> nul"
  by (simp add: hex_digit_def char_of_not_nul)

lemma byte_ge_32_not_nul: "\<not> byte_of c < 32 \<Longrightarrow> nul \<noteq> c"
  by (auto simp: byte_of_nul)

lemma json_escape_char_no_nul: "nul \<notin> set (json_escape_char c)"
proof -
  have q: "nul \<noteq> quote_char" "nul \<noteq> backslash" by (simp_all add: quote_char_def backslash_def nul_def)
  have h: "nul \<noteq> hex_digit (byte_of c div 16)" "nul \<noteq> hex_digit (byte_of c mod 16)"
    if "byte_of c < 32" using that hex_digit_not_nul by (simp_all add: eq_commute [of nul])
  show ?thesis
    unfolding json_escape_char_def
    using q h byte_ge_32_not_nul [of c] by (simp add: nul_def)
qed

lemma json_quote_no_nul: "nul \<notin> set (json_quote s)"
  using json_escape_char_no_nul by (auto simp: json_quote_def quote_char_def nul_def)

lemma nat_to_text_no_nul: "nul \<notin> set (nat_to_text n)"
proof (induction n rule: nat_to_text.induct)
  case (1 n)
  have "char_of (48 + n mod 10) \<noteq> nul" "n < 10 \<Longrightarrow> char_of (48 + n) \<noteq> nul"
    by (simp_all add: char_of_not_nul)
  with 1 show ?case by (subst nat_to_text.simps) auto
qed

lemma join_with_no_nul:
  "nul \<notin> set sep \<Longrightarrow> \<forall>x \<in> set xs. nul \<notin> set x \<Longrightarrow> nul \<notin> set (join_with sep xs)"
  by (induction sep xs rule: join_with.induct) auto

lemma int_to_text_no_nul: "nul \<notin> set (int_to_text i)"
  using nat_to_text_no_nul by (simp add: int_to_text_def nul_def)

lemma json_to_string_no_nul: "nul \<notin> set (json_to_string v)"
proof (induction v)
  case JNull
  show ?case by (simp add: nul_def)
next
  case (JBool b)
  show ?case by (simp add: nul_def)
next
  case (JNumber i)
  show ?case by (simp add: int_to_text_no_nul)
next
  case (JString s)
  show ?case by (simp add: json_quote_no_nul)
next
  case (JArray xs)
  have "nul \<notin> set (join_with '','' (map json_to_string xs))"
    by (rule join_with_no_nul) (use JArray.IH in \<open>auto simp: nul_def\<close>)
  then show ?case by (simp add: nul_def)
next
  case (JObject kvs)
  have "nul \<notin> set (json_quote k @ '':'' @ json_to_string v)" if "(k, v) \<in> set kvs" for k v
    using JObject.IH [OF that] json_quote_no_nul [of k] by (simp add: nul_def)
  then have "nul \<notin> set (join_with '','' (map (\<lambda>(k, v). json_quote k @ '':'' @ json_to_string v) kvs))"
    by (intro join_with_no_nul) (auto simp: nul_def)
  then show ?case by (simp add: nul_def)
qed


text \<open>C20: on a host that accepts its length, \<open>result_json\<close> always succeeds: the
  result is the serialised text, with subtype \<open>'J'\<close> (74) set after it.\<close>

theorem result_json_ok:
  assumes "length (json_to_string v) < 2 ^ 31" "length (json_to_string v) \<le> len_limit w"
    "out_dtor w = None"
  shows "\<exists>w'. result_json v w = Inr (Ok (), w') \<and> out w' = VText (json_to_string v) \<and>
              out_subtype w' = Some 74"
  using assms json_to_string_no_nul [of v]
  by (simp add: result_json_def result_text_ok result_subtype_def sqlite3_result_subtype_def
      split: unit.split)

theorem result_json_ok_witness:
  "\<exists>w'. result_json (JArray [JNumber 1, JNull]) (init_world :: unit world) = Inr (Ok (), w') \<and>
        out w' = VText ''[1,null]'' \<and> out_subtype w' = Some 74"
proof -
  have s: "json_to_string (JArray [JNumber 1, JNull]) = ''[1,null]''"
    by code_simp
  show ?thesis
    using result_json_ok [of "JArray [JNumber 1, JNull]" "init_world :: unit world"] s
    by (simp add: init_world_def)
qed

subsection \<open>Blob lengths\<close>

text \<open>C24: \<open>result_blob\<close> casts the length with \<open>as c_int\<close>: a blob of at least
  \<open>2^31\<close> and less than \<open>2^32\<close> bytes reaches \<open>sqlite3_result_blob\<close> with a
  negative length, which is undefined behaviour.\<close>

theorem result_blob_negative:
  "2 ^ 31 \<le> length b \<Longrightarrow> length b < 2 ^ 32 \<Longrightarrow>
   result_blob b w = Inl (Undefined ''sqlite3_result_blob with a negative length'')"
  by (simp add: result_blob_def sqlite3_result_blob_def sint_as_i32_neg)

theorem result_blob_negative_witness:
  "2 ^ 31 \<le> length (replicate (2 ^ 31) CHR ''a'') \<and> length (replicate (2 ^ 31) CHR ''a'') < 2 ^ 32 \<and>
   result_blob (replicate (2 ^ 31) CHR ''a'') (init_world :: unit world) =
     Inl (Undefined ''sqlite3_result_blob with a negative length'')"
  using result_blob_negative [of "replicate (2 ^ 31) CHR ''a''" "init_world :: unit world"] by simp

text \<open>C25: a blob of \<open>2^32 + k\<close> bytes wraps to the length \<open>k\<close>: the result is the
  blob truncated to its first \<open>k\<close> bytes, with no error.\<close>

theorem result_blob_truncated:
  assumes "length b = 2 ^ 32 + k" "k < 2 ^ 31" "k \<le> len_limit w" "out_dtor w = None"
  shows "\<exists>w'. result_blob b w = Inr w' \<and> out w' = VBlob (take k b)"
proof -
  have "as_i32 (length b) = as_i32 k"
    unfolding assms(1) by (rule as_i32_wrap)
  moreover have "sint (as_i32 k) = int k"
    using assms(2) try_into_i32_sint [of k] by (simp add: as_i32_def try_into_i32_def)
  ultimately have "sint (as_i32 (length b)) = int k" by simp
  then show ?thesis
    using assms by (simp add: result_blob_def sqlite3_result_blob_def set_out_no_dtor)
qed

theorem result_blob_truncated_witness:
  "\<exists>w'. result_blob (replicate (2 ^ 32 + 3) CHR ''a'') (init_world :: unit world) = Inr w' \<and>
        out w' = VBlob ''aaa''"
  using result_blob_truncated [of "replicate (2 ^ 32 + 3) CHR ''a''" 3 "init_world :: unit world"]
  by (simp add: init_world_def numeral_3_eq_3)

subsection \<open>Auxiliary data\<close>

text \<open>C34: what \<open>auxdata_set\<close> stores for a column, \<open>auxdata_get\<close> returns, unless the
  column had no entry and the host could not allocate one (then the destructor was
  called at once and the entry is absent).\<close>

theorem auxdata_roundtrip:
  assumes "auxdata_set col p d w = Inr w'"
    and "find (\<lambda>e. fst e = col) (aux w) \<noteq> None \<or> \<not> oom w"
  shows "auxdata_get col w' = p"
  using assms
  by (auto simp: auxdata_set_def auxdata_get_def sqlite3_set_auxdata_def sqlite3_get_auxdata_def
      find_map_replace dest!: run_dtor_opt_aux split: option.splits prod.splits if_splits)

theorem auxdata_roundtrip_witness:
  "auxdata_set 0 5 None (init_world :: unit world) = Inr (init_world\<lparr>aux := [(0, 5, None)]\<rparr>) \<and>
   auxdata_get 0 (init_world\<lparr>aux := [(0, 5, None)]\<rparr> :: unit world) = 5"
proof -
  have s: "auxdata_set 0 5 None (init_world :: unit world) = Inr (init_world\<lparr>aux := [(0, 5, None)]\<rparr>)"
    by (simp add: auxdata_set_def sqlite3_set_auxdata_def init_world_def)
  show ?thesis
    using auxdata_roundtrip [OF s] s by (simp add: init_world_def)
qed

subsection \<open>Error results\<close>

text \<open>C10: \<open>result_error\<close> of a message the host accepts sets the error code
  \<open>SQLITE_ERROR\<close> and the message as the result.\<close>

theorem result_error_message:
  assumes "nul \<notin> set s" "length s < 2 ^ 31" "length s \<le> len_limit w" "out_dtor w = None"
  shows "\<exists>w'. result_error s w = Inr (Ok (), w') \<and> out w' = VText s \<and> is_error w' = SQLITE_ERROR"
proof -
  have sn: "sint (as_i32 (length s)) = int (length s)"
    using assms(2) try_into_i32_sint [of "length s"] by (simp add: as_i32_def try_into_i32_def)
  show ?thesis
    using assms sn read_c_text_exact [OF sn]
    by (simp add: result_error_def rust_alloc_def into_raw_def sqlite3_result_error_def c_mem_def
        set_out_no_dtor unit_ok_def Let_def)
qed

theorem result_error_message_witness:
  "\<exists>w'. result_error ''oops'' (init_world :: unit world) = Inr (Ok (), w') \<and> out w' = VText ''oops'' \<and>
        is_error w' = SQLITE_ERROR"
  using result_error_message [of "''oops''" "init_world :: unit world"] by (simp add: init_world_def nul_def)

subsection \<open>Text error paths\<close>

text \<open>C11: a text longer than the host's length limit is rejected by the host:
  \<open>result_text\<close> still returns \<open>Ok(())\<close>, the result is the error
  \<open>SQLITE_TOOBIG\<close> with its message, and the host has already released the copy
  through \<open>result_text_destructor\<close>, so the heap and the Rust owners are unchanged.\<close>

theorem result_text_toobig:
  assumes "nul \<notin> set s" "length s < 2 ^ 31" "len_limit w < length s" "out_dtor w = None"
    "heap w (next_addr w) = None"
  shows "\<exists>w'. result_text s w = Inr (Ok (), w') \<and> out w' = VText (err_str SQLITE_TOOBIG) \<and>
              is_error w' = SQLITE_TOOBIG \<and> heap w' = heap w \<and> rust_owned w' = rust_owned w"
proof -
  let ?n = "word_of_nat (length s) :: i32"
  have n: "try_into_i32 (length s) = Some ?n" using assms(2) by (simp add: try_into_i32_def)
  have r: "read_c_text (s @ [nul]) ?n = Inr s"
    using try_into_i32_sint [OF n] by (rule read_c_text_exact)
  have h: "(heap w)(next_addr w \<mapsto> CBuf s, next_addr w := None) = heap w"
    using assms(5) by (simp add: fun_upd_idem)
  show ?thesis
    using assms n r h
    by (simp add: result_text_def rust_alloc_def into_raw_def sqlite3_result_text_def c_mem_def
        result_text_destructor_def from_raw_def rust_drop_def free_cell_def set_error_toobig_def
        set_out_no_dtor unit_ok_def Let_def)
qed

theorem result_text_toobig_witness:
  "\<exists>w'. result_text ''abc'' (init_world\<lparr>len_limit := 2\<rparr> :: unit world) = Inr (Ok (), w') \<and>
        out w' = VText (err_str SQLITE_TOOBIG) \<and> is_error w' = SQLITE_TOOBIG \<and>
        heap w' = heap (init_world :: unit world) \<and> rust_owned w' = []"
  using result_text_toobig [of "''abc''" "init_world\<lparr>len_limit := 2\<rparr> :: unit world"]
  by (simp add: init_world_def nul_def)

text \<open>C12: a text of \<open>2^31\<close> bytes or more does not fit the \<open>c_int\<close> length:
  \<open>try_into\<close> fails, \<open>result_text\<close> returns the error
  \<open>"i32 overflow, string to large"\<close>, the \<open>CString\<close> is dropped and the result is
  untouched.\<close>

theorem result_text_length_overflow:
  assumes "nul \<notin> set s" "2 ^ 31 \<le> length s" "heap w (next_addr w) = None"
  shows "\<exists>w'. result_text s w = Inr (Err (Message ''i32 overflow, string to large''), w') \<and>
              out w' = out w \<and> heap w' = heap w \<and> rust_owned w' = rust_owned w"
  using result_text_too_long [OF assms] by simp

theorem result_text_length_overflow_witness:
  "\<exists>w'. result_text (replicate (2 ^ 31) CHR ''a'') (init_world :: unit world) =
          Inr (Err (Message ''i32 overflow, string to large''), w') \<and>
        out w' = VNull \<and> heap w' = heap (init_world :: unit world) \<and> rust_owned w' = []"
  using result_text_length_overflow [of "replicate (2 ^ 31) CHR ''a''" "init_world :: unit world"]
  by (simp add: init_world_def nul_def)

end
