(* ===== verification/Affinity.thy ===== *)
theory Affinity
  imports Result_Sink
begin

text \<open>
  AffinityResolver (\<open>src/api.rs\<close> lines 361--526): the classification of a
  declared column type into an affinity, by case-insensitive substring tests in a
  fixed order, and the coercion of a text value by the affinity before it is written
  as the result. The constructors keep the source's names; since the two affinity
  enums and \<open>ValueType\<close> share some, they are always written qualified, as the
  source writes \<open>ColumnAffinity::Text\<close>.
\<close>

datatype ColumnAffinity = Text | Integer | Real | Blob | Numeric

datatype ExtendedColumnAffinity =
  Text | Integer | Real | Blob | Boolean | Json | Datetime | Date | Time | Numeric

text \<open>\<open>ColumnAffinity::from_declared_type\<close>: the rules of SQLite's section 3.1,
  on the trimmed, lower-cased declared type.\<close>

definition from_declared_type :: "string \<Rightarrow> ColumnAffinity" where
  "from_declared_type declared_type =
     (let lowered = to_lowercase (trim declared_type) in
      if str_contains lowered ''int'' then ColumnAffinity.Integer
      else if str_contains lowered ''char'' \<or> str_contains lowered ''clob''
              \<or> str_contains lowered ''text'' then ColumnAffinity.Text
      else if str_contains lowered ''blob'' \<or> lowered = [] then ColumnAffinity.Blob
      else if str_contains lowered ''real'' \<or> str_contains lowered ''floa''
              \<or> str_contains lowered ''doub'' then ColumnAffinity.Real
      else ColumnAffinity.Numeric)"

text \<open>\<open>ColumnAffinity::result_text\<close>: the parses are tried in the order of the
  source, each \<open>if let Ok\<close> falling through to the next; text is the fallback.\<close>

definition ColumnAffinity_result_text ::
  "ColumnAffinity \<Rightarrow> string \<Rightarrow> 'a world \<Rightarrow> fault + unit rust_result \<times> 'a world" where
  "ColumnAffinity_result_text self value w =
     (case self of
        ColumnAffinity.Numeric \<Rightarrow>
          (case parse_i32 value of
             Some v \<Rightarrow> unit_ok (result_int v w)
           | None \<Rightarrow>
               (case parse_i64 value of
                  Some v \<Rightarrow> unit_ok (result_int64 v w)
                | None \<Rightarrow>
                    (case parse_f64 value of
                       Some v \<Rightarrow> unit_ok (result_double v w)
                     | None \<Rightarrow> result_text value w)))
      | ColumnAffinity.Integer \<Rightarrow>
          (case parse_i32 value of
             Some v \<Rightarrow> unit_ok (result_int v w)
           | None \<Rightarrow>
               (case parse_i64 value of
                  Some v \<Rightarrow> unit_ok (result_int64 v w)
                | None \<Rightarrow> result_text value w))
      | ColumnAffinity.Real \<Rightarrow>
          (case parse_f64 value of
             Some v \<Rightarrow> unit_ok (result_double v w)
           | None \<Rightarrow> result_text value w)
      | ColumnAffinity.Blob \<Rightarrow> result_text value w
      | ColumnAffinity.Text \<Rightarrow> result_text value w)"

text \<open>\<open>ExtendedColumnAffinity::extended_column_affinity_from_type\<close>: the same
  rules on the lower-cased declared type (it is not trimmed), then \<open>json\<close> and
  \<open>boolean\<close>.\<close>

definition extended_column_affinity_from_type :: "string \<Rightarrow> ExtendedColumnAffinity" where
  "extended_column_affinity_from_type declared_type =
     (let lowered = to_lowercase declared_type in
      if str_contains lowered ''int'' then ExtendedColumnAffinity.Integer
      else if str_contains lowered ''char'' \<or> str_contains lowered ''clob''
              \<or> str_contains lowered ''text'' then ExtendedColumnAffinity.Text
      else if str_contains lowered ''blob'' \<or> lowered = [] then ExtendedColumnAffinity.Blob
      else if str_contains lowered ''real'' \<or> str_contains lowered ''floa''
              \<or> str_contains lowered ''doub'' then ExtendedColumnAffinity.Real
      else if str_contains lowered ''json'' then ExtendedColumnAffinity.Json
      else if str_contains lowered ''boolean'' then ExtendedColumnAffinity.Boolean
      else ExtendedColumnAffinity.Numeric)"

text \<open>What SQLite's affinity rules (section 3.4 of its documentation, as the
  specification of \<open>ColumnAffinity::result_text\<close> states them) make of a text:
  INTEGER affinity keeps an integer that fits 64 bits, NUMERIC also keeps a real,
  REAL keeps a real, and TEXT and BLOB keep the text.\<close>

definition affinity_value :: "ColumnAffinity \<Rightarrow> string \<Rightarrow> sqlite_value" where
  "affinity_value a v =
     (let as_real = (case parse_f64 v of Some f \<Rightarrow> VFloat f | None \<Rightarrow> VText v) in
      case a of
        ColumnAffinity.Numeric \<Rightarrow> (case parse_i64 v of Some i \<Rightarrow> VInteger i | None \<Rightarrow> as_real)
      | ColumnAffinity.Integer \<Rightarrow> (case parse_i64 v of Some i \<Rightarrow> VInteger i | None \<Rightarrow> VText v)
      | ColumnAffinity.Real \<Rightarrow> as_real
      | ColumnAffinity.Blob \<Rightarrow> VText v
      | ColumnAffinity.Text \<Rightarrow> VText v)"

text \<open>The core affinity an extended one stands for: SQLite gives the extended
  names (JSON, BOOLEAN, DATETIME, DATE, TIME) NUMERIC affinity.\<close>

fun core_affinity :: "ExtendedColumnAffinity \<Rightarrow> ColumnAffinity" where
  "core_affinity ExtendedColumnAffinity.Text = ColumnAffinity.Text"
| "core_affinity ExtendedColumnAffinity.Integer = ColumnAffinity.Integer"
| "core_affinity ExtendedColumnAffinity.Real = ColumnAffinity.Real"
| "core_affinity ExtendedColumnAffinity.Blob = ColumnAffinity.Blob"
| "core_affinity _ = ColumnAffinity.Numeric"

text \<open>The rules of the specification (section 4.4) as a table read in order: the
  first row with a word contained in the lower-cased type gives the affinity.\<close>

definition core_rules :: "(string list \<times> ColumnAffinity) list" where
  "core_rules =
     [([''int''], ColumnAffinity.Integer), ([''char'', ''clob'', ''text''], ColumnAffinity.Text),
      ([''blob''], ColumnAffinity.Blob), ([''real'', ''floa'', ''doub''], ColumnAffinity.Real)]"

fun first_rule :: "(string list \<times> 'b) list \<Rightarrow> 'b \<Rightarrow> string \<Rightarrow> 'b" where
  "first_rule [] d s = d"
| "first_rule ((ks, a) # rs) d s = (if \<exists>k \<in> set ks. sublist k s then a else first_rule rs d s)"

subsection \<open>Classification\<close>

text \<open>The words the rules look for contain no byte of a white-space character, so
  testing them on the trimmed or on the untrimmed lower-cased type agrees.\<close>

definition affinity_words :: "string list" where
  "affinity_words = [''int'', ''char'', ''clob'', ''text'', ''blob'', ''real'', ''floa'', ''doub'',
     ''json'', ''boolean'']"

lemma affinity_words_ok: "\<forall>k \<in> set affinity_words. k \<noteq> [] \<and> (\<forall>c \<in> set k. c \<notin> ws_bytes)"
  unfolding affinity_words_def ws_bytes_def by code_simp

lemma contains_trim_word:
  assumes "k \<in> set affinity_words"
  shows "str_contains (to_lowercase (trim s)) k = str_contains (to_lowercase s) k"
  using affinity_words_ok assms contains_lower_trim by (simp add: str_contains_sublist)

lemmas contains_trim_words [simp] =
  contains_trim_word [of "''int''"] contains_trim_word [of "''char''"]
  contains_trim_word [of "''clob''"] contains_trim_word [of "''text''"]
  contains_trim_word [of "''blob''"] contains_trim_word [of "''real''"]
  contains_trim_word [of "''floa''"] contains_trim_word [of "''doub''"]

lemma trim_Nil [simp]: "trim [] = []"
  by code_simp

text \<open>\<open>from_declared_type\<close> read on the untrimmed type: trimming matters only for
  the emptiness test.\<close>

lemma from_declared_type_untrimmed:
  "from_declared_type declared_type =
     (let lowered = to_lowercase declared_type in
      if str_contains lowered ''int'' then ColumnAffinity.Integer
      else if str_contains lowered ''char'' \<or> str_contains lowered ''clob''
              \<or> str_contains lowered ''text'' then ColumnAffinity.Text
      else if str_contains lowered ''blob'' \<or> trim declared_type = [] then ColumnAffinity.Blob
      else if str_contains lowered ''real'' \<or> str_contains lowered ''floa''
              \<or> str_contains lowered ''doub'' then ColumnAffinity.Real
      else ColumnAffinity.Numeric)"
  by (simp add: from_declared_type_def affinity_words_def Let_def)

lemma trim_Nil_no_word:
  assumes "trim s = []" and "k \<in> set affinity_words"
  shows "\<not> sublist k (to_lowercase s)"
proof -
  have "str_contains (to_lowercase (trim s)) k = str_contains (to_lowercase s) k"
    using assms(2) by (rule contains_trim_word)
  moreover have "k \<noteq> []" using affinity_words_ok assms(2) by blast
  ultimately show ?thesis
    using assms(1) by (simp add: str_contains_sublist)
qed

text \<open>C14: a declared type whose lower-cased text contains \<open>int\<close> has INTEGER
  affinity, and only such a type has it: the \<open>int\<close> rule comes first.\<close>

theorem from_declared_type_Integer_iff:
  "from_declared_type s = ColumnAffinity.Integer \<longleftrightarrow> sublist ''int'' (to_lowercase s)"
  by (simp add: from_declared_type_untrimmed str_contains_sublist Let_def)

text \<open>C17: the extended classification refines the core one: read as core
  affinities, the two agree on every declared type except a non-empty one made of
  white space only, which the extended rules (they do not trim) class NUMERIC.\<close>

theorem extended_refines_core:
  "core_affinity (extended_column_affinity_from_type s) =
     (if s \<noteq> [] \<and> trim s = [] then ColumnAffinity.Numeric else from_declared_type s)"
proof (cases "trim s = []")
  case True
  then have "\<not> sublist k (to_lowercase s)" if "k \<in> set affinity_words" for k
    using that by (rule trim_Nil_no_word)
  with True show ?thesis
    by (simp add: extended_column_affinity_from_type_def from_declared_type_untrimmed
        str_contains_sublist affinity_words_def Let_def)
next
  case False
  then have "s \<noteq> []" by auto
  with False show ?thesis
    by (simp add: extended_column_affinity_from_type_def from_declared_type_untrimmed
        str_contains_sublist Let_def)
qed

lemma integer_parse_fresh:
  assumes "out_dtor w = None" "parse_i64 v = Some i"
  shows "\<exists>w'. (case parse_i32 v of Some x \<Rightarrow> unit_ok (result_int x w)
               | None \<Rightarrow> (case parse_i64 v of Some x \<Rightarrow> unit_ok (result_int64 x w) | None \<Rightarrow> R))
             = Inr (Ok (), w') \<and> out w' = VInteger i"
proof (cases "parse_i32 v")
  case None
  with assms show ?thesis by (simp add: fresh_results)
next
  case (Some x)
  then have "i = scast x" using assms(2) by (auto dest: parse_i32_i64)
  with Some assms(1) show ?thesis by (simp add: fresh_results)
qed

text \<open>C1: on a text without nul byte that the host accepts, the coercion succeeds and
  leaves in the result exactly the value the affinity rules prescribe.\<close>

theorem affinity_refines:
  assumes "nul \<notin> set v" "length v < 2 ^ 31" "length v \<le> len_limit w" "out_dtor w = None"
  shows "\<exists>w'. ColumnAffinity_result_text a v w = Inr (Ok (), w') \<and> out w' = affinity_value a v"
proof (cases "parse_i64 v")
  case None
  then have "parse_i32 v = None" by (rule parse_i64_None)
  with None assms show ?thesis
    by (cases a) (auto simp: ColumnAffinity_result_text_def affinity_value_def fresh_results
        split: option.splits)
next
  case (Some i)
  have r: "\<exists>w'. (case parse_f64 v of Some f \<Rightarrow> unit_ok (result_double f w)
                 | None \<Rightarrow> result_text v w) = Inr (Ok (), w') \<and>
              out w' = (case parse_f64 v of Some f \<Rightarrow> VFloat f | None \<Rightarrow> VText v)"
    using assms by (simp add: fresh_results split: option.split)
  show ?thesis
    using Some assms r integer_parse_fresh [OF assms(4) Some]
    by (cases a) (simp_all add: ColumnAffinity_result_text_def affinity_value_def fresh_results)
qed

theorem affinity_refines_witness:
  "\<exists>w'. ColumnAffinity_result_text ColumnAffinity.Numeric ''42'' (init_world :: unit world)
          = Inr (Ok (), w') \<and> out w' = affinity_value ColumnAffinity.Numeric ''42''"
  using affinity_refines [of "''42''" "init_world :: unit world" ColumnAffinity.Numeric]
  by (simp add: init_world_def nul_def)

text \<open>C27: INTEGER affinity never writes a real: a real in the result after the
  coercion was there before it.\<close>

theorem integer_affinity_no_float:
  "ColumnAffinity_result_text ColumnAffinity.Integer v w = Inr (r, w') \<Longrightarrow> out w' = VFloat f \<Longrightarrow>
   out w = VFloat f"
  by (auto simp: ColumnAffinity_result_text_def unit_ok_def result_int_def result_int64_def
      sqlite3_result_int_def sqlite3_result_int64_def
      dest: set_out_out result_text_out split: option.splits sum.splits)

text \<open>C18: a text holding a nul byte parses as no number and makes the coercion fail
  with \<open>NulError\<close>, the result untouched, whatever the affinity.\<close>

theorem affinity_nul_error:
  "nul \<in> set v \<Longrightarrow> \<exists>k. k < length v \<and> ColumnAffinity_result_text a v w = Inr (Err (NulError k), w)"
  by (cases a) (simp_all add: ColumnAffinity_result_text_def parse_signed_nul parse_f64_nul result_text_nul)

theorem integer_affinity_no_float_witness:
  "ColumnAffinity_result_text ColumnAffinity.Integer [nul] (init_world\<lparr>out := VFloat NaN\<rparr> :: unit world)
     = Inr (Err (NulError 0), init_world\<lparr>out := VFloat NaN\<rparr>) \<and>
   out (init_world\<lparr>out := VFloat NaN\<rparr> :: unit world) = VFloat NaN"
proof -
  let ?w = "init_world\<lparr>out := VFloat NaN\<rparr> :: unit world"
  have h: "ColumnAffinity_result_text ColumnAffinity.Integer [nul] ?w = Inr (Err (NulError 0), ?w)"
    by (simp add: ColumnAffinity_result_text_def parse_signed_nul result_text_def cstring_new_def)
  show ?thesis
    using integer_affinity_no_float [OF h] h by simp
qed

theorem affinity_nul_error_witness:
  "\<exists>k. k < 1 \<and> ColumnAffinity_result_text ColumnAffinity.Real [nul] (init_world :: unit world)
          = Inr (Err (NulError k), init_world)"
  using affinity_nul_error [of "[nul]" ColumnAffinity.Real "init_world :: unit world"] by simp

text \<open>C15: \<open>from_declared_type\<close>, with its substring search and trimming, is the
  specification's rule table applied to the lower-cased type, a type of white
  space only being BLOB.\<close>

theorem from_declared_type_rules:
  "from_declared_type s =
     (if trim s = [] then ColumnAffinity.Blob else first_rule core_rules ColumnAffinity.Numeric (to_lowercase s))"
proof (cases "trim s = []")
  case True
  then have "\<not> sublist k (to_lowercase s)" if "k \<in> set affinity_words" for k
    using that by (rule trim_Nil_no_word)
  with True show ?thesis
    by (simp add: from_declared_type_untrimmed str_contains_sublist affinity_words_def Let_def)
next
  case False
  then show ?thesis
    by (simp add: from_declared_type_untrimmed str_contains_sublist core_rules_def Let_def)
qed

text \<open>C16: the classification is case-insensitive: two declared types that agree
  once lower-cased get the same affinity.\<close>

theorem from_declared_type_case_insensitive:
  "to_lowercase s = to_lowercase t \<Longrightarrow> from_declared_type s = from_declared_type t"
proof -
  assume st: "to_lowercase s = to_lowercase t"
  have "trim s = [] \<longleftrightarrow> trim t = []"
    using trim_lower [of s] trim_lower [of t] st by (metis to_lowercase_Nil_iff)
  with st show ?thesis by (simp add: from_declared_type_untrimmed Let_def)
qed

theorem from_declared_type_case_insensitive_witness:
  "to_lowercase ''Int'' = to_lowercase ''iNT'' \<and> from_declared_type ''Int'' = from_declared_type ''iNT''"
proof -
  have l: "to_lowercase ''Int'' = to_lowercase ''iNT''" by code_simp
  show ?thesis using from_declared_type_case_insensitive [OF l] l by simp
qed

text \<open>C33: the extended classification gives JSON to a type none of the core rules
  matches and containing \<open>json\<close>, and BOOLEAN to one containing \<open>boolean\<close> and not
  \<open>json\<close>.\<close>

theorem extended_json_boolean:
  "(extended_column_affinity_from_type s = ExtendedColumnAffinity.Json \<longleftrightarrow>
      s \<noteq> [] \<and> first_rule core_rules ColumnAffinity.Numeric (to_lowercase s) = ColumnAffinity.Numeric \<and>
      sublist ''json'' (to_lowercase s)) \<and>
   (extended_column_affinity_from_type s = ExtendedColumnAffinity.Boolean \<longleftrightarrow>
      s \<noteq> [] \<and> first_rule core_rules ColumnAffinity.Numeric (to_lowercase s) = ColumnAffinity.Numeric \<and>
      \<not> sublist ''json'' (to_lowercase s) \<and> sublist ''boolean'' (to_lowercase s))"
  by (simp add: extended_column_affinity_from_type_def core_rules_def str_contains_sublist Let_def)

end
