(* ===== verification/Value_Access.thy ===== *)
theory Value_Access
  imports Result_Sink
begin

text \<open>
  ValueAccessor (\<open>src/api.rs\<close> lines 29--229): the \<open>Value\<close> struct, which caches
  the type of a borrowed value handle, its guards and text accessor, and the free
  accessor functions over a raw handle. A handle is modelled by the host value it
  points to; the host's coercions are the interface \<open>hc\<close>.
\<close>

text \<open>\<open>value_type\<close>: the host's code, decoded (a panic on an unknown code).\<close>

definition value_type :: "sqlite_value \<Rightarrow> fault + ValueType" where
  "value_type value = value_type_of_raw (sqlite3_value_type value)"

text \<open>\<open>struct Value { value, value_type }\<close>; the fields are called
  \<open>value_handle\<close> and \<open>vtype\<close> here (\<open>value\<close> is a keyword of Isabelle, and
  \<open>value_type\<close> is the function above).\<close>

record Value =
  value_handle :: sqlite_value
  vtype :: ValueType

definition Value_from :: "sqlite_value \<Rightarrow> fault + Value rust_result" where
  "Value_from value =
     (case value_type value of
        Inl e \<Rightarrow> Inl e
      | Inr t \<Rightarrow> Inr (Ok \<lparr>value_handle = value, vtype = t\<rparr>))"

text \<open>\<open>Value::at\<close>: \<open>values.get(at)?\<close> returns \<open>None\<close> out of range (the
  parameter \<open>at\<close> is \<open>at_index\<close> here, \<open>at\<close> being a constant of HOL).\<close>

definition Value_at :: "sqlite_value list \<Rightarrow> nat \<Rightarrow> fault + Value option" where
  "Value_at values at_index =
     (if at_index < length values then
        (case value_type (values ! at_index) of
           Inl e \<Rightarrow> Inl e
         | Inr t \<Rightarrow> Inr (Some \<lparr>value_handle = values ! at_index, vtype = t\<rparr>))
      else Inr None)"

definition notnull_or :: "Value \<Rightarrow> error \<Rightarrow> Value rust_result" where
  "notnull_or self error = (if vtype self \<noteq> ValueType.Null then Ok self else Err error)"

text \<open>The closure \<open>F: FnOnce() -> Error\<close> is called only on the error path.\<close>

definition notnull_or_else :: "Value \<Rightarrow> (unit \<Rightarrow> error) \<Rightarrow> Value rust_result" where
  "notnull_or_else self err = (if vtype self \<noteq> ValueType.Null then Ok self else Err (err ()))"

text \<open>\<open>value_text\<close>: \<open>CStr::from_ptr\<close> on the host's pointer, which is NULL for a
  NULL value (undefined behaviour), then UTF-8 validation.\<close>

definition value_text :: "host_conv \<Rightarrow> sqlite_value \<Rightarrow> fault + string rust_result" where
  "value_text hc value =
     (case sqlite3_value_text hc value of
        None \<Rightarrow> Inl (Undefined ''CStr::from_ptr on a null pointer'')
      | Some m \<Rightarrow>
          (case str_from_utf8 (cstr_from_ptr m) of
             Inl k \<Rightarrow> Inr (Err (Utf8Error k))
           | Inr s \<Rightarrow> Inr (Ok s)))"

definition value_text_notnull :: "host_conv \<Rightarrow> sqlite_value \<Rightarrow> fault + string rust_result" where
  "value_text_notnull hc value =
     (case value_type value of
        Inl e \<Rightarrow> Inl e
      | Inr t \<Rightarrow>
          if t = ValueType.Null then Inr (Err (Message ''Unexpected null value''))
          else value_text hc value)"

definition text_or_else ::
  "host_conv \<Rightarrow> Value \<Rightarrow> (error \<Rightarrow> error) \<Rightarrow> fault + string rust_result" where
  "text_or_else hc self error =
     (case value_text hc (value_handle self) of
        Inl e \<Rightarrow> Inl e
      | Inr (Ok s) \<Rightarrow> Inr (Ok s)
      | Inr (Err err) \<Rightarrow> Inr (Err (error err)))"

text \<open>
  \<open>value_pointer::<T>\<close>: on a non-NULL pointer, \<open>Box::from_raw\<close> makes the caller
  an owner of the allocation; the result is the boxed object with its address.
\<close>

definition value_pointer ::
  "sqlite_value \<Rightarrow> string \<Rightarrow> 'a world \<Rightarrow> fault + (addr \<times> 'a) option \<times> 'a world" where
  "value_pointer value c_name w =
     (case sqlite3_value_pointer value c_name of
        Inl e \<Rightarrow> Inl e
      | Inr None \<Rightarrow> Inr (None, w)
      | Inr (Some p) \<Rightarrow>
          (case heap w p of
             Some (CBox x) \<Rightarrow> Inr (Some (p, x), from_raw p w)
           | _ \<Rightarrow> Inl (Undefined ''Box::from_raw on memory that is not a live box'')))"

definition value_int :: "host_conv \<Rightarrow> sqlite_value \<Rightarrow> i32" where
  "value_int hc value = sqlite3_value_int hc value"

definition value_int64 :: "host_conv \<Rightarrow> sqlite_value \<Rightarrow> i64" where
  "value_int64 hc value = sqlite3_value_int64 hc value"

definition value_double :: "host_conv \<Rightarrow> sqlite_value \<Rightarrow> f64" where
  "value_double hc value = sqlite3_value_double hc value"

text \<open>\<open>slice::from_raw_parts\<close>: the pointer must not be NULL, even for length 0.\<close>

definition from_raw_parts :: "string option \<Rightarrow> nat \<Rightarrow> fault + string" where
  "from_raw_parts b n =
     (case b of
        None \<Rightarrow> Inl (Undefined ''slice::from_raw_parts on a null pointer'')
      | Some m \<Rightarrow> if n \<le> length m then Inr (take n m)
                  else Inl (Undefined ''slice::from_raw_parts past the end of the buffer''))"

text \<open>\<open>value_blob\<close>: the byte count first, then the pointer; \<open>n as usize\<close> of a
  non-negative count is its value.\<close>

definition value_blob :: "host_conv \<Rightarrow> sqlite_value \<Rightarrow> fault + string" where
  "value_blob hc value =
     (let n = sqlite3_value_bytes hc value; b = sqlite3_value_blob hc value in
      from_raw_parts b (nat (sint n)))"

definition value_bytes :: "host_conv \<Rightarrow> sqlite_value \<Rightarrow> i32" where
  "value_bytes hc value = sqlite3_value_bytes hc value"

text \<open>The storage class a host value reports: a pointer value is a NULL.\<close>

fun storage_class :: "sqlite_value \<Rightarrow> ValueType" where
  "storage_class VNull = ValueType.Null"
| "storage_class (VInteger i) = ValueType.Integer"
| "storage_class (VFloat f) = ValueType.Float"
| "storage_class (VText s) = ValueType.Text"
| "storage_class (VBlob b) = ValueType.Blob"
| "storage_class (VPointer p n) = ValueType.Null"

lemmas value_access_defs [wrapper_simps] =
  value_type_def Value_from_def Value_at_def notnull_or_def notnull_or_else_def
  value_text_def value_text_notnull_def text_or_else_def value_pointer_def
  from_raw_parts_def value_blob_def

subsection \<open>Type and guards\<close>

lemma value_type_host: "value_type v = Inr (storage_class v)"
  by (cases v) (simp_all add: value_type_def value_type_of_raw_def sqlite_type_codes)

text \<open>C29: \<open>Value::from\<close> never panics on a value the host hands out, and the
  null guard \<open>notnull_or\<close> rejects exactly the NULL values, pointer values
  included.\<close>

theorem notnull_or_Value_from:
  "Value_from v = Inr (Ok x) \<Longrightarrow>
   notnull_or x e = (if storage_class v = ValueType.Null then Err e else Ok x)"
  by (auto simp: Value_from_def notnull_or_def value_type_host)

theorem notnull_or_Value_from_witness:
  "Value_from (VPointer 1 ''p'') = Inr (Ok \<lparr>value_handle = VPointer 1 ''p'', vtype = ValueType.Null\<rparr>) \<and>
   notnull_or \<lparr>value_handle = VPointer 1 ''p'', vtype = ValueType.Null\<rparr> (Message ''null'') =
     Err (Message ''null'')"
proof -
  have v: "Value_from (VPointer 1 ''p'') = Inr (Ok \<lparr>value_handle = VPointer 1 ''p'', vtype = ValueType.Null\<rparr>)"
    by (simp add: Value_from_def value_type_host)
  show ?thesis
    using notnull_or_Value_from [OF v, of "Message ''null''"] v by simp
qed

text \<open>C32: \<open>Value::at\<close> returns \<open>None\<close> exactly out of range, and never panics.\<close>

theorem Value_at_None_iff: "Value_at vs i = Inr None \<longleftrightarrow> length vs \<le> i"
  by (simp add: Value_at_def value_type_host)

subsection \<open>Blobs\<close>

text \<open>C22: \<open>value_blob\<close> of a blob returns its bytes, except for the empty blob,
  where the host returns a NULL pointer and \<open>slice::from_raw_parts\<close> on it is
  undefined behaviour.\<close>

theorem value_blob_blob:
  assumes "length b < 2 ^ 31"
  shows "value_blob hc (VBlob b) =
           (if b = [] then Inl (Undefined ''slice::from_raw_parts on a null pointer'') else Inr b)"
proof -
  have "sint (word_of_nat (length b) :: i32) = int (length b)"
    using assms by (simp add: try_into_i32_sint try_into_i32_def)
  then show ?thesis
    by (simp add: value_blob_def from_raw_parts_def)
qed

theorem value_blob_blob_witness:
  "length ([] :: string) < 2 ^ 31 \<and>
   value_blob sample_conv (VBlob []) = Inl (Undefined ''slice::from_raw_parts on a null pointer'')"
  using value_blob_blob [of "[]" sample_conv] by simp

subsection \<open>Text readers\<close>

text \<open>C13: \<open>value_text_notnull\<close> never faults, and its guard is exactly the case in
  which the host would hand out a NULL text pointer: there it returns the error
  \<open>Unexpected null value\<close>; otherwise it decodes the host's text as UTF-8.\<close>

theorem value_text_notnull_guard:
  "value_text_notnull hc v =
     (case sqlite3_value_text hc v of
        None \<Rightarrow> Inr (Err (Message ''Unexpected null value''))
      | Some m \<Rightarrow>
          (case str_from_utf8 (cstr_from_ptr m) of
             Inl k \<Rightarrow> Inr (Err (Utf8Error k))
           | Inr s \<Rightarrow> Inr (Ok s)))"
  by (cases v) (simp_all add: value_text_notnull_def value_text_def value_type_host)

subsection \<open>Pointer names\<close>

text \<open>C35: the name is passed to the host's \<open>strcmp\<close> as the address of a Rust byte
  slice: a name without nul terminator whose bytes match the stored name makes the
  host read past the end of the slice.\<close>

theorem value_pointer_unterminated:
  "nul \<notin> set n \<Longrightarrow>
   value_pointer (VPointer p (n @ [nul])) n w = Inl (Undefined ''strcmp reads past the end of a type name'')"
proof -
  assume "nul \<notin> set n"
  then have "c_strcmp_eq (n @ [nul]) n = Inl (Undefined ''strcmp reads past the end of a type name'')"
    by (induction n) auto
  then show ?thesis by (simp add: value_pointer_def)
qed

theorem value_pointer_unterminated_witness:
  "nul \<notin> set ''ptr'' \<and>
   value_pointer (VPointer 1 (''ptr'' @ [nul])) ''ptr'' (init_world :: unit world) =
     Inl (Undefined ''strcmp reads past the end of a type name'')"
  using value_pointer_unterminated [of "''ptr''" 1 "init_world :: unit world"] by (simp add: nul_def)

text \<open>C23: a blob view has the length the host reports with \<open>value_bytes\<close>.\<close>

theorem value_blob_length:
  "value_blob hc v = Inr b \<Longrightarrow> length b = nat (sint (value_bytes hc v))"
  by (auto simp: value_blob_def value_bytes_def from_raw_parts_def Let_def split: option.splits if_splits)

theorem value_blob_length_witness:
  "value_blob sample_conv (VBlob ''ab'') = Inr ''ab'' \<and> length ''ab'' = nat (sint (value_bytes sample_conv (VBlob ''ab'')))"
proof -
  have v: "value_blob sample_conv (VBlob ''ab'') = Inr ''ab''"
    by (simp add: value_blob_def from_raw_parts_def)
  show ?thesis using value_blob_length [OF v] v by simp
qed

subsection \<open>The cached type tag\<close>

text \<open>C28: a \<open>Value\<close> built by \<open>Value::at\<close> holds the handle at that index and caches
  the type the host reports for it, so reading \<open>vtype\<close> is reading
  \<open>value_type\<close>.\<close>

theorem Value_at_type:
  "Value_at vs i = Inr (Some x) \<Longrightarrow>
   i < length vs \<and> value_handle x = vs ! i \<and> value_type (value_handle x) = Inr (vtype x)"
  by (auto simp: Value_at_def value_type_host split: if_splits)

theorem Value_at_type_witness:
  "Value_at [VNull, VInteger 3] 1 = Inr (Some \<lparr>value_handle = VInteger 3, vtype = ValueType.Integer\<rparr>) \<and>
   value_type (VInteger 3) = Inr ValueType.Integer"
proof -
  have v: "Value_at [VNull, VInteger 3] 1 = Inr (Some \<lparr>value_handle = VInteger 3, vtype = ValueType.Integer\<rparr>)"
    by (simp add: Value_at_def value_type_host)
  show ?thesis using Value_at_type [OF v] v by simp
qed

end
