(* ===== verification/Ownership.thy ===== *)
theory Ownership
  imports Affinity Value_Access
begin

text \<open>
  The ownership contract at the FFI boundary of \<open>src/api.rs\<close>. A Rust allocation
  handed to the host (\<open>CString::into_raw\<close> in \<open>result_text\<close>, \<open>Box::into_raw\<close> in
  \<open>result_pointer\<close>) must have exactly one owner at every moment: an owning Rust
  value, the host's destructor for the result or an auxiliary data entry, or a
  transfer in progress (the \<open>pending\<close> addresses between \<open>into_raw\<close> and the host
  call). \<open>ledger_ok\<close> states this with the pending transfers, \<open>dtors_ok\<close> that every
  destructor the host holds fits the memory it will be applied to, and
  \<open>boundary_ok\<close> adds the well-formedness of the heap and that no Rust owner
  outlives the wrapper that made it (\<open>rust_owned\<close> is empty between calls).

  The wrappers of the result sink are the calls of a step relation
  (\<open>wrapper_call\<close>, \<open>run_call\<close>, \<open>reachable\<close>); \<open>Host_release\<close> is SQLite
  releasing the result. The invariant holds in every reachable world, and no call
  in bounds faults there; an invocation (\<open>run_script\<close>) runs to its end, and
  SQLite's teardown (\<open>host_teardown\<close>) then frees every Rust allocation.
  \<open>result_error\<close> and \<open>value_pointer\<close> are outside the relation: the first leaks its \<open>CString\<close>, the second creates a second owner of a
  box the host still owns, which ends in a double free.
\<close>

subsection \<open>The ledger\<close>

definition ledger_ok :: "addr list \<Rightarrow> 'a world \<Rightarrow> bool" where
  "ledger_ok p w \<longleftrightarrow> distinct (p @ owners w) \<and> (\<forall>a. a \<in> set (p @ owners w) \<longleftrightarrow> rust_alloc_at w a)"

fun dtor_fits :: "(addr \<Rightarrow> 'a cell option) \<Rightarrow> addr \<Rightarrow> dtor \<Rightarrow> bool" where
  "dtor_fits h a Result_text_destructor = (case h a of Some (CBuf b) \<Rightarrow> True | _ \<Rightarrow> False)"
| "dtor_fits h a Pointer_destroy = (case h a of Some (CBox x) \<Rightarrow> True | _ \<Rightarrow> False)"
| "dtor_fits h a (Caller_destructor f) = (h a \<noteq> None)"

definition dtors_ok :: "'a world \<Rightarrow> bool" where
  "dtors_ok w \<longleftrightarrow>
     (\<forall>a d. out_dtor w = Some (a, d) \<longrightarrow> dtor_fits (heap w) a d) \<and>
     (\<forall>c a d. (c, a, Some d) \<in> set (aux w) \<longrightarrow> dtor_fits (heap w) a d)"

definition released :: "'a world \<Rightarrow> 'a world" where
  "released w =
     (case out_dtor w of
        None \<Rightarrow> w\<lparr>out := VNull, out_subtype := None\<rparr>
      | Some (b, d) \<Rightarrow> w\<lparr>heap := (heap w)(b := None), out := VNull, out_dtor := None, out_subtype := None\<rparr>)"

definition boundary_ok :: "addr list \<Rightarrow> 'a world \<Rightarrow> bool" where
  "boundary_ok p w \<longleftrightarrow> ledger_ok p w \<and> dtors_ok w \<and> world_wf w \<and> rust_owned w = []"

subsection \<open>Releasing the result and registering a destructor\<close>

lemma ownership_ok_ledger: "ownership_ok w = ledger_ok [] w"
  by (simp add: ownership_ok_def ledger_ok_def)

lemma dtor_fits_upd: "a \<noteq> b \<Longrightarrow> dtor_fits (h(b := c)) a d = dtor_fits h a d"
  by (cases d) simp_all

lemma dtor_fits_cong: "h a = h' a \<Longrightarrow> dtor_fits h a d = dtor_fits h' a d"
  by (cases d) simp_all

lemma run_dtor_fits:
  "dtor_fits (heap w) a d \<Longrightarrow> run_dtor d a w = Inr (w\<lparr>heap := (heap w)(a := None)\<rparr>)"
  by (cases d) (auto simp: memory_defs split: option.splits cell.splits)

lemma release_out_fits: "dtors_ok w \<Longrightarrow> release_out w = Inr (released w)"
  by (auto simp: release_out_def released_def dtors_ok_def run_dtor_fits split: option.split)

lemma ledger_released:
  assumes l: "ledger_ok p w"
  shows "ledger_ok p (released w)"
proof (cases "out_dtor w")
  case None
  then show ?thesis using l
    by (simp add: released_def ledger_ok_def owners_def host_held_def rust_alloc_at_def)
next
  case (Some bd)
  obtain b d where bd: "bd = (b, d)" by (cases bd)
  let ?A = "[fst (snd e). e \<leftarrow> aux w, snd (snd e) \<noteq> None]"
  have o: "owners w = rust_owned w @ b # ?A" and o': "owners (released w) = rust_owned w @ ?A"
    using Some bd by (simp_all add: owners_def host_held_def released_def)
  have d: "distinct (p @ rust_owned w @ b # ?A)" using l o by (simp add: ledger_ok_def)
  have m: "a \<in> set (p @ rust_owned w @ b # ?A) \<longleftrightarrow> rust_alloc_at w a" for a
    using l o by (simp add: ledger_ok_def)
  have r: "rust_alloc_at (released w) a \<longleftrightarrow> rust_alloc_at w a \<and> a \<noteq> b" for a
    using Some bd by (simp add: released_def rust_alloc_at_def)
  show ?thesis
    unfolding ledger_ok_def o' using d m r by auto
qed

lemma held_addr_not_out:
  assumes "ledger_ok p w" "out_dtor w = Some (b, d)" "(c, a, Some f) \<in> set (aux w)"
  shows "a \<noteq> b"
proof -
  have "distinct (host_held w)" using assms(1) by (simp add: ledger_ok_def owners_def)
  with assms(2,3) show ?thesis by (force simp: host_held_def)
qed

lemma dtors_ok_released:
  assumes "ledger_ok p w" "dtors_ok w"
  shows "dtors_ok (released w)"
proof (cases "out_dtor w")
  case None
  with assms(2) show ?thesis by (simp add: released_def dtors_ok_def)
next
  case (Some bd)
  obtain b d where bd: "bd = (b, d)" by (cases bd)
  have "dtor_fits ((heap w)(b := None)) a f" if "(c, a, Some f) \<in> set (aux w)" for c a f
  proof -
    have "a \<noteq> b" using held_addr_not_out [OF assms(1)] Some bd that by blast
    then show ?thesis using assms(2) that by (simp add: dtors_ok_def dtor_fits_upd)
  qed
  with Some bd show ?thesis
    by (simp add: released_def dtors_ok_def)
qed

lemma world_wf_released: "world_wf w \<Longrightarrow> world_wf (released w)"
  by (simp add: world_wf_def released_def split: option.split)

lemma rust_owned_released [simp]: "rust_owned (released w) = rust_owned w"
  by (simp add: released_def split: option.split)

lemma boundary_ok_released: "boundary_ok p w \<Longrightarrow> boundary_ok p (released w)"
  using dtors_ok_released [of p w]
  by (simp add: boundary_ok_def ledger_released world_wf_released)

lemma replace_out_fits:
  "dtors_ok w \<Longrightarrow> replace_out v dd w = Inr ((released w)\<lparr>out := v, out_dtor := dd, out_subtype := None\<rparr>)"
  by (simp add: replace_out_def release_out_fits)

lemma out_dtor_released [simp]: "out_dtor (released w) = None"
  by (simp add: released_def split: option.split)

lemma heap_released_pending:
  "ledger_ok (a # p) w \<Longrightarrow> heap (released w) a = heap w a"
  by (auto simp: released_def ledger_ok_def owners_def host_held_def split: option.split)

lemma ledger_ok_register:
  "ledger_ok (a # p) w \<Longrightarrow> out_dtor w = None \<Longrightarrow>
   ledger_ok p (w\<lparr>out := v, out_dtor := Some (a, d), out_subtype := t\<rparr>)"
  by (auto simp: ledger_ok_def owners_def host_held_def rust_alloc_at_def)

lemma boundary_ok_register:
  assumes "boundary_ok (a # p) w" "out_dtor w = None" "dtor_fits (heap w) a d"
  shows "boundary_ok p (w\<lparr>out := v, out_dtor := Some (a, d), out_subtype := t\<rparr>)"
  using assms ledger_ok_register [of a p w]
  by (auto simp: boundary_ok_def dtors_ok_def world_wf_def)

subsection \<open>Fields the invariant does not read\<close>

lemma boundary_ok_fields [simp]:
  "boundary_ok p (w\<lparr>out := v\<rparr>) = boundary_ok p w"
  "boundary_ok p (w\<lparr>out_subtype := t\<rparr>) = boundary_ok p w"
  "boundary_ok p (w\<lparr>is_error := e\<rparr>) = boundary_ok p w"
  "boundary_ok p (w\<lparr>writes := n\<rparr>) = boundary_ok p w"
  by (simp_all add: boundary_ok_def ledger_ok_def owners_def host_held_def rust_alloc_at_def
      dtors_ok_def world_wf_def)

lemma boundary_ok_out_dtor_None:
  "out_dtor w = None \<Longrightarrow> boundary_ok p (w\<lparr>out_dtor := None\<rparr>) = boundary_ok p w"
  by (simp add: boundary_ok_def ledger_ok_def owners_def host_held_def rust_alloc_at_def
      dtors_ok_def world_wf_def)

lemma boundary_ok_terminal [simp]: "boundary_ok p (terminal w) = boundary_ok p w"
  by (simp add: terminal_def)

lemma dtors_ok_boundary: "boundary_ok p w \<Longrightarrow> dtors_ok w"
  by (simp add: boundary_ok_def)

lemma set_out_fits:
  "dtors_ok w \<Longrightarrow> set_out v w = Inr (terminal ((released w)\<lparr>out := v, out_dtor := None, out_subtype := None\<rparr>))"
  by (simp add: set_out_def replace_out_fits)

lemma boundary_ok_set_out:
  "boundary_ok p w \<Longrightarrow> \<exists>w'. set_out v w = Inr w' \<and> boundary_ok p w'"
proof -
  assume b: "boundary_ok p w"
  then have "boundary_ok p (released w)" by (rule boundary_ok_released)
  then have "boundary_ok p ((released w)\<lparr>out := v, out_dtor := None, out_subtype := None\<rparr>)"
    by (simp add: boundary_ok_out_dtor_None)
  with b show ?thesis by (simp add: set_out_fits dtors_ok_boundary)
qed

subsection \<open>Allocation and transfer\<close>

lemma held_allocated:
  assumes "ledger_ok p w" "x \<in> set (host_held w)"
  shows "heap w x \<noteq> None"
  using assms by (auto simp: ledger_ok_def owners_def rust_alloc_at_def split: option.splits)

lemma boundary_ok_alloc:
  assumes b: "boundary_ok p w" and c: "rust_cell c"
  shows "boundary_ok (next_addr w # p)
           (w\<lparr>heap := (heap w)(next_addr w \<mapsto> c), next_addr := Suc (next_addr w)\<rparr>)"
proof -
  let ?a = "next_addr w"
  have l: "ledger_ok p w" and d: "dtors_ok w" and wf: "world_wf w"
    using b by (simp_all add: boundary_ok_def)
  have fresh: "heap w ?a = None" using wf by (simp add: world_wf_def)
  then have na: "?a \<notin> set (p @ owners w)"
    using l by (simp add: ledger_ok_def rust_alloc_at_def)
  have hh: "x \<noteq> ?a" if "x \<in> set (host_held w)" for x
    using held_allocated [OF l that] fresh by auto
  have od: "out_dtor w = Some (x, f) \<Longrightarrow> x \<in> set (host_held w)" for x f
    by (simp add: host_held_def)
  have ad: "(k, x, Some f) \<in> set (aux w) \<Longrightarrow> x \<in> set (host_held w)" for k x f
    by (force simp: host_held_def)
  have "ledger_ok (?a # p) (w\<lparr>heap := (heap w)(?a \<mapsto> c), next_addr := Suc ?a\<rparr>)"
    using l na c by (auto simp: ledger_ok_def owners_def host_held_def rust_alloc_at_def)
  moreover have "dtors_ok (w\<lparr>heap := (heap w)(?a \<mapsto> c), next_addr := Suc ?a\<rparr>)"
    using d hh od ad by (auto simp: dtors_ok_def dtor_fits_upd [unfolded fun_upd_def] fun_upd_def)
  moreover have "world_wf (w\<lparr>heap := (heap w)(?a \<mapsto> c), next_addr := Suc ?a\<rparr>)"
    using wf by (simp add: world_wf_def)
  ultimately show ?thesis using b by (simp add: boundary_ok_def)
qed

lemma boundary_ok_free_pending:
  assumes b: "boundary_ok (a # p) w"
  shows "boundary_ok p (w\<lparr>heap := (heap w)(a := None)\<rparr>)"
proof -
  have l: "ledger_ok (a # p) w" and d: "dtors_ok w" and wf: "world_wf w"
    using b by (simp_all add: boundary_ok_def)
  have nh: "a \<notin> set (host_held w)" and ap: "a \<notin> set (p @ owners w)"
    using l by (auto simp: ledger_ok_def owners_def)
  have od: "out_dtor w = Some (x, f) \<Longrightarrow> x \<noteq> a" for x f
    using nh by (auto simp: host_held_def)
  have ad: "(k, x, Some f) \<in> set (aux w) \<Longrightarrow> x \<noteq> a" for k x f
    using nh by (force simp: host_held_def)
  have m: "x \<in> set (a # p @ owners w) \<longleftrightarrow> rust_alloc_at w x" for x
    using l by (simp add: ledger_ok_def)
  have o: "owners (w\<lparr>heap := h\<rparr>) = owners w" for h
    by (simp add: owners_def host_held_def)
  have r: "rust_alloc_at (w\<lparr>heap := (heap w)(a := None)\<rparr>) x \<longleftrightarrow> rust_alloc_at w x \<and> x \<noteq> a" for x
    by (simp add: rust_alloc_at_def)
  have "distinct (p @ owners w)" using l by (simp add: ledger_ok_def)
  then have "ledger_ok p (w\<lparr>heap := (heap w)(a := None)\<rparr>)"
    unfolding ledger_ok_def o r using m ap by auto
  moreover have "dtors_ok (w\<lparr>heap := (heap w)(a := None)\<rparr>)"
    using d od ad by (auto simp: dtors_ok_def dtor_fits_upd)
  moreover have "world_wf (w\<lparr>heap := (heap w)(a := None)\<rparr>)"
    using wf by (simp add: world_wf_def)
  ultimately show ?thesis using b by (simp add: boundary_ok_def)
qed

lemma ledger_ok_next_addr [simp]: "ledger_ok p (w\<lparr>next_addr := n\<rparr>) = ledger_ok p w"
  by (simp add: ledger_ok_def owners_def host_held_def rust_alloc_at_def)

lemma boundary_ok_next_addr:
  "boundary_ok p w \<Longrightarrow> boundary_ok p (w\<lparr>next_addr := Suc (next_addr w)\<rparr>)"
  by (simp add: boundary_ok_def dtors_ok_def world_wf_def)

lemma boundary_ok_fresh: "boundary_ok p w \<Longrightarrow> heap w (next_addr w) = None"
  by (simp add: boundary_ok_def world_wf_def)

text \<open>Handing a pending allocation to the host as the result's destructor.\<close>

lemma boundary_ok_replace_pending:
  assumes b: "boundary_ok [a] w" and f: "dtor_fits (heap w) a d"
  shows "\<exists>w'. replace_out v (Some (a, d)) w = Inr w' \<and> boundary_ok [] w'"
proof -
  have "boundary_ok [a] (released w)" using b by (rule boundary_ok_released)
  moreover have "dtor_fits (heap (released w)) a d"
    using b f heap_released_pending [of a "[]" w] dtor_fits_cong [of "heap (released w)" a "heap w" d]
    by (simp add: boundary_ok_def)
  ultimately have "boundary_ok [] ((released w)\<lparr>out := v, out_dtor := Some (a, d), out_subtype := None\<rparr>)"
    by (intro boundary_ok_register) simp_all
  with b show ?thesis by (simp add: replace_out_fits dtors_ok_boundary)
qed

subsection \<open>Every wrapper of the result sink keeps the invariant\<close>

lemma result_text_boundary:
  assumes b: "boundary_ok [] w"
  shows "\<exists>r w'. result_text s w = Inr (r, w') \<and> boundary_ok [] w'"
proof (cases "nul \<in> set s")
  case True
  then show ?thesis using b by (auto simp: result_text_def cstring_new_def)
next
  case nn: False
  show ?thesis
  proof (cases "length s < 2 ^ 31")
    case False
    then show ?thesis
      using nn result_text_too_long [of s w] boundary_ok_fresh [OF b] boundary_ok_next_addr [OF b]
      by simp
  next
    case True
    let ?a = "next_addr w"
    let ?w1 = "w\<lparr>heap := (heap w)(?a \<mapsto> CBuf s), next_addr := Suc ?a\<rparr>"
    let ?n = "word_of_nat (length s) :: i32"
    have b1: "boundary_ok [?a] ?w1" using boundary_ok_alloc [OF b] by simp
    have n: "try_into_i32 (length s) = Some ?n" using True by (simp add: try_into_i32_def)
    have eq: "result_text s w = unit_ok (sqlite3_result_text ?a ?n Result_text_destructor ?w1)"
      using nn n by (simp add: result_text_def rust_alloc_def into_raw_def Let_def)
    have rd: "read_c_text (s @ [nul]) ?n = Inr s"
      using try_into_i32_sint [OF n] by (rule read_c_text_exact)
    have fit: "dtor_fits (heap ?w1) ?a Result_text_destructor" by simp
    show ?thesis
    proof (cases "len_limit w < length s")
      case True
      let ?w2 = "?w1\<lparr>heap := (heap ?w1)(?a := None)\<rparr>"
      have r: "run_dtor Result_text_destructor ?a ?w1 = Inr ?w2"
        using fit by (rule run_dtor_fits)
      have "boundary_ok [] ?w2"
        using b1 by (rule boundary_ok_free_pending)
      then obtain w3 where s3: "set_out (VText (err_str SQLITE_TOOBIG)) ?w2 = Inr w3"
        and b3: "boundary_ok [] w3"
        using boundary_ok_set_out by blast
      show ?thesis
        using True eq rd r s3 b3
        by (simp add: sqlite3_result_text_def c_mem_def set_error_toobig_def unit_ok_def)
    next
      case False
      obtain w' where "replace_out (VText s) (Some (?a, Result_text_destructor)) ?w1 = Inr w'"
        and "boundary_ok [] w'"
        using boundary_ok_replace_pending [OF b1 fit] by blast
      then show ?thesis
        using False eq rd by (simp add: sqlite3_result_text_def c_mem_def unit_ok_def)
    qed
  qed
qed

lemma boundary_ok_replace_out_None:
  "boundary_ok p w \<Longrightarrow> \<exists>w'. replace_out v None w = Inr w' \<and> boundary_ok p w'"
  using boundary_ok_set_out [of p w v] by (auto simp: set_out_def terminal_def)

lemma result_scalar_boundary:
  assumes "boundary_ok [] w"
  shows "\<exists>w'. result_int i w = Inr w' \<and> boundary_ok [] w'"
    and "\<exists>w'. result_int64 j w = Inr w' \<and> boundary_ok [] w'"
    and "\<exists>w'. result_double f w = Inr w' \<and> boundary_ok [] w'"
    and "\<exists>w'. result_null w = Inr w' \<and> boundary_ok [] w'"
    and "\<exists>w'. result_bool b w = Inr w' \<and> boundary_ok [] w'"
  using boundary_ok_set_out [OF assms]
  by (simp_all add: result_int_def result_int64_def result_double_def result_null_def
      result_bool_def sqlite3_result_int_def sqlite3_result_int64_def sqlite3_result_double_def
      sqlite3_result_null_def)

lemma result_blob_boundary:
  assumes b: "boundary_ok [] w" and l: "length blob < 2 ^ 31"
  shows "\<exists>w'. result_blob blob w = Inr w' \<and> boundary_ok [] w'"
proof -
  have "sint (as_i32 (length blob)) = int (length blob)"
    using l try_into_i32_sint [of "length blob"] by (simp add: as_i32_def try_into_i32_def)
  moreover obtain w2 where "set_out (VText (err_str SQLITE_TOOBIG)) w = Inr w2" "boundary_ok [] w2"
    using boundary_ok_set_out [OF b] by blast
  ultimately show ?thesis
    using boundary_ok_set_out [OF b]
    by (auto simp: result_blob_def sqlite3_result_blob_def set_error_toobig_def)
qed

lemma result_error_code_boundary:
  assumes b: "boundary_ok [] w"
  shows "\<exists>w'. result_error_code c w = Inr w' \<and> boundary_ok [] w'"
proof -
  let ?w1 = "terminal (w\<lparr>is_error := (if c = 0 then -1 else c)\<rparr>)"
  have b1: "boundary_ok [] ?w1" using b by simp
  obtain w2 where "replace_out (VText (err_str c)) None ?w1 = Inr w2" "boundary_ok [] w2"
    using boundary_ok_replace_out_None [OF b1] by blast
  then show ?thesis
    using b1 unfolding result_error_code_def sqlite3_result_error_code_def Let_def
    by (cases "out w") auto
qed

lemma result_subtype_boundary [simp]:
  "boundary_ok p (result_subtype t w) = boundary_ok p w"
  by (simp add: result_subtype_def sqlite3_result_subtype_def)

lemma result_json_boundary:
  assumes b: "boundary_ok [] w"
  shows "\<exists>r w'. result_json v w = Inr (r, w') \<and> boundary_ok [] w'"
proof -
  obtain r w1 where t: "result_text (json_to_string v) w = Inr (r, w1)" and b1: "boundary_ok [] w1"
    using result_text_boundary [OF b] by blast
  show ?thesis
  proof (cases r)
    case (Ok u)
    with t b1 show ?thesis by (simp add: result_json_def split: unit.split)
  next
    case (Err e)
    with t b1 show ?thesis by (simp add: result_json_def split: unit.split)
  qed
qed

lemma result_pointer_boundary:
  assumes b: "boundary_ok [] w"
  shows "\<exists>w'. result_pointer name x w = Inr w' \<and> boundary_ok [] w'"
proof -
  let ?a = "next_addr w"
  let ?w1 = "w\<lparr>heap := (heap w)(?a \<mapsto> CBox x), next_addr := Suc ?a\<rparr>"
  have b1: "boundary_ok [?a] ?w1" using boundary_ok_alloc [OF b] by simp
  have fit: "dtor_fits (heap ?w1) ?a Pointer_destroy" by simp
  obtain w' where "replace_out (VPointer ?a name) (Some (?a, Pointer_destroy)) ?w1 = Inr w'"
    and "boundary_ok [] w'"
    using boundary_ok_replace_pending [OF b1 fit] by blast
  then show ?thesis
    by (simp add: result_pointer_def rust_alloc_def into_raw_def sqlite3_result_pointer_def Let_def)
qed

lemma unit_ok_boundary:
  "\<exists>w'. f = Inr w' \<and> boundary_ok p w' \<Longrightarrow> \<exists>r w'. unit_ok f = Inr (r, w') \<and> boundary_ok p w'"
  by (auto simp: unit_ok_def)

lemma affinity_result_boundary:
  assumes b: "boundary_ok [] w"
  shows "\<exists>r w'. ColumnAffinity_result_text a v w = Inr (r, w') \<and> boundary_ok [] w'"
  using unit_ok_boundary [OF result_scalar_boundary(1) [OF b]]
    unit_ok_boundary [OF result_scalar_boundary(2) [OF b]]
    unit_ok_boundary [OF result_scalar_boundary(3) [OF b]] result_text_boundary [OF b]
  by (cases a) (simp_all add: ColumnAffinity_result_text_def split: option.split)

subsection \<open>The step relation\<close>

text \<open>The calls an extension function makes on its context, and SQLite releasing the
  result; \<open>run_call\<close> runs the wrapper and keeps the world.\<close>

datatype 'a wrapper_call =
    Call_text string
  | Call_int i32
  | Call_int64 i64
  | Call_double f64
  | Call_blob string
  | Call_null
  | Call_bool bool
  | Call_json json
  | Call_subtype u8
  | Call_error_code i32
  | Call_pointer string 'a
  | Call_affinity ColumnAffinity string
  | Host_release

fun run_call :: "'a wrapper_call \<Rightarrow> 'a world \<Rightarrow> fault + 'a world" where
  "run_call (Call_text s) w = map_sum id snd (result_text s w)"
| "run_call (Call_int i) w = result_int i w"
| "run_call (Call_int64 i) w = result_int64 i w"
| "run_call (Call_double f) w = result_double f w"
| "run_call (Call_blob b) w = result_blob b w"
| "run_call Call_null w = result_null w"
| "run_call (Call_bool b) w = result_bool b w"
| "run_call (Call_json v) w = map_sum id snd (result_json v w)"
| "run_call (Call_subtype t) w = Inr (result_subtype t w)"
| "run_call (Call_error_code c) w = result_error_code c w"
| "run_call (Call_pointer n x) w = result_pointer n x w"
| "run_call (Call_affinity a v) w = map_sum id snd (ColumnAffinity_result_text a v w)"
| "run_call Host_release w = release_out w"

fun call_in_bounds :: "'a wrapper_call \<Rightarrow> bool" where
  "call_in_bounds (Call_blob b) = (length b < 2 ^ 31)"
| "call_in_bounds _ = True"

inductive reachable :: "'a world \<Rightarrow> bool" where
  init: "reachable init_world"
| step: "reachable w \<Longrightarrow> run_call c w = Inr w' \<Longrightarrow> reachable w'"

lemma pair_boundary:
  "\<exists>r w'. f = Inr (r, w') \<and> boundary_ok p w' \<Longrightarrow> \<exists>w'. map_sum id snd f = Inr w' \<and> boundary_ok p w'"
  by auto

lemma run_call_boundary:
  assumes b: "boundary_ok [] w" and c: "call_in_bounds c"
  shows "\<exists>w'. run_call c w = Inr w' \<and> boundary_ok [] w'"
proof (cases c)
  case (Call_blob x)
  with c show ?thesis using result_blob_boundary [OF b] by simp
next
  case Host_release
  then show ?thesis using b boundary_ok_released [OF b] by (simp add: release_out_fits dtors_ok_boundary)
qed (use b result_scalar_boundary [OF b] result_error_code_boundary [OF b] result_pointer_boundary [OF b]
      pair_boundary [OF result_text_boundary [OF b]] pair_boundary [OF result_json_boundary [OF b]]
      pair_boundary [OF affinity_result_boundary [OF b]] in simp_all)

lemma boundary_ok_init: "boundary_ok [] init_world"
  by (simp add: boundary_ok_def ledger_ok_def owners_def host_held_def rust_alloc_at_def
      dtors_ok_def world_wf_def init_world_def)

lemma result_blob_preserves:
  assumes b: "boundary_ok [] w" and r: "result_blob blob w = Inr w'"
  shows "boundary_ok [] w'"
proof -
  obtain w1 where s1: "set_out (VText (err_str SQLITE_TOOBIG)) w = Inr w1" "boundary_ok [] w1"
    using boundary_ok_set_out [OF b] by blast
  obtain w2 where s2: "set_out (VBlob (take (nat (sint (as_i32 (length blob)))) blob)) w = Inr w2"
    "boundary_ok [] w2"
    using boundary_ok_set_out [OF b] by blast
  show ?thesis
    using r s1 s2 by (auto simp: result_blob_def sqlite3_result_blob_def set_error_toobig_def Let_def
        split: if_splits)
qed

lemma run_call_preserves:
  assumes b: "boundary_ok [] w" and r: "run_call c w = Inr w'"
  shows "boundary_ok [] w'"
proof (cases c)
  case (Call_blob x)
  with b r show ?thesis by (simp add: result_blob_preserves)
qed (use run_call_boundary [OF b, of c] r in auto)

lemma reachable_boundary: "reachable w \<Longrightarrow> boundary_ok [] w"
proof (induction rule: reachable.induct)
  case init
  then show ?case by (rule boundary_ok_init)
next
  case (step w c w')
  then show ?case using run_call_preserves by blast
qed

text \<open>C2: in every world reachable by the wrappers and SQLite's release, every Rust
  allocation has exactly one owner and every destructor the host holds fits its
  memory.\<close>

theorem reachable_ownership_ok: "reachable w \<Longrightarrow> ownership_ok w \<and> dtors_ok w"
  using reachable_boundary [of w] by (simp add: boundary_ok_def ownership_ok_ledger)

theorem reachable_ownership_ok_witness:
  "ownership_ok (init_world :: nat world) \<and> dtors_ok (init_world :: nat world)"
  using reachable_ownership_ok [OF reachable.init] .

text \<open>C6: in every reachable world, every call of the result sink whose blob length
  fits an \<open>i32\<close> returns: no undefined behaviour, no double free, no panic.\<close>

theorem reachable_progress:
  "reachable w \<Longrightarrow> call_in_bounds c \<Longrightarrow> \<exists>w'. run_call c w = Inr w'"
  using run_call_boundary reachable_boundary by blast

theorem reachable_progress_witness:
  "\<exists>w'. run_call (Call_pointer ''p'' (7 :: nat)) (init_world :: nat world) = Inr w'"
  using reachable_progress [OF reachable.init, of "Call_pointer ''p'' (7 :: nat)"] by simp

subsection \<open>Invocations and teardown\<close>

definition held_of :: "(i32 \<times> addr \<times> dtor option) list \<Rightarrow> addr list" where
  "held_of es = [fst (snd e). e \<leftarrow> es, snd (snd e) \<noteq> None]"

lemma held_of_simps [simp]:
  "held_of [] = []"
  "held_of ((c, p, None) # es) = held_of es"
  "held_of ((c, p, Some f) # es) = p # held_of es"
  by (simp_all add: held_of_def)

lemma release_aux_frees:
  assumes "distinct (held_of es)" "\<forall>c p f. (c, p, Some f) \<in> set es \<longrightarrow> dtor_fits (heap w) p f"
  shows "release_aux es w = Inr (w\<lparr>heap := (\<lambda>a. if a \<in> set (held_of es) then None else heap w a)\<rparr>)"
  using assms
proof (induction es arbitrary: w)
  case Nil
  then show ?case by simp
next
  case (Cons e es)
  obtain c p d where e: "e = (c, p, d)" by (cases e)
  show ?case
  proof (cases d)
    case None
    with Cons e show ?thesis by (simp add: run_dtor_opt_def)
  next
    case (Some f)
    let ?w1 = "w\<lparr>heap := (heap w)(p := None)\<rparr>"
    have r: "run_dtor_opt d p w = Inr ?w1"
      using Cons.prems(2) e Some by (simp add: run_dtor_opt_def run_dtor_fits)
    have np: "p \<notin> set (held_of es)" using Cons.prems(1) e Some by simp
    have "q \<noteq> p" if "(k, q, Some g) \<in> set es" for k q g
      using that np by (force simp: held_of_def)
    then have fits: "\<forall>k q g. (k, q, Some g) \<in> set es \<longrightarrow> dtor_fits (heap ?w1) q g"
      using Cons.prems(2) by (auto simp: dtor_fits_upd)
    have "release_aux es ?w1 = Inr (?w1\<lparr>heap := (\<lambda>a. if a \<in> set (held_of es) then None else heap ?w1 a)\<rparr>)"
    proof (rule Cons.IH)
      show "distinct (held_of es)" using Cons.prems(1) e Some by simp
    qed (use fits in \<open>simp add: fun_upd_def\<close>)
    with r e Some show ?thesis by (auto simp: fun_eq_iff)
  qed
qed

lemma teardown_frees:
  assumes "reachable w"
  shows "\<exists>w'. host_teardown w = Inr w' \<and> (\<forall>a. \<not> rust_alloc_at w' a) \<and> aux w' = []"
proof -
  have b: "boundary_ok [] w" using assms by (rule reachable_boundary)
  let ?w1 = "released w"
  have b1: "boundary_ok [] ?w1" using b by (rule boundary_ok_released)
  have o: "owners ?w1 = held_of (aux ?w1)"
    using b1 by (simp add: boundary_ok_def owners_def host_held_def held_of_def)
  then have l: "distinct (held_of (aux ?w1))" "\<forall>a. a \<in> set (held_of (aux ?w1)) \<longleftrightarrow> rust_alloc_at ?w1 a"
    using b1 by (simp_all add: boundary_ok_def ledger_ok_def)
  have f: "\<forall>c p g. (c, p, Some g) \<in> set (aux ?w1) \<longrightarrow> dtor_fits (heap ?w1) p g"
    using b1 by (simp add: boundary_ok_def dtors_ok_def)
  let ?w2 = "?w1\<lparr>heap := (\<lambda>a. if a \<in> set (held_of (aux ?w1)) then None else heap ?w1 a)\<rparr>"
  have "host_teardown w = Inr (?w2\<lparr>aux := []\<rparr>)"
    using b release_aux_frees [OF l(1) f]
    by (simp add: host_teardown_def release_out_fits dtors_ok_boundary)
  moreover have "\<not> rust_alloc_at (?w2\<lparr>aux := []\<rparr>) a" for a
    using l(2) by (auto simp: rust_alloc_at_def)
  ultimately show ?thesis by auto
qed

text \<open>An invocation: the calls the extension function makes, in order, stopping at
  the first fault.\<close>

fun run_script :: "'a wrapper_call list \<Rightarrow> 'a world \<Rightarrow> fault + 'a world" where
  "run_script [] w = Inr w"
| "run_script (c # cs) w = (case run_call c w of Inl e \<Rightarrow> Inl e | Inr w1 \<Rightarrow> run_script cs w1)"

lemma run_script_reachable:
  "reachable w \<Longrightarrow> list_all call_in_bounds cs \<Longrightarrow> \<exists>w'. run_script cs w = Inr w' \<and> reachable w'"
proof (induction cs arbitrary: w)
  case Nil
  then show ?case by simp
next
  case (Cons c cs)
  obtain w1 where r: "run_call c w = Inr w1"
    using run_call_boundary [OF reachable_boundary [OF Cons.prems(1)]] Cons.prems(2) by auto
  then have "reachable w1" using Cons.prems(1) by (rule reachable.step [rotated])
  with Cons.IH [of w1] Cons.prems(2) r show ?case by simp
qed

text \<open>C7: every allocation an invocation makes is eventually freed: after the
  calls, SQLite's teardown (releasing the result and the auxiliary data) leaves no
  Rust allocation alive.\<close>

theorem invocation_frees_all:
  "list_all call_in_bounds cs \<Longrightarrow>
   \<exists>w w'. run_script cs (init_world :: 'a world) = Inr w \<and> host_teardown w = Inr w' \<and>
          (\<forall>a. \<not> rust_alloc_at w' a)"
  using run_script_reachable [OF reachable.init] teardown_frees by blast


theorem invocation_frees_all_witness:
  "list_all call_in_bounds [Call_json (JString ''x''), Call_pointer ''p'' (7 :: nat)] \<and>
   (\<exists>w w'. run_script [Call_json (JString ''x''), Call_pointer ''p'' (7 :: nat)] init_world = Inr w \<and>
      host_teardown w = Inr w' \<and> (\<forall>a. \<not> rust_alloc_at w' a))"
  using invocation_frees_all [of "[Call_json (JString ''x''), Call_pointer ''p'' (7 :: nat)]"]
  by simp


subsection \<open>Pointer round trip\<close>

lemma result_pointer_fresh:
  assumes "boundary_ok [] w"
  shows "\<exists>w1. result_pointer name x w = Inr w1 \<and> out w1 = VPointer (next_addr w) name \<and>
              heap w1 (next_addr w) = Some (CBox x)"
proof -
  let ?a = "next_addr w"
  let ?w0 = "w\<lparr>heap := (heap w)(?a \<mapsto> CBox x), next_addr := Suc ?a\<rparr>"
  have b0: "boundary_ok [?a] ?w0" using boundary_ok_alloc [OF assms] by simp
  then have l0: "ledger_ok [?a] ?w0" and d0: "dtors_ok ?w0" by (simp_all add: boundary_ok_def)
  show ?thesis
    using d0 heap_released_pending [OF l0]
    by (simp add: result_pointer_def rust_alloc_def into_raw_def sqlite3_result_pointer_def
        replace_out_fits terminal_def Let_def)
qed

text \<open>C5: a value bound with \<open>result_pointer\<close> under a name is found by
  \<open>value_pointer\<close> under an equal name, as the same object at the same address, and
  under any other name it is absent.\<close>

theorem pointer_roundtrip:
  assumes "boundary_ok [] w" "nul_terminated name" "nul_terminated name'"
  shows "\<exists>w1 w2. result_pointer name x w = Inr w1 \<and>
           value_pointer (out w1) name' w1 =
             Inr (if cstr_from_ptr name = cstr_from_ptr name' then Some (next_addr w, x) else None, w2)"
proof -
  obtain w1 where r: "result_pointer name x w = Inr w1" "out w1 = VPointer (next_addr w) name"
    "heap w1 (next_addr w) = Some (CBox x)"
    using result_pointer_fresh [OF assms(1)] by blast
  show ?thesis
    using r c_strcmp_eq_cstr [OF assms(2,3)] by (simp add: value_pointer_def)
qed

theorem pointer_roundtrip_witness:
  "\<exists>w1 w2. result_pointer (''a'' @ [nul]) (7 :: nat) init_world = Inr w1 \<and>
     value_pointer (out w1) (''b'' @ [nul]) w1 = Inr (None, w2)"
  using pointer_roundtrip [OF boundary_ok_init, of "''a'' @ [nul]" "''b'' @ [nul]" "7 :: nat"]
  by (simp add: nul_terminated_def cstr_from_ptr_def nul_def)

subsection \<open>Defects\<close>


lemma released_pending_not_owner:
  assumes "ledger_ok [a] w"
  shows "a \<notin> set (owners (released w))" and "rust_alloc_at (released w) a = rust_alloc_at w a"
proof -
  have "ledger_ok [a] (released w)" using assms by (rule ledger_released)
  then show "a \<notin> set (owners (released w))" by (simp add: ledger_ok_def)
  show "rust_alloc_at (released w) a = rust_alloc_at w a"
    using heap_released_pending [OF assms] by (simp add: rust_alloc_at_def)
qed

text \<open>C9: \<open>result_error\<close> gives its \<open>CString\<close> up with \<open>into_raw\<close> to a host call
  that copies the message and registers no destructor: the allocation is leaked.\<close>

theorem result_error_leaks:
  assumes b: "boundary_ok [] w" and n: "nul \<notin> set s" and l: "length s < 2 ^ 31"
  shows "\<exists>w'. result_error s w = Inr (Ok (), w') \<and> leaked w' (next_addr w) \<and> \<not> ownership_ok w'"
proof -
  let ?a = "next_addr w"
  let ?w1 = "w\<lparr>heap := (heap w)(?a \<mapsto> CBuf s), next_addr := Suc ?a\<rparr>"
  have b1: "boundary_ok [?a] ?w1" using boundary_ok_alloc [OF b] by simp
  then have l1: "ledger_ok [?a] ?w1" and d1: "dtors_ok ?w1" by (simp_all add: boundary_ok_def)
  have sn: "sint (as_i32 (length s)) = int (length s)"
    using l try_into_i32_sint [of "length s"] by (simp add: as_i32_def try_into_i32_def)
  let ?v = "if len_limit w < length s then VNull else VText s"
  let ?w' = "(terminal ((released ?w1)\<lparr>out := ?v, out_dtor := None, out_subtype := None\<rparr>))\<lparr>is_error := SQLITE_ERROR\<rparr>"
  have eq: "result_error s w = Inr (Ok (), ?w')"
    using n sn d1 read_c_text_exact [OF sn]
    by (simp add: result_error_def rust_alloc_def into_raw_def sqlite3_result_error_def c_mem_def
        set_out_fits unit_ok_def Let_def)
  have "rust_alloc_at ?w1 ?a" by (simp add: rust_alloc_at_def)
  then have lk: "leaked ?w' ?a"
    using released_pending_not_owner [OF l1]
    by (simp add: leaked_def rust_alloc_at_def owners_def host_held_def terminal_def)
  then have "\<not> ownership_ok ?w'" by (auto dest: ownership_ok_leak)
  with eq lk show ?thesis by blast
qed

text \<open>C8: \<open>value_pointer\<close> of the pointer \<open>result_pointer\<close> set, under the same
  name, rebuilds a \<open>Box\<close> with \<open>Box::from_raw\<close> while the host still holds
  \<open>pointer_destroy\<close> for it: the allocation has two owners, and dropping the box then
  releasing the result frees it twice.\<close>

theorem value_pointer_double_free:
  assumes b: "boundary_ok [] w" and nt: "nul_terminated name"
  shows "\<exists>w1 w2 w3.
           result_pointer name x w = Inr w1 \<and>
           value_pointer (out w1) name w1 = Inr (Some (next_addr w, x), w2) \<and>
           \<not> ownership_ok w2 \<and>
           rust_drop (next_addr w) w2 = Inr w3 \<and>
           release_out w3 = Inl (Undefined ''double free'')"
proof -
  let ?a = "next_addr w"
  let ?w0 = "w\<lparr>heap := (heap w)(?a \<mapsto> CBox x), next_addr := Suc ?a\<rparr>"
  have b0: "boundary_ok [?a] ?w0" using boundary_ok_alloc [OF b] by simp
  then have l0: "ledger_ok [?a] ?w0" and d0: "dtors_ok ?w0" by (simp_all add: boundary_ok_def)
  let ?w1 = "terminal ((released ?w0)\<lparr>out := VPointer ?a name, out_dtor := Some (?a, Pointer_destroy),
                                      out_subtype := None\<rparr>)"
  have r1: "result_pointer name x w = Inr ?w1"
    using d0 by (simp add: result_pointer_def rust_alloc_def into_raw_def sqlite3_result_pointer_def
        replace_out_fits Let_def)
  have h1: "heap ?w1 ?a = Some (CBox x)"
    using heap_released_pending [OF l0] by (simp add: terminal_def)
  let ?w2 = "from_raw ?a ?w1"
  have r2: "value_pointer (out ?w1) name ?w1 = Inr (Some (?a, x), ?w2)"
    using h1 c_strcmp_eq_refl [OF nt] by (simp add: value_pointer_def terminal_def)
  have "\<not> distinct (owners ?w2)"
    by (simp add: owners_def host_held_def from_raw_def terminal_def)
  then have no: "\<not> ownership_ok ?w2" by (simp add: ownership_ok_def)
  let ?w3 = "?w2\<lparr>rust_owned := remove1 ?a (rust_owned ?w2), heap := (heap ?w2)(?a := None)\<rparr>"
  have r3: "rust_drop ?a ?w2 = Inr ?w3"
    using h1 by (simp add: rust_drop_def free_cell_def from_raw_def)
  have r4: "release_out ?w3 = Inl (Undefined ''double free'')"
    by (simp add: release_out_def pointer_destroy_def from_raw_def terminal_def)
  show ?thesis using r1 r2 no r3 r4 by blast
qed

theorem result_error_leaks_witness:
  "\<exists>w'. result_error ''boom'' (init_world :: nat world) = Inr (Ok (), w') \<and> leaked w' 1 \<and>
        \<not> ownership_ok w'"
  using result_error_leaks [OF boundary_ok_init, of "''boom''"] by (simp add: init_world_def nul_def)

theorem value_pointer_double_free_witness:
  "\<exists>w1 w2 w3.
     result_pointer (''t'' @ [nul]) (7 :: nat) init_world = Inr w1 \<and>
     value_pointer (out w1) (''t'' @ [nul]) w1 = Inr (Some (1, 7), w2) \<and>
     \<not> ownership_ok w2 \<and> rust_drop 1 w2 = Inr w3 \<and>
     release_out w3 = Inl (Undefined ''double free'')"
  using value_pointer_double_free [OF boundary_ok_init, of "''t'' @ [nul]" "7 :: nat"]
  by (simp add: init_world_def nul_terminated_def)

end
