(* ===== verification/Result_Spec.thy ===== *)
theory Result_Spec
  imports Ownership
begin

text \<open>
  The one-shot-write contract of the result sink (the specification's sections 3,
  4.2 and 9): the outcome of an invocation is one value of the closed sum Text,
  Integer, Float, Blob, Null or a named pointer, with an optional subtype, and an
  error code. \<open>outcome_of\<close> is the abstraction of a world to that outcome: it hides
  the heap, the addresses, the destructors and the owners, and reads a pointer
  result through the heap to the object it points to. \<open>spec_step\<close> says what each
  call of the result sink does to the outcome: every terminal write replaces the
  value and clears the subtype, the error code stays once set, a text or blob over
  the host's length limit becomes the error \<open>SQLITE_TOOBIG\<close>, and a call that
  returns an error leaves the outcome alone.
\<close>

datatype 'a result_value =
    RNull
  | RInteger i64
  | RFloat f64
  | RText string
  | RBlob string
  | RPointer string "'a option"

record 'a outcome =
  res_value :: "'a result_value"
  res_subtype :: "u8 option"
  res_error :: i32

subsection \<open>Abstraction of a world\<close>

fun value_of :: "(addr \<Rightarrow> 'a cell option) \<Rightarrow> sqlite_value \<Rightarrow> 'a result_value" where
  "value_of h VNull = RNull"
| "value_of h (VInteger i) = RInteger i"
| "value_of h (VFloat f) = RFloat f"
| "value_of h (VText t) = RText t"
| "value_of h (VBlob b) = RBlob b"
| "value_of h (VPointer p n) = RPointer n (case h p of Some (CBox x) \<Rightarrow> Some x | _ \<Rightarrow> None)"

definition outcome_of :: "'a world \<Rightarrow> 'a outcome" where
  "outcome_of w = \<lparr>res_value = value_of (heap w) (out w), res_subtype = out_subtype w,
                   res_error = is_error w\<rparr>"

subsection \<open>The specification of the result sink\<close>

definition put_result :: "'a result_value \<Rightarrow> 'a outcome \<Rightarrow> 'a outcome" where
  "put_result v oc = \<lparr>res_value = v, res_subtype = None, res_error = res_error oc\<rparr>"

definition too_big :: "'a outcome" where
  "too_big = \<lparr>res_value = RText (err_str SQLITE_TOOBIG), res_subtype = None,
              res_error = SQLITE_TOOBIG\<rparr>"

definition spec_text :: "nat \<Rightarrow> string \<Rightarrow> 'a outcome \<Rightarrow> 'a outcome" where
  "spec_text maxlen s oc =
     (if nul \<in> set s \<or> 2 ^ 31 \<le> length s then oc
      else if maxlen < length s then too_big
      else put_result (RText s) oc)"

definition spec_blob :: "nat \<Rightarrow> string \<Rightarrow> 'a outcome \<Rightarrow> 'a outcome" where
  "spec_blob maxlen b oc = (if maxlen < length b then too_big else put_result (RBlob b) oc)"

definition spec_error_code :: "i32 \<Rightarrow> 'a outcome \<Rightarrow> 'a outcome" where
  "spec_error_code c oc =
     (let o1 = oc\<lparr>res_error := (if c = 0 then -1 else c)\<rparr> in
      case res_value oc of
        RNull \<Rightarrow> put_result (RText (err_str c)) o1
      | RPointer n x \<Rightarrow> put_result (RText (err_str c)) o1
      | _ \<Rightarrow> o1)"

definition spec_affinity :: "nat \<Rightarrow> ColumnAffinity \<Rightarrow> string \<Rightarrow> 'a outcome \<Rightarrow> 'a outcome" where
  "spec_affinity maxlen a v oc =
     (case affinity_value a v of
        VInteger i \<Rightarrow> put_result (RInteger i) oc
      | VFloat f \<Rightarrow> put_result (RFloat f) oc
      | VText t \<Rightarrow> spec_text maxlen t oc
      | _ \<Rightarrow> oc)"

definition spec_json :: "nat \<Rightarrow> json \<Rightarrow> 'a outcome \<Rightarrow> 'a outcome" where
  "spec_json maxlen v oc =
     (let s = json_to_string v in
      if 2 ^ 31 \<le> length s then oc
      else (spec_text maxlen s oc)\<lparr>res_subtype := Some (of_char CHR ''J'')\<rparr>)"

fun spec_step :: "nat \<Rightarrow> 'a wrapper_call \<Rightarrow> 'a outcome \<Rightarrow> 'a outcome" where
  "spec_step maxlen (Call_text s) oc = spec_text maxlen s oc"
| "spec_step maxlen (Call_int i) oc = put_result (RInteger (scast i)) oc"
| "spec_step maxlen (Call_int64 i) oc = put_result (RInteger i) oc"
| "spec_step maxlen (Call_double f) oc = put_result (RFloat f) oc"
| "spec_step maxlen (Call_blob b) oc = spec_blob maxlen b oc"
| "spec_step maxlen Call_null oc = put_result RNull oc"
| "spec_step maxlen (Call_bool b) oc = put_result (RInteger (if b then 1 else 0)) oc"
| "spec_step maxlen (Call_json v) oc = spec_json maxlen v oc"
| "spec_step maxlen (Call_subtype t) oc = oc\<lparr>res_subtype := Some t\<rparr>"
| "spec_step maxlen (Call_error_code c) oc = spec_error_code c oc"
| "spec_step maxlen (Call_pointer n x) oc = put_result (RPointer n (Some x)) oc"
| "spec_step maxlen (Call_affinity a v) oc = spec_affinity maxlen a v oc"
| "spec_step maxlen Host_release oc = oc\<lparr>res_value := RNull, res_subtype := None\<rparr>"

subsection \<open>The context fields the result setters touch\<close>

definition ctx_of :: "'a world \<Rightarrow> sqlite_value \<times> u8 option \<times> i32 \<times> nat" where
  "ctx_of w = (out w, out_subtype w, is_error w, len_limit w)"

lemma free_cell_ctx: "free_cell a w = Inr w' \<Longrightarrow> ctx_of w' = ctx_of w"
  by (auto simp: free_cell_def ctx_of_def split: option.splits)

lemma rust_drop_ctx: "rust_drop a w = Inr w' \<Longrightarrow> ctx_of w' = ctx_of w"
  by (auto simp: rust_drop_def ctx_of_def dest: free_cell_ctx)

lemma run_dtor_ctx: "run_dtor d a w = Inr w' \<Longrightarrow> ctx_of w' = ctx_of w"
  by (cases d)
     (auto simp: result_text_destructor_def pointer_destroy_def from_raw_def ctx_of_def
        dest!: rust_drop_ctx free_cell_ctx split: option.splits cell.splits)

lemma release_out_ctx:
  "release_out w = Inr w' \<Longrightarrow>
   out w' = VNull \<and> out_subtype w' = None \<and> is_error w' = is_error w \<and> len_limit w' = len_limit w"
  by (auto simp: release_out_def ctx_of_def dest!: run_dtor_ctx split: option.splits)

lemma replace_out_ctx:
  "replace_out v dd w = Inr w' \<Longrightarrow>
   out w' = v \<and> out_subtype w' = None \<and> is_error w' = is_error w \<and> len_limit w' = len_limit w"
  by (auto simp: replace_out_def dest!: release_out_ctx split: sum.splits)

lemma set_out_ctx:
  "set_out v w = Inr w' \<Longrightarrow>
   out w' = v \<and> out_subtype w' = None \<and> is_error w' = is_error w \<and> len_limit w' = len_limit w"
  by (auto simp: set_out_def terminal_def dest!: replace_out_ctx)

lemma set_out_outcome:
  "set_out v w = Inr w' \<Longrightarrow>
   outcome_of w' = put_result (value_of (heap w') v) (outcome_of w) \<and> len_limit w' = len_limit w"
  by (auto simp: outcome_of_def put_result_def dest!: set_out_ctx)

lemma set_error_toobig_outcome:
  "set_error_toobig w = Inr w' \<Longrightarrow> outcome_of w' = too_big \<and> len_limit w' = len_limit w"
  by (auto simp: set_error_toobig_def outcome_of_def too_big_def dest!: set_out_ctx)

subsection \<open>Each wrapper against the specification\<close>

lemma sqlite3_result_text_outcome:
  assumes "c_mem w z = Some m" "read_c_text m n = Inr t" "sqlite3_result_text z n d w = Inr w'"
  shows "outcome_of w' = (if len_limit w < length t then too_big else put_result (RText t) (outcome_of w)) \<and>
         len_limit w' = len_limit w"
proof (cases "len_limit w < length t")
  case True
  then obtain w1 where "run_dtor d z w = Inr w1" "set_error_toobig w1 = Inr w'"
    using assms by (auto simp: sqlite3_result_text_def split: sum.splits)
  with True show ?thesis by (auto simp: ctx_of_def dest!: run_dtor_ctx set_error_toobig_outcome)
next
  case False
  then obtain w1 where "replace_out (VText t) (Some (z, d)) w = Inr w1" "w' = terminal w1"
    using assms by (auto simp: sqlite3_result_text_def)
  with False show ?thesis
    by (auto simp: outcome_of_def put_result_def terminal_def dest!: replace_out_ctx)
qed

lemma result_text_outcome:
  assumes r: "result_text s w = Inr (r, w')" and f: "heap w (next_addr w) = None"
  shows "outcome_of w' = spec_text (len_limit w) s (outcome_of w) \<and> len_limit w' = len_limit w"
proof -
  consider (nul) "nul \<in> set s" | (long) "nul \<notin> set s" "2 ^ 31 \<le> length s"
    | (fits) "nul \<notin> set s" "length s < 2 ^ 31" by fastforce
  then show ?thesis
  proof cases
    case nul
    then show ?thesis using r result_text_nul [OF nul, of w] by (auto simp: spec_text_def)
  next
    case long
    then show ?thesis using r result_text_too_long [OF long f]
      by (auto simp: spec_text_def outcome_of_def)
  next
    case fits
    let ?n = "word_of_nat (length s) :: i32" and ?a = "next_addr w"
    let ?w1 = "into_raw ?a (snd (rust_alloc (CBuf s) w))"
    have n: "try_into_i32 (length s) = Some ?n" using fits(2) by (simp add: try_into_i32_def)
    have m: "read_c_text (s @ [nul]) ?n = Inr s"
      using try_into_i32_sint [OF n] by (rule read_c_text_exact)
    have c: "c_mem ?w1 ?a = Some (s @ [nul])"
      by (simp add: c_mem_def rust_alloc_def into_raw_def Let_def)
    have "sqlite3_result_text ?a ?n Result_text_destructor ?w1 = Inr w'"
      using r fits n by (simp add: result_text_def rust_alloc_def unit_ok_def Let_def)
    from sqlite3_result_text_outcome [OF c m this] fits show ?thesis
      by (simp add: spec_text_def outcome_of_def put_result_def rust_alloc_def into_raw_def Let_def)
  qed
qed

lemma result_text_Ok:
  "nul \<notin> set s \<Longrightarrow> length s < 2 ^ 31 \<Longrightarrow> result_text s w = Inr (r, w') \<Longrightarrow> r = Ok ()"
  by (auto simp: result_text_def try_into_i32_def unit_ok_def Let_def split: prod.splits)

lemma result_int_outcome:
  "result_int i w = Inr w' \<Longrightarrow>
   outcome_of w' = put_result (RInteger (scast i)) (outcome_of w) \<and> len_limit w' = len_limit w"
  by (auto simp: result_int_def sqlite3_result_int_def dest!: set_out_outcome)

lemma result_int64_outcome:
  "result_int64 i w = Inr w' \<Longrightarrow>
   outcome_of w' = put_result (RInteger i) (outcome_of w) \<and> len_limit w' = len_limit w"
  by (auto simp: result_int64_def sqlite3_result_int64_def dest!: set_out_outcome)

lemma result_double_outcome:
  "result_double f w = Inr w' \<Longrightarrow>
   outcome_of w' = put_result (RFloat f) (outcome_of w) \<and> len_limit w' = len_limit w"
  by (auto simp: result_double_def sqlite3_result_double_def dest!: set_out_outcome)

lemma result_null_outcome:
  "result_null w = Inr w' \<Longrightarrow> outcome_of w' = put_result RNull (outcome_of w) \<and> len_limit w' = len_limit w"
  by (auto simp: result_null_def sqlite3_result_null_def dest!: set_out_outcome)

lemma result_bool_outcome:
  "result_bool b w = Inr w' \<Longrightarrow>
   outcome_of w' = put_result (RInteger (if b then 1 else 0)) (outcome_of w) \<and> len_limit w' = len_limit w"
  by (auto simp: result_bool_def dest!: result_int_outcome)

lemma result_blob_outcome:
  assumes "length b < 2 ^ 31" "result_blob b w = Inr w'"
  shows "outcome_of w' = spec_blob (len_limit w) b (outcome_of w) \<and> len_limit w' = len_limit w"
proof -
  have "sint (as_i32 (length b)) = int (length b)"
    using assms(1) try_into_i32_sint [of "length b"] by (simp add: as_i32_def try_into_i32_def)
  with assms(2) show ?thesis
    by (auto simp: result_blob_def sqlite3_result_blob_def spec_blob_def
        dest!: set_error_toobig_outcome set_out_outcome split: if_splits)
qed

lemma result_error_code_outcome:
  "result_error_code c w = Inr w' \<Longrightarrow>
   outcome_of w' = spec_error_code c (outcome_of w) \<and> len_limit w' = len_limit w"
  by (cases "out w")
     (auto simp: result_error_code_def sqlite3_result_error_code_def spec_error_code_def
        outcome_of_def put_result_def terminal_def Let_def dest!: replace_out_ctx)

lemma result_subtype_outcome:
  "outcome_of (result_subtype t w) = (outcome_of w)\<lparr>res_subtype := Some t\<rparr> \<and>
   len_limit (result_subtype t w) = len_limit w"
  by (simp add: result_subtype_def sqlite3_result_subtype_def outcome_of_def ucast_up_ucast_id is_up)

lemma release_out_outcome:
  "release_out w = Inr w' \<Longrightarrow>
   outcome_of w' = (outcome_of w)\<lparr>res_value := RNull, res_subtype := None\<rparr> \<and> len_limit w' = len_limit w"
  by (auto simp: outcome_of_def dest!: release_out_ctx)

lemma result_pointer_outcome:
  assumes b: "boundary_ok [] w" and r: "result_pointer n x w = Inr w'"
  shows "outcome_of w' = put_result (RPointer n (Some x)) (outcome_of w) \<and> len_limit w' = len_limit w"
proof -
  obtain w1 where "result_pointer n x w = Inr w1" "out w1 = VPointer (next_addr w) n"
    "heap w1 (next_addr w) = Some (CBox x)"
    using result_pointer_fresh [OF b] by blast
  moreover have "out_subtype w' = None \<and> is_error w' = is_error w \<and> len_limit w' = len_limit w"
    using r by (auto simp: result_pointer_def sqlite3_result_pointer_def rust_alloc_def into_raw_def
        terminal_def Let_def dest!: replace_out_ctx)
  ultimately show ?thesis using r by (simp add: outcome_of_def put_result_def)
qed

lemma result_json_outcome:
  assumes r: "result_json v w = Inr (r, w')" and f: "heap w (next_addr w) = None"
  shows "outcome_of w' = spec_json (len_limit w) v (outcome_of w) \<and> len_limit w' = len_limit w"
proof -
  let ?s = "json_to_string v"
  have n: "nul \<notin> set ?s" by (rule json_to_string_no_nul)
  obtain r1 w1 where t: "result_text ?s w = Inr (r1, w1)"
    using r unfolding result_json_def by (cases "result_text ?s w") auto
  have j: "result_json v w = (case r1 of Ok u \<Rightarrow> Inr (Ok (), result_subtype (of_char CHR ''J'') w1)
                               | Err e \<Rightarrow> Inr (Err e, w1))"
    unfolding result_json_def t by (cases r1) (auto split: unit.splits)
  note o1 = result_text_outcome [OF t f]
  show ?thesis
  proof (cases "2 ^ 31 \<le> length ?s")
    case True
    then have "r1 = Err (Message ''i32 overflow, string to large'') \<and> w1 = w\<lparr>next_addr := Suc (next_addr w)\<rparr>"
      using t result_text_too_long [OF n True f] by simp
    then have "w' = w1" using r j by simp
    with True o1 show ?thesis by (simp add: spec_json_def spec_text_def Let_def)
  next
    case False
    then have "r1 = Ok ()" using result_text_Ok [OF n _ t] by simp
    then have "w' = result_subtype (of_char CHR ''J'') w1" using r j by simp
    with False o1 show ?thesis
      by (simp add: spec_json_def result_subtype_outcome Let_def)
  qed
qed

lemma unit_ok_Inr: "unit_ok f = Inr (r, w') \<Longrightarrow> f = Inr w'"
  by (auto simp: unit_ok_def)

lemma integer_parse_outcome:
  assumes "parse_i64 v = Some i"
    and "(case parse_i32 v of Some x \<Rightarrow> unit_ok (result_int x w)
          | None \<Rightarrow> (case parse_i64 v of Some x \<Rightarrow> unit_ok (result_int64 x w) | None \<Rightarrow> R))
        = Inr (r, w')"
  shows "outcome_of w' = put_result (RInteger i) (outcome_of w) \<and> len_limit w' = len_limit w"
proof (cases "parse_i32 v")
  case None
  with assms show ?thesis by (auto dest!: unit_ok_Inr result_int64_outcome)
next
  case (Some x)
  then have "i = scast x" using assms(1) by (auto dest: parse_i32_i64)
  with Some assms(2) show ?thesis by (auto dest!: unit_ok_Inr result_int_outcome)
qed

lemma affinity_real_outcome:
  assumes f: "heap w (next_addr w) = None"
    and r: "(case parse_f64 v of Some f \<Rightarrow> unit_ok (result_double f w) | None \<Rightarrow> result_text v w) = Inr (r, w')"
  shows "outcome_of w' = spec_affinity (len_limit w) ColumnAffinity.Real v (outcome_of w) \<and>
      len_limit w' = len_limit w"
proof (cases "parse_f64 v")
  case None
  with r show ?thesis using result_text_outcome [OF _ f] by (simp add: affinity_value_def spec_affinity_def)
next
  case (Some x)
  with r show ?thesis by (auto simp: affinity_value_def spec_affinity_def dest!: unit_ok_Inr result_double_outcome)
qed

lemma affinity_outcome:
  assumes r: "ColumnAffinity_result_text a v w = Inr (r, w')" and f: "heap w (next_addr w) = None"
  shows "outcome_of w' = spec_affinity (len_limit w) a v (outcome_of w) \<and> len_limit w' = len_limit w"
proof (cases "parse_i64 v")
  case None
  then have n32: "parse_i32 v = None" by (rule parse_i64_None)
  note real = affinity_real_outcome [OF f]
  show ?thesis
  proof (cases a)
    case Numeric
    with r real None n32 show ?thesis
      by (simp add: ColumnAffinity_result_text_def affinity_value_def spec_affinity_def)
  next
    case Integer
    with r None n32 show ?thesis using result_text_outcome [OF _ f]
      by (simp add: ColumnAffinity_result_text_def affinity_value_def spec_affinity_def)
  qed (use r real result_text_outcome [OF _ f] in
        \<open>simp_all add: ColumnAffinity_result_text_def affinity_value_def spec_affinity_def\<close>)
next
  case (Some i)
  note real = affinity_real_outcome [OF f]
  show ?thesis
  proof (cases a)
    case Real
    with r real show ?thesis by (simp add: ColumnAffinity_result_text_def)
  next
    case Integer
    with r show ?thesis using integer_parse_outcome [OF Some]
      by (simp add: ColumnAffinity_result_text_def affinity_value_def spec_affinity_def Some)
  next
    case Numeric
    with r show ?thesis using integer_parse_outcome [OF Some]
      by (simp add: ColumnAffinity_result_text_def affinity_value_def spec_affinity_def Some)
  next
    case Blob
    with r show ?thesis using result_text_outcome [OF _ f]
      by (simp add: ColumnAffinity_result_text_def affinity_value_def spec_affinity_def)
  next
    case Text
    with r show ?thesis using result_text_outcome [OF _ f]
      by (simp add: ColumnAffinity_result_text_def affinity_value_def spec_affinity_def)
  qed
qed


subsection \<open>One call against the specification\<close>

lemma run_call_outcome:
  assumes b: "boundary_ok [] w" and c: "call_in_bounds c" and r: "run_call c w = Inr w'"
  shows "outcome_of w' = spec_step (len_limit w) c (outcome_of w) \<and> len_limit w' = len_limit w"
proof -
  have f: "heap w (next_addr w) = None" by (rule boundary_ok_fresh [OF b])
  show ?thesis
  proof (cases c)
    case (Call_text s)
    with r show ?thesis by (auto dest!: result_text_outcome [OF _ f])
  next
    case (Call_blob x)
    with r c show ?thesis using result_blob_outcome [of x w w'] by simp
  next
    case (Call_json v)
    with r show ?thesis by (auto dest!: result_json_outcome [OF _ f])
  next
    case (Call_affinity a v)
    with r show ?thesis by (auto dest!: affinity_outcome [OF _ f])
  next
    case (Call_pointer n x)
    with r show ?thesis by (auto dest!: result_pointer_outcome [OF b])
  next
    case (Call_subtype t)
    with r show ?thesis by (auto simp: result_subtype_outcome)
  qed (use r in \<open>auto dest!: result_int_outcome result_int64_outcome result_double_outcome
         result_null_outcome result_bool_outcome result_error_code_outcome release_out_outcome\<close>)
qed

subsection \<open>Whole invocations\<close>

text \<open>C3: the result sink refines its one-shot-write specification: from any
  reachable world, an invocation of in-bounds calls runs to its end, and the outcome
  it leaves (value, subtype, error code) is the specification's \<open>spec_step\<close> folded
  over the calls from the outcome before; the heap, the addresses and the
  destructors are invisible in it.\<close>

theorem invocation_refines_spec:
  assumes "reachable w" "list_all call_in_bounds cs"
  shows "\<exists>w'. run_script cs w = Inr w' \<and> outcome_of w' = fold (spec_step (len_limit w)) cs (outcome_of w)"
  using assms
proof (induction cs arbitrary: w)
  case Nil
  then show ?case by simp
next
  case (Cons c cs)
  obtain w1 where r: "run_call c w = Inr w1"
    using run_call_boundary [OF reachable_boundary [OF Cons.prems(1)]] Cons.prems(2) by auto
  have o: "outcome_of w1 = spec_step (len_limit w) c (outcome_of w) \<and> len_limit w1 = len_limit w"
    using run_call_outcome [OF reachable_boundary [OF Cons.prems(1)] _ r] Cons.prems(2) by simp
  have "reachable w1" using Cons.prems(1) r by (rule reachable.step)
  with Cons.IH [of w1] Cons.prems(2) r o show ?case by simp
qed

theorem invocation_refines_spec_witness:
  "reachable (init_world :: nat world) \<and>
   list_all call_in_bounds [Call_text ''abc'', Call_subtype 7, Call_pointer ''p'' (5 :: nat), Call_int 3] \<and>
   (\<exists>w'. run_script [Call_text ''abc'', Call_subtype 7, Call_pointer ''p'' (5 :: nat), Call_int 3] init_world = Inr w' \<and>
         outcome_of w' = \<lparr>res_value = RInteger 3, res_subtype = None, res_error = 0\<rparr>)"
proof -
  let ?cs = "[Call_text ''abc'', Call_subtype 7, Call_pointer ''p'' (5 :: nat), Call_int 3]"
  have l: "list_all call_in_bounds ?cs" by simp
  obtain w' where s: "run_script ?cs init_world = Inr w'"
    and o: "outcome_of w' = fold (spec_step (len_limit (init_world :: nat world))) ?cs (outcome_of init_world)"
    using invocation_refines_spec [OF reachable.init l] by blast
  have f: "fold (spec_step (len_limit (init_world :: nat world))) ?cs (outcome_of init_world) =
      \<lparr>res_value = RInteger 3, res_subtype = None, res_error = 0\<rparr>"
    by (simp add: outcome_of_def init_world_def put_result_def spec_text_def nul_def)
  show ?thesis using reachable.init l s o f by metis
qed

end
