(* ===== verification/Mprintf.thy ===== *)
theory Mprintf
  imports Host_Context
begin

text \<open>
  HostAllocation (\<open>src/api.rs\<close>, \<open>enum MprintfError\<close> and \<open>fn mprintf\<close>): a Rust
  string copied into memory the host allocates, by handing it to \<open>sqlite3_mprintf\<close>.
  The \<open>CString\<close> made for the call is dropped when the function returns. The
  string is passed as the format of \<open>sqlite3_mprintf\<close>, so the host interprets the
  \<open>%\<close> directives in it.
\<close>

datatype MprintfError = Nul nat | Oom

text \<open>\<open>Result<*mut c_char, MprintfError>\<close> is \<open>MprintfError + addr\<close>, the error on
  the left.\<close>

definition mprintf :: "string \<Rightarrow> 'a world \<Rightarrow> fault + (MprintfError + addr) \<times> 'a world" where
  "mprintf base w =
     (case cstring_new base of
        Inl pos \<Rightarrow> Inr (Inl (Nul pos), w)
      | Inr bytes \<Rightarrow>
          (let (cbase, w1) = rust_alloc (CBuf bytes) w in
           case sqlite3_mprintf (bytes @ [nul]) w1 of
             Inl e \<Rightarrow> Inl e
           | Inr (result, w2) \<Rightarrow>
               map_sum id (\<lambda>w3. (if result = NULL then Inl Oom else Inr result, w3))
                 (rust_drop cbase w2)))"

subsection \<open>The format the host applies\<close>

lemma sqlite_format_no_percent: "CHR ''%'' \<notin> set s \<Longrightarrow> sqlite_format s = Inr s"
  by (induction s) (simp_all add: eq_commute [of "CHR ''%''"])

lemma sqlite_format_prefix:
  "CHR ''%'' \<notin> set pre \<Longrightarrow> sqlite_format (pre @ r) = map_sum id ((@) pre) (sqlite_format r)"
proof (induction pre)
  case Nil
  then show ?case by (cases "sqlite_format r") simp_all
next
  case (Cons a pre)
  then have "sqlite_format ((a # pre) @ r) = map_sum id (Cons a) (sqlite_format (pre @ r))"
    by (simp add: eq_commute [of "CHR ''%''"])
  with Cons show ?case by (cases "sqlite_format r") simp_all
qed

lemma sqlite_format_conversion:
  "x \<in> set fmt_conversions \<Longrightarrow> x \<notin> set fmt_spec_chars \<Longrightarrow>
   sqlite_format (CHR ''%'' # x # r) = Inl (Undefined ''printf conversion without an argument'')"
  by (auto simp: fmt_conversions_def fmt_spec_chars_def)

lemma cstr_from_ptr_terminated_nul: "nul \<notin> set s \<Longrightarrow> cstr_from_ptr (s @ [nul]) = s"
  by (simp add: cstr_from_ptr_def takeWhile_not_nul_append)

text \<open>C26: a string without nul byte and without \<open>%\<close> is copied: when the host
  allocator succeeds, \<open>mprintf\<close> returns a host buffer holding exactly the string, and
  the temporary \<open>CString\<close> is freed.\<close>

theorem mprintf_copies:
  assumes "nul \<notin> set s" "CHR ''%'' \<notin> set s" "\<not> oom w" "heap w (next_addr w) = None"
  shows "\<exists>p w'. mprintf s w = Inr (Inr p, w') \<and> heap w' p = Some (SqlBuf s) \<and>
                heap w' (next_addr w) = None \<and> rust_owned w' = rust_owned w"
  using assms
  by (simp add: mprintf_def rust_alloc_def sqlite3_mprintf_def cstr_from_ptr_terminated_nul
      sqlite_format_no_percent rust_drop_def free_cell_def NULL_def Let_def)

text \<open>C21: the string is used as a format: a conversion such as \<open>%s\<close> in it makes
  the host read a variadic argument that is not there, which is undefined
  behaviour.\<close>

theorem mprintf_format_ub:
  assumes "nul \<notin> set (pre @ post)" "CHR ''%'' \<notin> set pre"
  shows "mprintf (pre @ ''%s'' @ post) w = Inl (Undefined ''printf conversion without an argument'')"
proof -
  have "nul \<notin> set (pre @ ''%s'' @ post)" using assms(1) by (simp add: nul_def)
  then have c: "cstr_from_ptr ((pre @ ''%s'' @ post) @ [nul]) = pre @ ''%s'' @ post"
    by (rule cstr_from_ptr_terminated_nul)
  moreover have "sqlite_format (pre @ ''%s'' @ post) = Inl (Undefined ''printf conversion without an argument'')"
    using assms(2) by (simp add: sqlite_format_prefix sqlite_format_conversion fmt_conversions_def
        fmt_spec_chars_def)
  ultimately show ?thesis
    using \<open>nul \<notin> set (pre @ ''%s'' @ post)\<close>
    by (simp add: mprintf_def rust_alloc_def sqlite3_mprintf_def Let_def)
qed

theorem mprintf_copies_witness:
  "\<exists>p w'. mprintf ''no such table'' (init_world :: unit world) = Inr (Inr p, w') \<and>
          heap w' p = Some (SqlBuf ''no such table'') \<and> heap w' 1 = None \<and> rust_owned w' = []"
  using mprintf_copies [of "''no such table''" "init_world :: unit world"]
  by (simp add: init_world_def nul_def)

theorem mprintf_format_ub_witness:
  "mprintf (''bad '' @ ''%s'' @ []) (init_world :: unit world) =
     Inl (Undefined ''printf conversion without an argument'')"
  using mprintf_format_ub [of "''bad ''" "[]" "init_world :: unit world"] by (simp add: nul_def)

text \<open>C30: when the host allocator fails, \<open>mprintf\<close> returns \<open>Err(Oom)\<close> and frees
  its \<open>CString\<close>.\<close>

theorem mprintf_oom:
  assumes "nul \<notin> set s" "CHR ''%'' \<notin> set s" "oom w" "heap w (next_addr w) = None"
  shows "mprintf s w = Inr (Inl Oom, w\<lparr>next_addr := Suc (next_addr w)\<rparr>)"
  using assms
  by (simp add: mprintf_def rust_alloc_def sqlite3_mprintf_def cstr_from_ptr_terminated_nul
      sqlite_format_no_percent rust_drop_def free_cell_def NULL_def Let_def fun_upd_idem)

theorem mprintf_oom_witness:
  "mprintf ''x'' (init_world\<lparr>oom := True\<rparr> :: unit world) =
     Inr (Inl Oom, (init_world\<lparr>oom := True\<rparr>)\<lparr>next_addr := 2\<rparr>)"
  using mprintf_oom [of "''x''" "init_world\<lparr>oom := True\<rparr> :: unit world"]
  by (simp add: init_world_def nul_def)

end
