(* ===== verification/Spec2Isabelle.thy ===== *)
theory Spec2Isabelle
  imports Result_Spec Mprintf
begin

text \<open>
  \<^bold>\<open>A verification library for the SQLite extension API wrappers of
  \<open>src/src/api.rs\<close>.\<close>

  \<^bold>\<open>The program.\<close> \<open>api.rs\<close> is a thin safe layer over the SQLite C API that an
  extension function is called with. It has four parts:
  \<^item> ValueAccessor: the \<open>Value\<close> struct and the free functions \<open>value_text\<close>,
    \<open>value_int\<close>, \<open>value_int64\<close>, \<open>value_double\<close>, \<open>value_blob\<close>,
    \<open>value_bytes\<close>, \<open>value_pointer\<close>, which read an argument handle through the
    host's \<open>sqlite3_value_*\<close> functions;
  \<^item> TypeTag: \<open>enum ValueType\<close> and \<open>value_type\<close>, the decoding of the host's
    storage-class code;
  \<^item> ResultSink: \<open>result_text\<close>, \<open>result_int\<close>, \<open>result_int64\<close>,
    \<open>result_double\<close>, \<open>result_blob\<close>, \<open>result_null\<close>, \<open>result_error\<close>,
    \<open>result_error_code\<close>, \<open>result_bool\<close>, \<open>result_json\<close>, \<open>result_subtype\<close>,
    \<open>result_pointer\<close>, \<open>auxdata_set\<close>, \<open>auxdata_get\<close> and \<open>mprintf\<close>, which
    write the invocation's result through \<open>sqlite3_result_*\<close>, handing Rust
    allocations to the host with a destructor (\<open>result_text_destructor\<close>,
    \<open>pointer_destroy\<close>);
  \<^item> AffinityResolver: \<open>ColumnAffinity\<close>, \<open>from_declared_type\<close>,
    \<open>ColumnAffinity::result_text\<close>, \<open>ExtendedColumnAffinity\<close> and
    \<open>extended_column_affinity_from_type\<close>, which classify a declared column type
    and coerce a text to the affinity before it is written as the result.

  \<^bold>\<open>The theories.\<close>
  \<^item> \<open>Prelude\<close>: the machine types (\<open>i32\<close>, \<open>i64\<close>, \<open>u8\<close>, \<open>u32\<close> as words),
    strings as byte lists (an Isabelle \<open>char\<close> is a byte), the fault type
    (\<open>Panic\<close>, \<open>Undefined\<close>: a panic or undefined behaviour is a value \<open>Inl\<close> of
    \<open>fault + 'a\<close>), and generic lemmas on lists, sums and words.
  \<^item> \<open>Rust_Std\<close>: the parts of Rust's standard library the wrappers call, as they
    behave: \<open>CString::new\<close> (nul check), \<open>CStr::from_ptr\<close>, \<open>str::from_utf8\<close>
    (RFC 3629), \<open>to_lowercase\<close> (ASCII letters only, see below), \<open>trim\<close> (the 25
    Unicode white-space characters in UTF-8), \<open>str::contains\<close> (proved equal to
    \<open>sublist\<close>), \<open>str::parse\<close> for \<open>i32\<close>, \<open>i64\<close> (in range exactly) and
    \<open>f64\<close>, \<open>try_into\<close> and \<open>as\<close> casts of lengths.
  \<^item> \<open>Value_Type\<close>: \<open>ValueType\<close> and the decoding \<open>value_type_of_raw\<close>.
  \<^item> \<open>Host_Value\<close>, \<open>Host_Memory\<close>, \<open>Host_Context\<close>: the host (SQLite), modelled
    from its documentation since its code is not in the repository: a value
    (\<open>sqlite_value\<close>) and the \<open>sqlite3_value_*\<close> readers with the host's numeric
    coercions as the interface record \<open>host_conv\<close>; the world the invocation
    runs in (\<open>'a world\<close>: a heap of Rust allocations, the Rust owners in scope,
    the result with its destructor and subtype, the error code, the auxiliary
    data list, the length limit); the \<open>sqlite3_result_*\<close> setters, which release
    the previous result by calling its destructor.
  \<^item> \<open>Result_Sink\<close>: the result wrappers, each performing the calls of the Rust
    function in its order on the world, with \<open>crate::Result\<close> as \<open>rust_result\<close>.
  \<^item> \<open>Affinity\<close>: the classification and coercion, the abstract affinity
    specification \<open>affinity_value\<close> and the map \<open>core_affinity\<close>.
  \<^item> \<open>Value_Access\<close>: \<open>Value\<close> and the readers.
  \<^item> \<open>Ownership\<close>: the ownership contract of the boundary as an invariant
    (\<open>ledger_ok\<close>: every Rust allocation has exactly one owner, counting transfers
    in progress; \<open>dtors_ok\<close>: every destructor the host holds fits its memory), the
    calls of the result sink and SQLite's release of the result as a step relation
    (\<open>wrapper_call\<close>, \<open>run_call\<close>, the inductive \<open>reachable\<close>), whole
    invocations (\<open>run_script\<close>) and SQLite's teardown (\<open>host_teardown\<close>,
    in \<open>Host_Context\<close>).
  \<^item> \<open>Result_Spec\<close>: the one-shot-write contract of the result (sections 3, 4.2
    and 9 of the specification) as an abstract state \<open>'a outcome\<close> (the value as
    the closed sum \<open>result_value\<close>, the subtype, the error code) with its step
    \<open>spec_step\<close>, and the abstraction \<open>outcome_of\<close> of a world, which hides the
    heap, addresses, destructors and owners and reads a pointer result through the
    heap to its object.
  \<^item> \<open>Mprintf\<close>: HostAllocation, \<open>MprintfError\<close> and \<open>mprintf\<close> over the host's
    \<open>sqlite3_mprintf\<close>.

  \<^bold>\<open>What is shown.\<close>
  \<^item> AffinityResolver: the classification rules and their precedence; the extended
    classification refines the core one except on white-space-only types; the
    coercion refines SQLite's affinity rules (\<open>affinity_value\<close>); INTEGER affinity
    never writes a real; a text holding a nul byte fails with \<open>NulError\<close>.
  \<^item> TypeTag: decoding inverts the host's encoding and panics on any other code.
  \<^item> ValueAccessor: the null guard, \<open>Value::at\<close> and its cached type tag;
    \<open>value_blob\<close> on an empty blob is undefined behaviour.
  \<^item> ResultSink: the text round trip through the host; \<open>result_text\<close> on a
    text over the host's length limit returns \<open>Ok(())\<close> with the result set to
    \<open>SQLITE_TOOBIG\<close> and its copy released, and fails with a message from \<open>2^31\<close>
    bytes; \<open>result_json\<close> always
    succeeds with subtype \<open>'J'\<close>; the \<open>as c_int\<close> cast of blob lengths (undefined
    behaviour from \<open>2^31\<close> bytes, truncation from \<open>2^32\<close>).
  \<^item> Ownership: the invariant holds in every reachable world (rule induction) and
    every call in bounds returns there; every invocation of in-bounds calls runs to
    its end, and SQLite's teardown then frees every Rust allocation;
    \<open>result_error\<close> leaks its \<open>CString\<close>;
    \<open>value_pointer\<close> after \<open>result_pointer\<close> gives a box two owners and ends in a
    double free.
  \<^item> Result contract: every call of the result sink refines \<open>spec_step\<close> under
    \<open>outcome_of\<close> (one lemma per wrapper, each branch of the source included), and so
    does every whole invocation from a reachable world: the last terminal write
    wins and clears the subtype, \<open>result_json\<close> sets \<open>'J'\<close> after its text, the
    error code is sticky, over-long values become \<open>SQLITE_TOOBIG\<close>, failing calls
    change nothing.
  \<^item> HostAllocation: \<open>mprintf\<close> copies a string without \<open>%\<close>, reports \<open>Oom\<close>, and is
    undefined behaviour on a string holding a conversion such as \<open>%s\<close>.

  \<^bold>\<open>Bounds.\<close> No fuel is used: every loop of the model is structural recursion or
  a \<open>function\<close> with a measure (\<open>trim\<close>, UTF-8 validation, the printf scan). The
  length bound \<open>2^31\<close> in the hypotheses is SQLite's hard limit on the length of a
  string or blob; \<open>call_in_bounds\<close> keeps blobs below it, the only call whose
  behaviour depends on it.

  \<^bold>\<open>Abstractions.\<close> \<open>to_lowercase\<close> is modelled on ASCII letters only: the
  classification only tests ASCII words, and a multi-byte lower-casing never
  produces an ASCII letter. \<open>f64\<close> values are exact rationals plus the infinities
  and NaN: the rounding of \<open>str::parse::<f64>\<close> is not modelled. The host's
  \<open>printf\<close> flag loop is simplified to skipping the characters it accepts.

  \<^bold>\<open>Not modelled.\<close> Every function, type and method of \<open>src/api.rs\<close> has a
  definition here; what the file has besides is its \<open>use\<close> list and comments.
  The FFI bindings (\<open>crate::ext\<close>, \<open>sqlite3ext_sys\<close>) are the host primitives
  above; \<open>serde_json\<close>'s float printing; SQLite's own
  storage and query engine, which the wrappers never reach. \<open>auxdata_set\<close> passes
  a caller's raw pointer and destructor through unchanged, so its calls are not
  steps of the ownership relation (whether they keep the contract depends on the
  caller); the invariant still covers the entries the host holds.
\<close>

section \<open>Properties across components\<close>

text \<open>C4: a text written with \<open>result_text\<close> reads back unchanged through
  \<open>value_text\<close> of the result: \<open>CString::new\<close>, the host's copy and
  \<open>CStr::from_ptr\<close> with \<open>str::from_utf8\<close> compose to the identity on every valid
  Rust string without nul byte that the host accepts.\<close>

theorem text_roundtrip:
  assumes "utf8_valid s" "nul \<notin> set s" "length s < 2 ^ 31" "length s \<le> len_limit w"
    "out_dtor w = None"
  shows "\<exists>w'. result_text s w = Inr (Ok (), w') \<and> value_text hc (out w') = Inr (Ok s)"
proof -
  have c: "cstr_from_ptr (s @ [nul]) = s"
    using assms(2) by (simp add: cstr_from_ptr_def takeWhile_not_nul_append)
  show ?thesis
    using assms c by (simp add: result_text_ok value_text_def)
qed

theorem text_roundtrip_witness:
  "\<exists>w'. result_text (''h'' @ [CHR 0xC3, CHR 0xA9] @ ''llo'') (init_world :: unit world) = Inr (Ok (), w') \<and>
        value_text sample_conv (out w') = Inr (Ok (''h'' @ [CHR 0xC3, CHR 0xA9] @ ''llo''))"
proof -
  have u: "utf8_valid (''h'' @ [CHR 0xC3, CHR 0xA9] @ ''llo'')" by code_simp
  show ?thesis
    using text_roundtrip [OF u, of "init_world :: unit world" sample_conv]
    by (simp add: init_world_def nul_def)
qed

end
